theory Spec2Isabelle
  imports Main "HOL-Library.Word"
begin

section \<open>The ONTAP REST client: data model\<close>

text \<open>
  The hand-written orchestration layer \<open>RestClient\<close> (package \<open>api\<close>) is embedded
  function by function. A Go pointer \<open>*T\<close> is a \<open>T option\<close> with \<open>None\<close> for
  \<open>nil\<close>; a Go \<open>int64\<close> is a \<open>64 word\<close>; a Go \<open>string\<close> is a \<open>string\<close>; a Go
  slice is a \<open>list option\<close> with \<open>None\<close> for the nil slice. Only the struct fields that
  the embedded functions read or write are kept. Logging, the request context and the
  HTTP time-out carried by every parameter struct have no effect on control flow and
  are left out.
\<close>

subsection \<open>Jobs\<close>

record JobLink =
  JobLink_UUID :: "string option"

record JobLinkResponse =
  JobLinkResponse_Job :: "JobLink option"

record Job =
  Job_UUID :: "string option"
  Job_Description :: "string option"
  Job_State :: "string option"
  Job_Message :: "string option"
  Job_Code :: "64 word option"

record JobGetOK =
  JobGetOK_Payload :: "Job option"

record JobGetParams =
  JobGetParams_UUID :: string
  JobGetParams_Fields :: "string list"

text \<open>
  The job states are the enumeration values of the generated \<open>models\<close> package
  (\<open>models.JobStateSuccess\<close> and so on), which the REST interface writes in lower case.
\<close>

definition JobStateQueued :: string where "JobStateQueued = ''queued''"
definition JobStateRunning :: string where "JobStateRunning = ''running''"
definition JobStatePaused :: string where "JobStatePaused = ''paused''"
definition JobStateSuccess :: string where "JobStateSuccess = ''success''"
definition JobStateFailure :: string where "JobStateFailure = ''failure''"

subsection \<open>Errors\<close>

text \<open>
  A Go \<open>error\<close> is a value of \<open>error\<close>; \<open>error option\<close> is the interface value, \<open>None\<close>
  being \<open>nil\<close>. \<open>Errorf\<close> keeps the format string of \<open>fmt.Errorf\<close> and its arguments
  as they are passed; an argument that is a pointer is printed by Go as an address and
  is kept as the token \<open>''<pointer>''\<close>. \<open>TransportError\<close> stands for whatever error
  the generated REST client hands back.

  Modelled from the spec: \<open>NewRestErrorFromPayload\<close> is a function of this package
  declared outside \<open>RestClient\<close>'s file. It builds an error value from the job payload;
  \<open>RestErrorFromPayload\<close> is that value, holding the payload it was built from.
\<close>

datatype error =
    Errorf string "string list"
  | NotFoundError string
  | TransportError string
  | RestErrorFromPayload "Job option"

subsection \<open>Volumes and volume collections\<close>

record Href =
  Href_Href :: "string option"

record VolumeResponseInlineLinks =
  Links_Next :: "Href option"
  Links_Self :: "Href option"

record VolumeInlineNasInlineExportPolicy =
  ExportPolicy_Name :: "string option"

record VolumeInlineNas =
  Nas_Path :: "string option"
  Nas_ExportPolicy :: "VolumeInlineNasInlineExportPolicy option"
  Nas_UnixPermissions :: "64 word option"
  Nas_SecurityStyle :: "string option"

record VolumeInlineGuarantee =
  Guarantee_Type :: "string option"

record VolumeInlineSnapshotPolicy =
  SnapshotPolicy_Name :: "string option"

record VolumeInlineAggregatesInlineArrayItem =
  AggregatesItem_Name :: "string option"

record VolumeInlineSpaceInlineSnapshot =
  SpaceSnapshot_ReservePercent :: "64 word option"

record VolumeInlineSpace =
  Space_Snapshot :: "VolumeInlineSpaceInlineSnapshot option"

record VolumeInlineSvm =
  Svm_UUID :: "string option"

record VolumeInlineEncryption =
  Encryption_Enabled :: "bool option"

record VolumeInlineQosInlinePolicy =
  QosPolicy_Name :: "string option"

record VolumeInlineQos =
  Qos_Policy :: "VolumeInlineQosInlinePolicy option"

record VolumeInlineTiering =
  Tiering_Policy :: "string option"

record VolumeInlineClone =
  Clone_SplitInitiated :: "bool option"

record VolumeInlineQuota =
  Quota_Enabled :: "bool option"

record Volume =
  Volume_Name :: "string option"
  Volume_UUID :: "string option"
  Volume_Size :: "64 word option"
  Volume_Comment :: "string option"
  Volume_State :: "string option"
  Volume_Style :: "string option"
  Volume_Type :: "string option"
  Volume_Guarantee :: "VolumeInlineGuarantee option"
  Volume_SnapshotPolicy :: "VolumeInlineSnapshotPolicy option"
  Volume_VolumeInlineAggregates :: "VolumeInlineAggregatesInlineArrayItem option list option"
  Volume_Space :: "VolumeInlineSpace option"
  Volume_Svm :: "VolumeInlineSvm option"
  Volume_Encryption :: "VolumeInlineEncryption option"
  Volume_Qos :: "VolumeInlineQos option"
  Volume_Tiering :: "VolumeInlineTiering option"
  Volume_Nas :: "VolumeInlineNas option"
  Volume_Clone :: "VolumeInlineClone option"
  Volume_SnapshotDirectoryAccessEnabled :: "bool option"
  Volume_Quota :: "VolumeInlineQuota option"

text \<open>\<open>&models.Volume{}\<close>: every field is nil.\<close>

definition Volume_zero :: Volume where
  "Volume_zero = \<lparr>Volume_Name = None, Volume_UUID = None, Volume_Size = None,
     Volume_Comment = None, Volume_State = None, Volume_Style = None, Volume_Type = None,
     Volume_Guarantee = None, Volume_SnapshotPolicy = None,
     Volume_VolumeInlineAggregates = None, Volume_Space = None, Volume_Svm = None,
     Volume_Encryption = None, Volume_Qos = None, Volume_Tiering = None, Volume_Nas = None,
     Volume_Clone = None, Volume_SnapshotDirectoryAccessEnabled = None,
     Volume_Quota = None\<rparr>"

definition VolumeInlineNas_zero :: VolumeInlineNas where
  "VolumeInlineNas_zero = \<lparr>Nas_Path = None, Nas_ExportPolicy = None,
     Nas_UnixPermissions = None, Nas_SecurityStyle = None\<rparr>"

record VolumeResponse =
  VolumeResponse_Links :: "VolumeResponseInlineLinks option"
  VolumeResponse_NumRecords :: "64 word option"
  VolumeResponse_VolumeResponseInlineRecords :: "Volume option list option"

record VolumeCollectionGetOK =
  VolumeCollectionGetOK_Payload :: "VolumeResponse option"

record VolumeCollectionGetParams =
  CollectionGet_SvmUUID :: "string option"
  CollectionGet_Name :: "string option"
  CollectionGet_State :: "string option"
  CollectionGet_Style :: "string option"
  CollectionGet_Fields :: "string list"

record VolumeModifyParams =
  Modify_UUID :: string
  Modify_Info :: "Volume option"
  Modify_RestoreToSnapshotName :: "string option"

record VolumeModifyAccepted =
  VolumeModifyAccepted_Payload :: "JobLinkResponse option"

record VolumeDeleteParams =
  Delete_UUID :: string

record VolumeDeleteAccepted =
  VolumeDeleteAccepted_Payload :: "JobLinkResponse option"

record VolumeCreateParams =
  Create_Info :: "Volume option"

record VolumeCreateAccepted =
  VolumeCreateAccepted_Payload :: "JobLinkResponse option"

text \<open>
  The aggregate and the NVMe subsystem collections. The generated models are not among
  the files; the records below have the fields that \<open>AggregateList\<close> and
  \<open>NVMeSubsystemList\<close> read and write, and of a listed item only its name, which neither
  function reads.
\<close>

record Aggregate =
  Aggregate_Name :: "string option"

record AggregateResponseInlineLinks =
  AggregateLinks_Next :: "Href option"
  AggregateLinks_Self :: "Href option"

record AggregateResponse =
  AggregateResponse_Links :: "AggregateResponseInlineLinks option"
  AggregateResponse_NumRecords :: "64 word option"
  AggregateResponse_AggregateResponseInlineRecords :: "Aggregate option list option"

record AggregateCollectionGetOK =
  AggregateCollectionGetOK_Payload :: "AggregateResponse option"

record AggregateCollectionGetParams =
  AggregateGet_Name :: "string option"
  AggregateGet_Fields :: "string list"

record NvmeSubsystem =
  NvmeSubsystem_Name :: "string option"

record NvmeSubsystemResponseInlineLinks =
  NvmeSubsystemLinks_Next :: "Href option"
  NvmeSubsystemLinks_Self :: "Href option"

record NvmeSubsystemResponse =
  NvmeSubsystemResponse_Links :: "NvmeSubsystemResponseInlineLinks option"
  NvmeSubsystemResponse_NumRecords :: "64 word option"
  NvmeSubsystemResponse_NvmeSubsystemResponseInlineRecords :: "NvmeSubsystem option list option"

record NvmeSubsystemCollectionGetOK =
  NvmeSubsystemCollectionGetOK_Payload :: "NvmeSubsystemResponse option"

record NvmeSubsystemCollectionGetParams =
  NvmeSubsystemGet_SvmUUID :: "string option"
  NvmeSubsystemGet_Name :: "string option"
  NvmeSubsystemGet_Fields :: "string list"

definition VolumeStyleFlexvol :: string where "VolumeStyleFlexvol = ''flexvol''"
definition VolumeStyleFlexgroup :: string where "VolumeStyleFlexgroup = ''flexgroup''"
definition VolumeStateOnline :: string where "VolumeStateOnline = ''online''"
definition VolumeStateOffline :: string where "VolumeStateOffline = ''offline''"
definition VolumeStateMixed :: string where "VolumeStateMixed = ''mixed''"
definition VolumeStateError :: string where "VolumeStateError = ''error''"

text \<open>
  \<open>QosPolicyGroup\<close> and \<open>NumericalValueNotSet\<close> are declared in this package outside
  \<open>RestClient\<close>'s file: a policy group is a name with a kind whose zero value is the
  invalid kind, and \<open>NumericalValueNotSet\<close> is \<open>-1\<close>.
\<close>

datatype QosPolicyGroupKindType =
  InvalidQosPolicyGroupKind | QosPolicyGroupKind | QosAdaptivePolicyGroupKind

record QosPolicyGroup =
  QosPolicyGroup_Name :: string
  QosPolicyGroup_Kind :: QosPolicyGroupKindType

definition NumericalValueNotSet :: int where "NumericalValueNotSet = - 1"

section \<open>The REST server, calls and outcomes\<close>

text \<open>
  Every call that \<open>RestClient\<close> sends through the generated client is recorded, in
  order, in a trace. The server is a parameter: each endpoint answers from the calls made
  so far and the request, with the pair (result, error) the generated client returns.
  The next-link option of a collection request (\<open>WithNextLink\<close>) is the second
  argument of the call; \<open>None\<close> is a request without it.
\<close>

datatype call =
    VolumeCollectionGet_call VolumeCollectionGetParams "Href option"
  | VolumeModify_call VolumeModifyParams
  | VolumeDelete_call VolumeDeleteParams
  | VolumeCreate_call VolumeCreateParams
  | JobGet_call JobGetParams
  | AggregateCollectionGet_call AggregateCollectionGetParams "Href option"
  | NvmeSubsystemCollectionGet_call NvmeSubsystemCollectionGetParams "Href option"

type_synonym trace = "call list"


fun is_VolumeModify :: "call \<Rightarrow> bool" where
  "is_VolumeModify (VolumeModify_call _) = True"
| "is_VolumeModify _ = False"

fun is_VolumeCollectionGet :: "call \<Rightarrow> bool" where
  "is_VolumeCollectionGet (VolumeCollectionGet_call _ _) = True"
| "is_VolumeCollectionGet _ = False"

fun is_JobGet :: "call \<Rightarrow> bool" where
  "is_JobGet (JobGet_call _) = True"
| "is_JobGet _ = False"

text \<open>
  \<open>retries\<close> is the wall clock seen through the back-off policy: the number of times
  the policy of a retry loop that starts after the given calls answers with a further
  interval before it answers \<open>Stop\<close>. \<open>ParseInt\<close>, \<open>ParseUint\<close> (base 10, 64 bits) and
  \<open>ConvertSizeToBytes\<close> are library functions whose results the client only passes on;
  \<open>ParseInt\<close> is \<open>None\<close> when it returns an error, the other two are used with their
  errors dropped, as the client does.
\<close>

record world =
  srv_VolumeCollectionGet ::
    "trace \<Rightarrow> VolumeCollectionGetParams \<Rightarrow> Href option
      \<Rightarrow> VolumeCollectionGetOK option \<times> error option"
  srv_VolumeModify :: "trace \<Rightarrow> VolumeModifyParams \<Rightarrow> VolumeModifyAccepted option \<times> error option"
  srv_VolumeDelete :: "trace \<Rightarrow> VolumeDeleteParams \<Rightarrow> VolumeDeleteAccepted option \<times> error option"
  srv_VolumeCreate :: "trace \<Rightarrow> VolumeCreateParams \<Rightarrow> VolumeCreateAccepted option \<times> error option"
  srv_JobGet :: "trace \<Rightarrow> JobGetParams \<Rightarrow> JobGetOK option \<times> error option"
  srv_AggregateCollectionGet ::
    "trace \<Rightarrow> AggregateCollectionGetParams \<Rightarrow> Href option
      \<Rightarrow> AggregateCollectionGetOK option \<times> error option"
  srv_NvmeSubsystemCollectionGet ::
    "trace \<Rightarrow> NvmeSubsystemCollectionGetParams \<Rightarrow> Href option
      \<Rightarrow> NvmeSubsystemCollectionGetOK option \<times> error option"
  retries :: "trace \<Rightarrow> nat"
  ParseInt :: "string \<Rightarrow> 64 word option"
  ParseUint :: "string \<Rightarrow> 64 word"
  ConvertSizeToBytes :: "string \<Rightarrow> string"

record RestClient =
  svmUUID :: string
  api :: world

text \<open>
  A call of a Go function either returns, panics (a nil pointer is dereferenced, an index
  is out of range) or never returns. An action takes the trace and gives \<open>None\<close> when it
  never returns, and otherwise the outcome with the trace it leaves.
\<close>

datatype 'a res = Panic | Ret 'a

type_synonym 'a io = "trace \<Rightarrow> ('a res \<times> trace) option"

definition ret :: "'a \<Rightarrow> 'a io" where
  "ret a = (\<lambda>t. Some (Ret a, t))"

definition panic :: "'a io" where
  "panic = (\<lambda>t. Some (Panic, t))"

definition bind_io :: "'a io \<Rightarrow> ('a \<Rightarrow> 'b io) \<Rightarrow> 'b io" where
  "bind_io m f = (\<lambda>t. case m t of
       None \<Rightarrow> None
     | Some (Panic, t') \<Rightarrow> Some (Panic, t')
     | Some (Ret a, t') \<Rightarrow> f a t')"

definition rest_call :: "call \<Rightarrow> (trace \<Rightarrow> 'a) \<Rightarrow> 'a io" where
  "rest_call cl answer = (\<lambda>t. Some (Ret (answer t), t @ [cl]))"

definition api_VolumeCollectionGet ::
  "RestClient \<Rightarrow> VolumeCollectionGetParams \<Rightarrow> Href option
    \<Rightarrow> (VolumeCollectionGetOK option \<times> error option) io" where
  "api_VolumeCollectionGet c params next =
     rest_call (VolumeCollectionGet_call params next)
       (\<lambda>t. srv_VolumeCollectionGet (api c) t params next)"

definition api_VolumeModify ::
  "RestClient \<Rightarrow> VolumeModifyParams \<Rightarrow> (VolumeModifyAccepted option \<times> error option) io" where
  "api_VolumeModify c params =
     rest_call (VolumeModify_call params) (\<lambda>t. srv_VolumeModify (api c) t params)"


definition api_VolumeCreate ::
  "RestClient \<Rightarrow> VolumeCreateParams \<Rightarrow> (VolumeCreateAccepted option \<times> error option) io" where
  "api_VolumeCreate c params =
     rest_call (VolumeCreate_call params) (\<lambda>t. srv_VolumeCreate (api c) t params)"

definition api_AggregateCollectionGet ::
  "RestClient \<Rightarrow> AggregateCollectionGetParams \<Rightarrow> Href option
    \<Rightarrow> (AggregateCollectionGetOK option \<times> error option) io" where
  "api_AggregateCollectionGet c params next =
     rest_call (AggregateCollectionGet_call params next)
       (\<lambda>t. srv_AggregateCollectionGet (api c) t params next)"

definition api_NvmeSubsystemCollectionGet ::
  "RestClient \<Rightarrow> NvmeSubsystemCollectionGetParams \<Rightarrow> Href option
    \<Rightarrow> (NvmeSubsystemCollectionGetOK option \<times> error option) io" where
  "api_NvmeSubsystemCollectionGet c params next =
     rest_call (NvmeSubsystemCollectionGet_call params next)
       (\<lambda>t. srv_NvmeSubsystemCollectionGet (api c) t params next)"

definition api_JobGet ::
  "RestClient \<Rightarrow> JobGetParams \<Rightarrow> (JobGetOK option \<times> error option) io" where
  "api_JobGet c params =
     rest_call (JobGet_call params) (\<lambda>t. srv_JobGet (api c) t params)"

section \<open>Jobs: \<open>JobGet\<close>, \<open>IsJobFinished\<close>, \<open>PollJobStatus\<close>\<close>

definition JobGet :: "RestClient \<Rightarrow> string \<Rightarrow> (JobGetOK option \<times> error option) io" where
  "JobGet c jobUUID =
     api_JobGet c \<lparr>JobGetParams_UUID = jobUUID, JobGetParams_Fields = [''**'']\<rparr>"

text \<open>
  \<open>IsJobFinished\<close> reads \<open>jobResult.Payload.State\<close> without a nil check of \<open>jobResult\<close>
  or of its payload: both dereferences panic on nil.
\<close>

definition IsJobFinished ::
  "RestClient \<Rightarrow> JobLinkResponse option \<Rightarrow> (bool \<times> error option) io" where
  "IsJobFinished c payload =
     (case payload of
        None \<Rightarrow> ret (False, Some (Errorf ''payload is nil'' []))
      | Some p \<Rightarrow>
     (case JobLinkResponse_Job p of
        None \<Rightarrow> ret (False, Some (Errorf ''payload's Job is nil'' []))
      | Some job \<Rightarrow>
     (case JobLink_UUID job of
        None \<Rightarrow> ret (False, Some (Errorf ''payload's Job uuid is nil'' []))
      | Some jobUUID \<Rightarrow>
          bind_io (JobGet c jobUUID) (\<lambda>(jobResult, err).
            if err \<noteq> None then ret (False, err)
            else
              (case jobResult of
                 None \<Rightarrow> panic
               | Some r \<Rightarrow>
              (case JobGetOK_Payload r of
                 None \<Rightarrow> panic
               | Some jp \<Rightarrow>
              (case Job_State jp of
                 None \<Rightarrow> ret (False, Some (Errorf ''unexpected nil job state '' []))
               | Some jobState \<Rightarrow>
                   if jobState = JobStateSuccess then ret (True, None)
                   else if jobState = JobStateFailure then ret (True, None)
                   else if jobState = JobStatePaused then ret (False, None)
                   else if jobState = JobStateRunning then ret (False, None)
                   else if jobState = JobStateQueued then ret (False, None)
                   else ret (False, Some (Errorf ''unexpected job state %v'' [''<pointer>''])))))))))"


text \<open>
  \<open>backoff.RetryNotify\<close> belongs to a library outside the repository. It calls the
  operation; a nil result ends the loop with nil; on an error it asks the back-off policy
  for the next interval and ends the loop with that error when the policy answers
  \<open>Stop\<close>, which an exponential policy does once its maximum elapsed time has passed;
  otherwise it sleeps and calls the operation again. The second argument is the number
  of retries the policy grants. None of the operations below returns a permanent error.
\<close>

fun RetryNotify :: "error option io \<Rightarrow> nat \<Rightarrow> error option io" where
  "RetryNotify operation 0 t = operation t"
| "RetryNotify operation (Suc n) t =
     (case operation t of
        None \<Rightarrow> None
      | Some (Panic, t') \<Rightarrow> Some (Panic, t')
      | Some (Ret None, t') \<Rightarrow> Some (Ret None, t')
      | Some (Ret (Some err), t') \<Rightarrow> RetryNotify operation n t')"

definition backoff_RetryNotify :: "RestClient \<Rightarrow> error option io \<Rightarrow> error option io" where
  "backoff_RetryNotify c operation = (\<lambda>t. RetryNotify operation (retries (api c) t) t)"

text \<open>The closure \<open>checkJobStatus\<close> of \<open>PollJobStatus\<close>.\<close>

definition checkJobStatus ::
  "RestClient \<Rightarrow> JobLinkResponse option \<Rightarrow> string \<Rightarrow> error option io" where
  "checkJobStatus c payload jobUUID =
     bind_io (IsJobFinished c payload) (\<lambda>(isDone, err).
       if err \<noteq> None then ret err
       else if \<not> isDone then ret (Some (Errorf ''job %v not yet done'' [jobUUID]))
       else ret None)"

text \<open>
  \<open>PollJobStatus\<close> reads \<open>payload.Job\<close> first, which panics on a nil payload. After
  the re-fetch it builds its log entry from \<open>jobResult.Payload.Description\<close>, which
  panics on a nil payload of the fetched result.
\<close>

definition PollJobStatus :: "RestClient \<Rightarrow> JobLinkResponse option \<Rightarrow> error option io" where
  "PollJobStatus c payload =
     (case payload of
        None \<Rightarrow> panic
      | Some p \<Rightarrow>
     (case JobLinkResponse_Job p of
        None \<Rightarrow> ret (Some (Errorf ''missing job result'' []))
      | Some job \<Rightarrow>
     (case JobLink_UUID job of
        None \<Rightarrow> ret (Some (Errorf ''missing job uuid for result'' []))
      | Some jobUUID \<Rightarrow>
          bind_io (backoff_RetryNotify c (checkJobStatus c payload jobUUID)) (\<lambda>err.
            if err \<noteq> None then ret err
            else
              bind_io (JobGet c jobUUID) (\<lambda>(jobResult, err).
                if err \<noteq> None then ret err
                else
                  (case jobResult of
                     None \<Rightarrow> ret (Some (Errorf ''missing job result for job UUID %v'' [jobUUID]))
                   | Some r \<Rightarrow>
                  (case JobGetOK_Payload r of
                     None \<Rightarrow> panic
                   | Some jp \<Rightarrow>
                  (case Job_State jp of
                     None \<Rightarrow> ret (Some (Errorf ''unexpected nil job state '' []))
                   | Some jobState \<Rightarrow>
                       if jobState = JobStateSuccess then ret None
                       else if jobState = JobStateFailure
                         then ret (Some (RestErrorFromPayload (JobGetOK_Payload r)))
                       else ret (Some (Errorf ''unexpected job state %v'' [''<pointer>'']))))))))))"

section \<open>Pagination\<close>

subsection \<open>Reflection\<close>

text \<open>
  \<open>HasNextLink\<close> takes an \<open>interface{}\<close> and inspects it with package \<open>reflect\<close>. A
  dynamic Go value is a \<open>goval\<close>: a pointer carries its element type and its target
  (\<open>None\<close> for nil), a struct its type name and its fields by name, and a field of
  interface type what it holds. An \<open>interface{}\<close> argument is a \<open>goval option\<close> with
  \<open>None\<close> for the nil interface, and so is a \<open>reflect.Value\<close>, with \<open>None\<close> for the zero
  Value. A \<open>reflect\<close> function that can panic returns an option with \<open>None\<close> for the
  panic.
\<close>

datatype gotype =
    TString | TInt64 | TBool | TPtr gotype | TSlice gotype | TStruct string | TInterface

datatype goval =
    VString string
  | VInt64 "64 word"
  | VBool bool
  | VPtr gotype "goval option"
  | VSlice gotype "goval list option"
  | VStruct string "(string \<times> goval) list"
  | VInterface "goval option"

datatype Kind = KString | KInt64 | KBool | KPtr | KSlice | KStruct | KInterface

fun kind_of :: "goval \<Rightarrow> Kind" where
  "kind_of (VString _) = KString"
| "kind_of (VInt64 _) = KInt64"
| "kind_of (VBool _) = KBool"
| "kind_of (VPtr _ _) = KPtr"
| "kind_of (VSlice _ _) = KSlice"
| "kind_of (VStruct _ _) = KStruct"
| "kind_of (VInterface _) = KInterface"

fun type_of :: "goval \<Rightarrow> gotype" where
  "type_of (VString _) = TString"
| "type_of (VInt64 _) = TInt64"
| "type_of (VBool _) = TBool"
| "type_of (VPtr ty _) = TPtr ty"
| "type_of (VSlice ty _) = TSlice ty"
| "type_of (VStruct name _) = TStruct name"
| "type_of (VInterface _) = TInterface"

fun type_string :: "gotype \<Rightarrow> string" where
  "type_string TString = ''string''"
| "type_string TInt64 = ''int64''"
| "type_string TBool = ''bool''"
| "type_string (TPtr ty) = ''*'' @ type_string ty"
| "type_string (TSlice ty) = ''[]'' @ type_string ty"
| "type_string (TStruct name) = name"
| "type_string TInterface = ''interface {}''"

text \<open>\<open>reflect.ValueOf\<close>: the zero Value for the nil interface.\<close>

definition ValueOf :: "goval option \<Rightarrow> goval option" where
  "ValueOf i = i"

text \<open>\<open>reflect.TypeOf(i).Kind()\<close>: \<open>TypeOf(nil)\<close> is the nil Type, whose \<open>Kind\<close> panics.\<close>

definition TypeOf_Kind :: "goval option \<Rightarrow> Kind option" where
  "TypeOf_Kind i = map_option kind_of i"

text \<open>\<open>reflect.Indirect\<close>: the target of a pointer, the zero Value for a nil pointer, and
  the value itself when it is not a pointer.\<close>

definition Indirect :: "goval option \<Rightarrow> goval option" where
  "Indirect v = (case v of Some (VPtr _ target) \<Rightarrow> target | _ \<Rightarrow> v)"

text \<open>\<open>Value.FieldByName\<close>: panics unless the value is a struct; the zero Value when the
  struct has no field of that name.\<close>

definition FieldByName :: "goval option \<Rightarrow> string \<Rightarrow> goval option option" where
  "FieldByName v name =
     (case v of Some (VStruct _ fs) \<Rightarrow> Some (map_of fs name) | _ \<Rightarrow> None)"

definition IsValid :: "goval option \<Rightarrow> bool" where
  "IsValid v = (v \<noteq> None)"

text \<open>\<open>Value.Interface\<close>: the value as an \<open>interface{}\<close>; for a field of interface type,
  what the field holds. It panics on the zero Value.\<close>

definition Interface :: "goval option \<Rightarrow> goval option option" where
  "Interface v =
     (case v of None \<Rightarrow> None | Some (VInterface held) \<Rightarrow> Some held | Some w \<Rightarrow> Some (Some w))"

text \<open>\<open>Value.String\<close>: the string of a value of kind String; for any other kind it does
  not panic and returns the type between \<open><\<close> and \<open> Value>\<close>.\<close>

definition Value_String :: "goval option \<Rightarrow> string" where
  "Value_String v =
     (case v of
        None \<Rightarrow> ''<invalid Value>''
      | Some (VString s) \<Rightarrow> s
      | Some w \<Rightarrow> ''<'' @ type_string (type_of w) @ '' Value>'')"

text \<open>The two statements \<open>val = reflect.ValueOf(restResult)\<close> and
  \<open>if reflect.TypeOf(restResult).Kind() == reflect.Ptr { val = reflect.Indirect(val) }\<close>,
  which \<open>HasNextLink\<close> runs three times.\<close>

definition value_behind :: "goval option \<Rightarrow> goval option option" where
  "value_behind restResult =
     (let val = ValueOf restResult in
      case TypeOf_Kind restResult of
        None \<Rightarrow> None
      | Some k \<Rightarrow> Some (if k = KPtr then Indirect val else val))"

text \<open>The body of \<open>HasNextLink\<close>, and \<open>HasNextLink\<close> with its deferred \<open>recover\<close>, which
  turns a panic of the body into the result false.\<close>

definition HasNextLink_body :: "goval option \<Rightarrow> bool option" where
  "HasNextLink_body restResult =
     (if restResult = None then Some False
      else
        (case value_behind restResult of None \<Rightarrow> None | Some val \<Rightarrow>
        (case FieldByName val ''Links'' of None \<Rightarrow> None | Some testLinks \<Rightarrow>
           if IsValid testLinks then
             (case Interface testLinks of None \<Rightarrow> None | Some restResult \<Rightarrow>
             (case value_behind restResult of None \<Rightarrow> None | Some val \<Rightarrow>
             (case FieldByName val ''Next'' of None \<Rightarrow> None | Some testNext \<Rightarrow>
                if IsValid testNext then
                  (case Interface testNext of None \<Rightarrow> None | Some restResult \<Rightarrow>
                  (case value_behind restResult of None \<Rightarrow> None | Some val \<Rightarrow>
                  (case FieldByName val ''Href'' of None \<Rightarrow> None | Some testHref \<Rightarrow>
                     if IsValid testHref then
                       (case FieldByName val ''Href'' of
                          None \<Rightarrow> None
                        | Some href \<Rightarrow> Some (Value_String href \<noteq> ''''))
                     else Some False)))
                else Some False)))
           else Some False)))"

definition HasNextLink :: "goval option \<Rightarrow> bool" where
  "HasNextLink restResult =
     (case HasNextLink_body restResult of None \<Rightarrow> False | Some result \<Rightarrow> result)"

text \<open>
  The values \<open>HasNextLink\<close> is called with: a \<open>*models.VolumeResponse\<close>. \<open>models.Href\<close>
  has the one field \<open>Href *string\<close> (\<open>WriteToRequest\<close> tests \<open>o.next.Href == nil\<close> and
  reads \<open>*o.next.Href\<close>). The record slice, which no \<open>FieldByName\<close> looks up, is not
  listed among the fields.
\<close>

definition val_Href :: "Href \<Rightarrow> goval" where
  "val_Href h =
     VStruct ''models.Href'' [(''Href'', VPtr TString (map_option VString (Href_Href h)))]"

definition val_Links :: "VolumeResponseInlineLinks \<Rightarrow> goval" where
  "val_Links l = VStruct ''models.VolumeResponseInlineLinks''
     [(''Next'', VPtr (TStruct ''models.Href'') (map_option val_Href (Links_Next l))),
      (''Self'', VPtr (TStruct ''models.Href'') (map_option val_Href (Links_Self l)))]"

definition val_VolumeResponse :: "VolumeResponse \<Rightarrow> goval" where
  "val_VolumeResponse p = VStruct ''models.VolumeResponse''
     [(''Links'', VPtr (TStruct ''models.VolumeResponseInlineLinks'')
         (map_option val_Links (VolumeResponse_Links p))),
      (''NumRecords'', VPtr TInt64 (map_option VInt64 (VolumeResponse_NumRecords p)))]"

definition iface_VolumeResponse :: "VolumeResponse option \<Rightarrow> goval option" where
  "iface_VolumeResponse payload =
     Some (VPtr (TStruct ''models.VolumeResponse'') (map_option val_VolumeResponse payload))"

text \<open>\<open>HasNextLink\<close> is also called with a \<open>*models.AggregateResponse\<close> and with a
  \<open>*models.NvmeSubsystemResponse\<close>.\<close>

definition val_AggregateLinks :: "AggregateResponseInlineLinks \<Rightarrow> goval" where
  "val_AggregateLinks l = VStruct ''models.AggregateResponseInlineLinks''
     [(''Next'', VPtr (TStruct ''models.Href'') (map_option val_Href (AggregateLinks_Next l))),
      (''Self'', VPtr (TStruct ''models.Href'') (map_option val_Href (AggregateLinks_Self l)))]"

definition val_AggregateResponse :: "AggregateResponse \<Rightarrow> goval" where
  "val_AggregateResponse p = VStruct ''models.AggregateResponse''
     [(''Links'', VPtr (TStruct ''models.AggregateResponseInlineLinks'')
         (map_option val_AggregateLinks (AggregateResponse_Links p))),
      (''NumRecords'', VPtr TInt64 (map_option VInt64 (AggregateResponse_NumRecords p)))]"

definition iface_AggregateResponse :: "AggregateResponse option \<Rightarrow> goval option" where
  "iface_AggregateResponse payload =
     Some (VPtr (TStruct ''models.AggregateResponse'') (map_option val_AggregateResponse payload))"

definition val_NvmeSubsystemLinks :: "NvmeSubsystemResponseInlineLinks \<Rightarrow> goval" where
  "val_NvmeSubsystemLinks l = VStruct ''models.NvmeSubsystemResponseInlineLinks''
     [(''Next'', VPtr (TStruct ''models.Href'') (map_option val_Href (NvmeSubsystemLinks_Next l))),
      (''Self'', VPtr (TStruct ''models.Href'') (map_option val_Href (NvmeSubsystemLinks_Self l)))]"

definition val_NvmeSubsystemResponse :: "NvmeSubsystemResponse \<Rightarrow> goval" where
  "val_NvmeSubsystemResponse p = VStruct ''models.NvmeSubsystemResponse''
     [(''Links'', VPtr (TStruct ''models.NvmeSubsystemResponseInlineLinks'')
         (map_option val_NvmeSubsystemLinks (NvmeSubsystemResponse_Links p))),
      (''NumRecords'', VPtr TInt64 (map_option VInt64 (NvmeSubsystemResponse_NumRecords p)))]"

definition iface_NvmeSubsystemResponse :: "NvmeSubsystemResponse option \<Rightarrow> goval option" where
  "iface_NvmeSubsystemResponse payload =
     Some (VPtr (TStruct ''models.NvmeSubsystemResponse'')
       (map_option val_NvmeSubsystemResponse payload))"

subsection \<open>Following the next link\<close>

text \<open>\<open>append(s, extra...)\<close> on slices: appending nothing gives \<open>s\<close> back, so a nil slice
  stays nil.\<close>

definition elems :: "'a list option \<Rightarrow> 'a list" where
  "elems s = (case s of None \<Rightarrow> [] | Some xs \<Rightarrow> xs)"

definition go_append :: "'a list option \<Rightarrow> 'a list option \<Rightarrow> 'a list option" where
  "go_append s extra = (if elems extra = [] then s else Some (elems s @ elems extra))"

text \<open>
  The \<open>for\<close> loop of \<open>getAllVolumePayloadRecords\<close>. \<open>payload\<close> is the page that the
  loop updates in place and \<open>nextLink\<close> the link of the next request. The loop has no
  bound of its own: it runs for as long as the server sends pages with a next link.
  \<open>*payload.NumRecords\<close> is read after a nil count has been replaced by zero.
\<close>

partial_function (option) getAllVolumePayloadRecords_loop ::
  "RestClient \<Rightarrow> VolumeCollectionGetParams \<Rightarrow> Href option \<Rightarrow> VolumeResponse \<Rightarrow> trace
    \<Rightarrow> ((VolumeResponse option \<times> error option) res \<times> trace) option" where
  "getAllVolumePayloadRecords_loop c params nextLink payload t =
     (case api_VolumeCollectionGet c params nextLink t of
        None \<Rightarrow> None
      | Some (Panic, t') \<Rightarrow> Some (Panic, t')
      | Some (Ret (resultNext, errNext), t') \<Rightarrow>
          if errNext \<noteq> None then Some (Ret (None, errNext), t')
          else
            (case resultNext of
               None \<Rightarrow> Some (Ret (Some payload, None), t')
             | Some rn \<Rightarrow>
            (case VolumeCollectionGetOK_Payload rn of
               None \<Rightarrow> Some (Ret (Some payload, None), t')
             | Some pn \<Rightarrow>
            (case VolumeResponse_NumRecords pn of
               None \<Rightarrow> Some (Ret (Some payload, None), t')
             | Some n \<Rightarrow>
                 let payload =
                       (if VolumeResponse_NumRecords payload = None
                        then payload\<lparr>VolumeResponse_NumRecords := Some 0\<rparr> else payload);
                     payload = payload\<lparr>VolumeResponse_NumRecords :=
                       Some ((case VolumeResponse_NumRecords payload of
                                None \<Rightarrow> 0 | Some m \<Rightarrow> m) + n)\<rparr>;
                     payload = payload\<lparr>VolumeResponse_VolumeResponseInlineRecords :=
                       go_append (VolumeResponse_VolumeResponseInlineRecords payload)
                         (VolumeResponse_VolumeResponseInlineRecords pn)\<rparr>
                 in
                   if \<not> HasNextLink (iface_VolumeResponse (Some pn))
                   then Some (Ret (Some payload, None), t')
                   else
                     (case VolumeResponse_Links pn of
                        None \<Rightarrow> Some (Panic, t')
                      | Some l \<Rightarrow>
                          getAllVolumePayloadRecords_loop c params (Links_Next l) payload t')))))"

text \<open>\<open>payload.Links.Next\<close> is read after \<open>HasNextLink(payload)\<close> has answered true; the
  two dereferences are kept with their panics.\<close>

definition getAllVolumePayloadRecords ::
  "RestClient \<Rightarrow> VolumeResponse option \<Rightarrow> VolumeCollectionGetParams
    \<Rightarrow> (VolumeResponse option \<times> error option) io" where
  "getAllVolumePayloadRecords c payload params =
     (if HasNextLink (iface_VolumeResponse payload) then
        (case payload of
           None \<Rightarrow> panic
         | Some p \<Rightarrow>
        (case VolumeResponse_Links p of
           None \<Rightarrow> panic
         | Some l \<Rightarrow> getAllVolumePayloadRecords_loop c params (Links_Next l) p))
      else ret (payload, None))"

section \<open>Volume lookup by name and style\<close>

definition validStates :: "string list" where
  "validStates = [VolumeStateOnline, VolumeStateOffline, VolumeStateMixed, VolumeStateError, '''']"

definition getAllVolumesByPatternStyleAndState ::
  "RestClient \<Rightarrow> string \<Rightarrow> string \<Rightarrow> string
    \<Rightarrow> (VolumeCollectionGetOK option \<times> error option) io" where
  "getAllVolumesByPatternStyleAndState c pattern style state =
     (if style \<noteq> VolumeStyleFlexvol \<and> style \<noteq> VolumeStyleFlexgroup
      then ret (None, Some (Errorf ''unknown volume style %s'' [style]))
      else if state \<notin> set validStates
      then ret (None, Some (Errorf ''unknown volume state %s'' [state]))
      else
        let params = \<lparr>CollectionGet_SvmUUID = Some (svmUUID c),
                      CollectionGet_Name = Some pattern,
                      CollectionGet_State = (if state \<noteq> '''' then Some state else None),
                      CollectionGet_Style = Some style,
                      CollectionGet_Fields = [''**'']\<rparr>
        in
          bind_io (api_VolumeCollectionGet c params None) (\<lambda>(result, err).
            if err \<noteq> None then ret (None, err)
            else
              (case result of
                 None \<Rightarrow> ret (None, None)
               | Some r \<Rightarrow>
                   bind_io (getAllVolumePayloadRecords c (VolumeCollectionGetOK_Payload r) params)
                     (\<lambda>(payload, err).
                        let r = r\<lparr>VolumeCollectionGetOK_Payload := payload\<rparr> in
                        if err \<noteq> None then ret (Some r, err) else ret (Some r, None)))))"

text \<open>
  The unique-volume test shared by the two lookups below. \<open>Records[0]\<close> on a slice that is
  not nil but empty is an index out of range.
\<close>

definition getVolumeByNameAndStyle ::
  "RestClient \<Rightarrow> string \<Rightarrow> string \<Rightarrow> (Volume option \<times> error option) io" where
  "getVolumeByNameAndStyle c volumeName style =
     bind_io (getAllVolumesByPatternStyleAndState c volumeName style VolumeStateOnline)
       (\<lambda>(result, err).
          if err \<noteq> None then ret (None, err)
          else
            (case result of
               None \<Rightarrow> ret (None, None)
             | Some r \<Rightarrow>
            (case VolumeCollectionGetOK_Payload r of
               None \<Rightarrow> ret (None, None)
             | Some p \<Rightarrow>
            (case VolumeResponse_NumRecords p of
               None \<Rightarrow> ret (None, None)
             | Some n \<Rightarrow>
                 if n = 0 then ret (None, None)
                 else if n = 1 \<and> VolumeResponse_VolumeResponseInlineRecords p \<noteq> None then
                   (case elems (VolumeResponse_VolumeResponseInlineRecords p) of
                      [] \<Rightarrow> panic
                    | v # _ \<Rightarrow> ret (v, None))
                 else ret (None, Some (Errorf
                   ''could not find unique volume with name '%v'; found %d matching volumes''
                   [volumeName, ''<pointer>'']))))))"

definition getVolumeInAnyStateByNameAndStyle ::
  "RestClient \<Rightarrow> string \<Rightarrow> string \<Rightarrow> (Volume option \<times> error option) io" where
  "getVolumeInAnyStateByNameAndStyle c volumeName style =
     bind_io (getAllVolumesByPatternStyleAndState c volumeName style '''')
       (\<lambda>(result, err).
          if err \<noteq> None then ret (None, err)
          else
            (case result of
               None \<Rightarrow> ret (None, None)
             | Some r \<Rightarrow>
            (case VolumeCollectionGetOK_Payload r of
               None \<Rightarrow> ret (None, None)
             | Some p \<Rightarrow>
            (case VolumeResponse_NumRecords p of
               None \<Rightarrow> ret (None, None)
             | Some n \<Rightarrow>
                 if n = 0 then ret (None, None)
                 else if n = 1 \<and> VolumeResponse_VolumeResponseInlineRecords p \<noteq> None then
                   (case elems (VolumeResponse_VolumeResponseInlineRecords p) of
                      [] \<Rightarrow> panic
                    | v # _ \<Rightarrow> ret (v, None))
                 else ret (None, Some (Errorf
                   ''could not find unique volume with name '%v'; found %d matching volumes''
                   [volumeName, ''<pointer>'']))))))"

definition checkVolumeExistsByNameAndStyle ::
  "RestClient \<Rightarrow> string \<Rightarrow> string \<Rightarrow> (bool \<times> error option) io" where
  "checkVolumeExistsByNameAndStyle c volumeName style =
     (if volumeName = '''' then ret (False, None)
      else
        bind_io (getVolumeByNameAndStyle c volumeName style) (\<lambda>(volume, err).
          if err \<noteq> None then ret (False, err)
          else if volume = None then ret (False, err)
          else ret (True, None)))"

definition VolumeExists :: "RestClient \<Rightarrow> string \<Rightarrow> (bool \<times> error option) io" where
  "VolumeExists c volumeName = checkVolumeExistsByNameAndStyle c volumeName VolumeStyleFlexvol"


definition FlexGroupExists :: "RestClient \<Rightarrow> string \<Rightarrow> (bool \<times> error option) io" where
  "FlexGroupExists c volumeName =
     checkVolumeExistsByNameAndStyle c volumeName VolumeStyleFlexgroup"


section \<open>Lists of aggregates and of NVMe subsystems\<close>

text \<open>
  The loop \<open>NextLoop\<close> of \<open>AggregateList\<close>. \<open>payload\<close> is \<open>result.Payload\<close>, which the loop
  updates in place, and \<open>nextLink\<close> the link of the next request. A response without a
  result, a payload or a record count sets \<open>done\<close>.
\<close>

partial_function (option) AggregateList_NextLoop ::
  "RestClient \<Rightarrow> AggregateCollectionGetParams \<Rightarrow> Href option \<Rightarrow> AggregateResponse \<Rightarrow> trace
    \<Rightarrow> ((AggregateResponse option \<times> error option) res \<times> trace) option" where
  "AggregateList_NextLoop c params nextLink payload t =
     (case api_AggregateCollectionGet c params nextLink t of
        None \<Rightarrow> None
      | Some (Panic, t') \<Rightarrow> Some (Panic, t')
      | Some (Ret (resultNext, errNext), t') \<Rightarrow>
          if errNext \<noteq> None then Some (Ret (None, errNext), t')
          else
            (case resultNext of
               None \<Rightarrow> Some (Ret (Some payload, None), t')
             | Some rn \<Rightarrow>
            (case AggregateCollectionGetOK_Payload rn of
               None \<Rightarrow> Some (Ret (Some payload, None), t')
             | Some pn \<Rightarrow>
            (case AggregateResponse_NumRecords pn of
               None \<Rightarrow> Some (Ret (Some payload, None), t')
             | Some n \<Rightarrow>
                 let payload =
                       (if AggregateResponse_NumRecords payload = None
                        then payload\<lparr>AggregateResponse_NumRecords := Some 0\<rparr> else payload);
                     payload = payload\<lparr>AggregateResponse_NumRecords :=
                       Some ((case AggregateResponse_NumRecords payload of
                                None \<Rightarrow> 0 | Some m \<Rightarrow> m) + n)\<rparr>;
                     payload = payload\<lparr>AggregateResponse_AggregateResponseInlineRecords :=
                       go_append (AggregateResponse_AggregateResponseInlineRecords payload)
                         (AggregateResponse_AggregateResponseInlineRecords pn)\<rparr>
                 in
                   if \<not> HasNextLink (iface_AggregateResponse (Some pn))
                   then Some (Ret (Some payload, None), t')
                   else
                     (case AggregateResponse_Links pn of
                        None \<Rightarrow> Some (Panic, t')
                      | Some l \<Rightarrow>
                          AggregateList_NextLoop c params (AggregateLinks_Next l) payload t')))))"

definition AggregateList ::
  "RestClient \<Rightarrow> string \<Rightarrow> (AggregateCollectionGetOK option \<times> error option) io" where
  "AggregateList c pattern =
     (let params = \<lparr>AggregateGet_Name = Some pattern, AggregateGet_Fields = [''**'']\<rparr>
      in
        bind_io (api_AggregateCollectionGet c params None) (\<lambda>(result, err).
          if err \<noteq> None then ret (None, err)
          else
            (case result of
               None \<Rightarrow> ret (None, None)
             | Some r \<Rightarrow>
                 if HasNextLink (iface_AggregateResponse (AggregateCollectionGetOK_Payload r))
                 then
                   (case AggregateCollectionGetOK_Payload r of
                      None \<Rightarrow> panic
                    | Some p \<Rightarrow>
                   (case AggregateResponse_Links p of
                      None \<Rightarrow> panic
                    | Some l \<Rightarrow>
                        bind_io (AggregateList_NextLoop c params (AggregateLinks_Next l) p)
                          (\<lambda>(payload, errNext).
                             if errNext \<noteq> None then ret (None, errNext)
                             else ret (Some (r\<lparr>AggregateCollectionGetOK_Payload := payload\<rparr>),
                                    None))))
                 else ret (Some r, None))))"

text \<open>
  The loop \<open>NextLoop\<close> of \<open>NVMeSubsystemList\<close>. Only a response without a result sets
  \<open>done\<close>; the statement \<open>*result.Payload.NumRecords += *resultNext.Payload.NumRecords\<close>
  dereferences the record count of \<open>result.Payload\<close>, the payload of the response and
  its record count, none of which is tested before.
\<close>

partial_function (option) NVMeSubsystemList_NextLoop ::
  "RestClient \<Rightarrow> NvmeSubsystemCollectionGetParams \<Rightarrow> Href option \<Rightarrow> NvmeSubsystemResponse
    \<Rightarrow> trace \<Rightarrow> ((NvmeSubsystemResponse option \<times> error option) res \<times> trace) option" where
  "NVMeSubsystemList_NextLoop c params nextLink payload t =
     (case api_NvmeSubsystemCollectionGet c params nextLink t of
        None \<Rightarrow> None
      | Some (Panic, t') \<Rightarrow> Some (Panic, t')
      | Some (Ret (resultNext, errNext), t') \<Rightarrow>
          if errNext \<noteq> None then Some (Ret (None, errNext), t')
          else
            (case resultNext of
               None \<Rightarrow> Some (Ret (Some payload, None), t')
             | Some rn \<Rightarrow>
            (case NvmeSubsystemResponse_NumRecords payload of
               None \<Rightarrow> Some (Panic, t')
             | Some m \<Rightarrow>
            (case NvmeSubsystemCollectionGetOK_Payload rn of
               None \<Rightarrow> Some (Panic, t')
             | Some pn \<Rightarrow>
            (case NvmeSubsystemResponse_NumRecords pn of
               None \<Rightarrow> Some (Panic, t')
             | Some n \<Rightarrow>
                 let payload = payload\<lparr>NvmeSubsystemResponse_NumRecords := Some (m + n)\<rparr>;
                     payload = payload\<lparr>
                       NvmeSubsystemResponse_NvmeSubsystemResponseInlineRecords :=
                         go_append
                           (NvmeSubsystemResponse_NvmeSubsystemResponseInlineRecords payload)
                           (NvmeSubsystemResponse_NvmeSubsystemResponseInlineRecords pn)\<rparr>
                 in
                   if \<not> HasNextLink (iface_NvmeSubsystemResponse (Some pn))
                   then Some (Ret (Some payload, None), t')
                   else
                     (case NvmeSubsystemResponse_Links pn of
                        None \<Rightarrow> Some (Panic, t')
                      | Some l \<Rightarrow>
                          NVMeSubsystemList_NextLoop c params (NvmeSubsystemLinks_Next l)
                            payload t'))))))"

definition NVMeSubsystemList ::
  "RestClient \<Rightarrow> string \<Rightarrow> (NvmeSubsystemCollectionGetOK option \<times> error option) io" where
  "NVMeSubsystemList c pattern0 =
     (let pattern = (if pattern0 = '''' then ''*'' else pattern0);
          params = \<lparr>NvmeSubsystemGet_SvmUUID = Some (svmUUID c),
                    NvmeSubsystemGet_Name = Some pattern,
                    NvmeSubsystemGet_Fields = [''**'']\<rparr>
      in
        bind_io (api_NvmeSubsystemCollectionGet c params None) (\<lambda>(result, err).
          if err \<noteq> None then ret (None, err)
          else
            (case result of
               None \<Rightarrow> ret (None, None)
             | Some r \<Rightarrow>
                 if HasNextLink
                      (iface_NvmeSubsystemResponse (NvmeSubsystemCollectionGetOK_Payload r))
                 then
                   (case NvmeSubsystemCollectionGetOK_Payload r of
                      None \<Rightarrow> panic
                    | Some p \<Rightarrow>
                   (case NvmeSubsystemResponse_Links p of
                      None \<Rightarrow> panic
                    | Some l \<Rightarrow>
                        bind_io
                          (NVMeSubsystemList_NextLoop c params (NvmeSubsystemLinks_Next l) p)
                          (\<lambda>(payload, errNext).
                             if errNext \<noteq> None then ret (None, errNext)
                             else ret (Some (r\<lparr>NvmeSubsystemCollectionGetOK_Payload :=
                                               payload\<rparr>), None))))
                 else ret (Some r, None))))"

section \<open>Volume operations by name and style\<close>

text \<open>
  Each operation is written out as in the source: the lookup, its three tests, the
  request struct, the one REST call with its two tests, and the poll of the returned job.
\<close>

definition setVolumeSizeByNameAndStyle ::
  "RestClient \<Rightarrow> string \<Rightarrow> string \<Rightarrow> string \<Rightarrow> error option io" where
  "setVolumeSizeByNameAndStyle c volumeName newSize style =
     bind_io (getVolumeByNameAndStyle c volumeName style) (\<lambda>(volume, err).
       if err \<noteq> None then ret err
       else
         (case volume of
            None \<Rightarrow> ret (Some (Errorf ''could not find volume with name %v'' [volumeName]))
          | Some v \<Rightarrow>
         (case Volume_UUID v of
            None \<Rightarrow> ret (Some (Errorf ''could not find volume uuid with name %v'' [volumeName]))
          | Some uuid \<Rightarrow>
              let sizeBytesStr = ConvertSizeToBytes (api c) newSize;
                  sizeBytes = ParseUint (api c) sizeBytesStr;
                  volumeInfo = Volume_zero\<lparr>Volume_Size := Some sizeBytes\<rparr>;
                  params = \<lparr>Modify_UUID = uuid, Modify_Info = Some volumeInfo,
                            Modify_RestoreToSnapshotName = None\<rparr>
              in
                bind_io (api_VolumeModify c params) (\<lambda>(volumeModifyAccepted, err).
                  if err \<noteq> None then ret err
                  else
                    (case volumeModifyAccepted of
                       None \<Rightarrow> ret (Some (Errorf ''unexpected response from volume modify'' []))
                     | Some accepted \<Rightarrow>
                         PollJobStatus c (VolumeModifyAccepted_Payload accepted))))))"

text \<open>The test \<open>volume.Nas != nil && volume.Nas.Path != nil\<close> followed by the comparison
  of \<open>*volume.Nas.Path\<close> with a path.\<close>

definition nas_path_is :: "Volume \<Rightarrow> string \<Rightarrow> bool" where
  "nas_path_is v path =
     (case Volume_Nas v of
        None \<Rightarrow> False
      | Some nas \<Rightarrow> (case Nas_Path nas of None \<Rightarrow> False | Some p \<Rightarrow> p = path))"

definition mountVolumeByNameAndStyle ::
  "RestClient \<Rightarrow> string \<Rightarrow> string \<Rightarrow> string \<Rightarrow> error option io" where
  "mountVolumeByNameAndStyle c volumeName junctionPath style =
     bind_io (getVolumeByNameAndStyle c volumeName style) (\<lambda>(volume, err).
       if err \<noteq> None then ret err
       else
         (case volume of
            None \<Rightarrow> ret (Some (Errorf ''could not find volume with name %v'' [volumeName]))
          | Some v \<Rightarrow>
         (case Volume_UUID v of
            None \<Rightarrow> ret (Some (Errorf ''could not find volume uuid with name %v'' [volumeName]))
          | Some uuid \<Rightarrow>
              if nas_path_is v junctionPath then ret None
              else
                let volumeInfo = Volume_zero\<lparr>Volume_Nas :=
                      Some (VolumeInlineNas_zero\<lparr>Nas_Path := Some junctionPath\<rparr>)\<rparr>;
                    params = \<lparr>Modify_UUID = uuid, Modify_Info = Some volumeInfo,
                              Modify_RestoreToSnapshotName = None\<rparr>
                in
                  bind_io (api_VolumeModify c params) (\<lambda>(volumeModifyAccepted, err).
                    if err \<noteq> None then ret err
                    else
                      (case volumeModifyAccepted of
                         None \<Rightarrow> ret (Some (Errorf ''unexpected response from volume modify'' []))
                       | Some accepted \<Rightarrow>
                           PollJobStatus c (VolumeModifyAccepted_Payload accepted))))))"

text \<open>\<open>unmountVolumeByNameAndStyle\<close> looks the volume up in any state, and on a missing
  volume or a missing UUID it logs a warning and returns \<open>err\<close>, which is nil there.\<close>

definition unmountVolumeByNameAndStyle ::
  "RestClient \<Rightarrow> string \<Rightarrow> string \<Rightarrow> error option io" where
  "unmountVolumeByNameAndStyle c volumeName style =
     bind_io (getVolumeInAnyStateByNameAndStyle c volumeName style) (\<lambda>(volume, err).
       if err \<noteq> None then ret err
       else
         (case volume of
            None \<Rightarrow> ret err
          | Some v \<Rightarrow>
         (case Volume_UUID v of
            None \<Rightarrow> ret err
          | Some uuid \<Rightarrow>
              if nas_path_is v '''' then ret None
              else
                let volumeInfo = Volume_zero\<lparr>Volume_Nas :=
                      Some (VolumeInlineNas_zero\<lparr>Nas_Path := Some ''''\<rparr>)\<rparr>;
                    params = \<lparr>Modify_UUID = uuid, Modify_Info = Some volumeInfo,
                              Modify_RestoreToSnapshotName = None\<rparr>
                in
                  bind_io (api_VolumeModify c params) (\<lambda>(volumeModifyAccepted, err).
                    if err \<noteq> None then ret err
                    else
                      (case volumeModifyAccepted of
                         None \<Rightarrow> ret (Some (Errorf ''unexpected response from volume modify'' []))
                       | Some accepted \<Rightarrow>
                           PollJobStatus c (VolumeModifyAccepted_Payload accepted))))))"

text \<open>\<open>renameVolumeByNameAndStyle\<close> tests \<open>volume == nil\<close> twice and then reads
  \<open>*volume.UUID\<close>.\<close>

definition renameVolumeByNameAndStyle ::
  "RestClient \<Rightarrow> string \<Rightarrow> string \<Rightarrow> string \<Rightarrow> error option io" where
  "renameVolumeByNameAndStyle c volumeName newVolumeName style =
     bind_io (getVolumeByNameAndStyle c volumeName style) (\<lambda>(volume, err).
       if err \<noteq> None then ret err
       else if volume = None
       then ret (Some (Errorf ''could not find volume with name %v'' [volumeName]))
       else if volume = None
       then ret (Some (Errorf ''could not find volume uuid with name %v'' [volumeName]))
       else
         (case volume of
            None \<Rightarrow> panic
          | Some v \<Rightarrow>
         (case Volume_UUID v of
            None \<Rightarrow> panic
          | Some uuid \<Rightarrow>
              let volumeInfo = Volume_zero\<lparr>Volume_Name := Some newVolumeName\<rparr>;
                  params = \<lparr>Modify_UUID = uuid, Modify_Info = Some volumeInfo,
                            Modify_RestoreToSnapshotName = None\<rparr>
              in
                bind_io (api_VolumeModify c params) (\<lambda>(volumeModifyAccepted, err).
                  if err \<noteq> None then ret err
                  else
                    (case volumeModifyAccepted of
                       None \<Rightarrow> ret (Some (Errorf ''unexpected response from volume modify'' []))
                     | Some accepted \<Rightarrow>
                         PollJobStatus c (VolumeModifyAccepted_Payload accepted))))))"



subsection \<open>Unix permissions\<close>

text \<open>\<open>strings.TrimPrefix\<close>, and \<open>fmt.Sprint\<close> of a number that is not negative.\<close>

definition TrimPrefix :: "string \<Rightarrow> string \<Rightarrow> string" where
  "TrimPrefix s pre = (if take (length pre) s = pre then drop (length pre) s else s)"

fun Sprint :: "nat \<Rightarrow> string" where
  "Sprint n =
     (if n < 10 then [char_of (48 + n)] else Sprint (n div 10) @ [char_of (48 + n mod 10)])"

text \<open>The map \<open>values\<close> of \<open>convertUnixPermissions\<close>; a key that is absent reads as 0.\<close>

definition perm_values :: "char \<Rightarrow> nat" where
  "perm_values r =
     (if r = CHR ''r'' then 4 else if r = CHR ''w'' then 2 else if r = CHR ''x'' then 1 else 0)"

definition convertUnixPermissions :: "string \<Rightarrow> string" where
  "convertUnixPermissions s0 =
     (let s = TrimPrefix s0 ''---'' in
      if length s \<noteq> 9 then s
      else if list_ex (\<lambda>i.
                (s ! (i + 0) \<noteq> CHR ''r'' \<and> s ! (i + 0) \<noteq> CHR ''-'') \<or>
                (s ! (i + 1) \<noteq> CHR ''w'' \<and> s ! (i + 1) \<noteq> CHR ''-'') \<or>
                (s ! (i + 2) \<noteq> CHR ''x'' \<and> s ! (i + 2) \<noteq> CHR ''-'')) [0, 3, 6]
      then s
      else concat (map (\<lambda>part. Sprint (sum_list (map perm_values part)))
                     [take 3 s, take 3 (drop 3 s), take 3 (drop 6 s)]))"



text \<open>\<open>setVolumeQosPolicyGroupNameByNameAndStyle\<close> tests \<open>volume == nil\<close> twice and then
  reads \<open>*volume.UUID\<close>.\<close>

definition setVolumeQosPolicyGroupNameByNameAndStyle ::
  "RestClient \<Rightarrow> string \<Rightarrow> QosPolicyGroup \<Rightarrow> string \<Rightarrow> error option io" where
  "setVolumeQosPolicyGroupNameByNameAndStyle c volumeName qosPolicyGroup style =
     bind_io (getVolumeByNameAndStyle c volumeName style) (\<lambda>(volume, err).
       if err \<noteq> None then ret err
       else if volume = None
       then ret (Some (Errorf ''could not find volume with name %v'' [volumeName]))
       else if volume = None
       then ret (Some (Errorf ''could not find volume uuid with name %v'' [volumeName]))
       else
         (case volume of
            None \<Rightarrow> panic
          | Some v \<Rightarrow>
         (case Volume_UUID v of
            None \<Rightarrow> panic
          | Some uuid \<Rightarrow>
              if QosPolicyGroup_Kind qosPolicyGroup \<noteq> InvalidQosPolicyGroupKind then
                if QosPolicyGroup_Name qosPolicyGroup \<noteq> '''' then
                  let volumeInfo = Volume_zero\<lparr>Volume_Qos := Some \<lparr>Qos_Policy =
                        Some \<lparr>QosPolicy_Name = Some (QosPolicyGroup_Name qosPolicyGroup)\<rparr>\<rparr>\<rparr>;
                      params = \<lparr>Modify_UUID = uuid, Modify_Info = Some volumeInfo,
                                Modify_RestoreToSnapshotName = None\<rparr>
                  in
                    bind_io (api_VolumeModify c params) (\<lambda>(volumeModifyAccepted, err).
                      if err \<noteq> None then ret err
                      else
                        (case volumeModifyAccepted of
                           None \<Rightarrow>
                             ret (Some (Errorf ''unexpected response from volume modify'' []))
                         | Some accepted \<Rightarrow>
                             PollJobStatus c (VolumeModifyAccepted_Payload accepted)))
                else ret (Some (Errorf ''missing QoS policy group name'' []))
              else ret (Some (Errorf ''invalid QoS policy group'' [])))))"




section \<open>Snapshot directory access and quotas\<close>





section \<open>Volume creation\<close>

text \<open>The closures \<open>checkStatus\<close> of \<open>waitForVolume\<close> and \<open>waitForFlexgroup\<close>, and the two
  waits.\<close>

definition waitForVolume_checkStatus :: "RestClient \<Rightarrow> string \<Rightarrow> error option io" where
  "waitForVolume_checkStatus c volumeName =
     bind_io (VolumeExists c volumeName) (\<lambda>(exists, err).
       if \<not> exists
       then ret (Some (Errorf ''volume '%v' does not exit, will continue checking'' [volumeName]))
       else ret err)"

definition waitForVolume :: "RestClient \<Rightarrow> string \<Rightarrow> error option io" where
  "waitForVolume c volumeName =
     bind_io (backoff_RetryNotify c (waitForVolume_checkStatus c volumeName)) (\<lambda>err.
       if err \<noteq> None then ret err else ret None)"

definition waitForFlexgroup_checkStatus :: "RestClient \<Rightarrow> string \<Rightarrow> error option io" where
  "waitForFlexgroup_checkStatus c volumeName =
     bind_io (FlexGroupExists c volumeName) (\<lambda>(exists, err).
       if \<not> exists
       then ret (Some (Errorf ''FlexGroup '%v' does not exit, will continue checking''
                  [volumeName]))
       else ret err)"

definition waitForFlexgroup :: "RestClient \<Rightarrow> string \<Rightarrow> error option io" where
  "waitForFlexgroup c volumeName =
     bind_io (backoff_RetryNotify c (waitForFlexgroup_checkStatus c volumeName)) (\<lambda>err.
       if err \<noteq> None then ret err else ret None)"

text \<open>\<open>ToSliceVolumeAggregatesItems\<close> starts from the nil slice and appends one item for
  each name.\<close>

definition ToSliceVolumeAggregatesItems ::
  "string list \<Rightarrow> VolumeInlineAggregatesInlineArrayItem option list option" where
  "ToSliceVolumeAggregatesItems aggrs =
     foldl (\<lambda>result aggregateName.
              go_append result (Some [Some \<lparr>AggregatesItem_Name = Some aggregateName\<rparr>]))
       None aggrs"

text \<open>
  \<open>createVolumeByStyle\<close> from the statement \<open>if exportPolicy != ""\<close> to its end: the
  last field of the request, the create call, the poll of the job and the wait for the
  volume. It is a definition of its own because the branch for the unix permissions
  returns before it.
\<close>

definition createVolumeByStyle_send ::
  "RestClient \<Rightarrow> string \<Rightarrow> string \<Rightarrow> string \<Rightarrow> Volume \<Rightarrow> VolumeInlineNas \<Rightarrow> error option io" where
  "createVolumeByStyle_send c name style exportPolicy volumeInfo0 volumeNas0 =
     (let volumeNas =
            (if exportPolicy \<noteq> ''''
             then volumeNas0\<lparr>Nas_ExportPolicy := Some \<lparr>ExportPolicy_Name = Some exportPolicy\<rparr>\<rparr>
             else volumeNas0);
          volumeInfo =
            (if exportPolicy \<noteq> '''' then volumeInfo0\<lparr>Volume_Nas := Some volumeNas\<rparr>
             else volumeInfo0);
          params = \<lparr>Create_Info = Some volumeInfo\<rparr>
      in
        bind_io (api_VolumeCreate c params) (\<lambda>(volumeCreateAccepted, err).
          if err \<noteq> None then ret err
          else
            (case volumeCreateAccepted of
               None \<Rightarrow> ret (Some (Errorf ''unexpected response from volume create'' []))
             | Some accepted \<Rightarrow>
                 bind_io (PollJobStatus c (VolumeCreateAccepted_Payload accepted)) (\<lambda>pollErr.
                   if pollErr \<noteq> None then ret pollErr
                   else if style = VolumeStyleFlexgroup then waitForFlexgroup c name
                   else waitForVolume c name))))"

text \<open>
  \<open>volumeNas\<close> is a pointer that \<open>volumeInfo.Nas\<close> shares once it is assigned; every
  write to \<open>volumeNas\<close> in the source is followed by the assignment, so the assignment
  of the updated value gives the same request.
\<close>

definition createVolumeByStyle ::
  "RestClient \<Rightarrow> string \<Rightarrow> 64 word \<Rightarrow> string list \<Rightarrow> string \<Rightarrow> string \<Rightarrow> string \<Rightarrow> string
    \<Rightarrow> string \<Rightarrow> string \<Rightarrow> string \<Rightarrow> QosPolicyGroup \<Rightarrow> bool option \<Rightarrow> int \<Rightarrow> string \<Rightarrow> bool
    \<Rightarrow> error option io" where
  "createVolumeByStyle c name sizeInBytes aggrs spaceReserve snapshotPolicy unixPermissions
      exportPolicy securityStyle tieringPolicy comment qosPolicyGroup encrypt snapshotReserve
      style dpVolume =
     (let volumeInfo = Volume_zero\<lparr>
            Volume_Name := Some name,
            Volume_Size := Some sizeInBytes,
            Volume_Guarantee := Some \<lparr>Guarantee_Type = Some spaceReserve\<rparr>,
            Volume_SnapshotPolicy := Some \<lparr>SnapshotPolicy_Name = Some snapshotPolicy\<rparr>,
            Volume_Comment := Some comment,
            Volume_State := Some VolumeStateOnline,
            Volume_Style := Some style\<rparr>;
          volumeInfoAggregates = ToSliceVolumeAggregatesItems aggrs;
          volumeInfo =
            (if length (elems volumeInfoAggregates) > 0
             then volumeInfo\<lparr>Volume_VolumeInlineAggregates := volumeInfoAggregates\<rparr>
             else volumeInfo);
          volumeInfo =
            (if snapshotReserve \<noteq> NumericalValueNotSet
             then volumeInfo\<lparr>Volume_Space := Some \<lparr>Space_Snapshot =
                    Some \<lparr>SpaceSnapshot_ReservePercent = Some (word_of_int snapshotReserve)\<rparr>\<rparr>\<rparr>
             else volumeInfo);
          volumeInfo = volumeInfo\<lparr>Volume_Svm := Some \<lparr>Svm_UUID = Some (svmUUID c)\<rparr>\<rparr>;
          volumeInfo =
            (if encrypt \<noteq> None
             then volumeInfo\<lparr>Volume_Encryption := Some \<lparr>Encryption_Enabled = encrypt\<rparr>\<rparr>
             else volumeInfo);
          volumeInfo =
            (if QosPolicyGroup_Kind qosPolicyGroup \<noteq> InvalidQosPolicyGroupKind
                \<and> QosPolicyGroup_Name qosPolicyGroup \<noteq> ''''
             then volumeInfo\<lparr>Volume_Qos := Some \<lparr>Qos_Policy =
                    Some \<lparr>QosPolicy_Name = Some (QosPolicyGroup_Name qosPolicyGroup)\<rparr>\<rparr>\<rparr>
             else volumeInfo);
          volumeInfo =
            (if tieringPolicy \<noteq> ''''
             then volumeInfo\<lparr>Volume_Tiering := Some \<lparr>Tiering_Policy = Some tieringPolicy\<rparr>\<rparr>
             else volumeInfo);
          volumeNas = VolumeInlineNas_zero;
          volumeNas =
            (if securityStyle \<noteq> '''' then volumeNas\<lparr>Nas_SecurityStyle := Some securityStyle\<rparr>
             else volumeNas);
          volumeInfo =
            (if securityStyle \<noteq> '''' then volumeInfo\<lparr>Volume_Nas := Some volumeNas\<rparr>
             else volumeInfo)
      in
        if dpVolume then
          createVolumeByStyle_send c name style exportPolicy
            (volumeInfo\<lparr>Volume_Type := Some ''DP''\<rparr>) volumeNas
        else if unixPermissions \<noteq> '''' then
          (let unixPermissions = convertUnixPermissions unixPermissions in
           case ParseInt (api c) unixPermissions of
             None \<Rightarrow> ret (Some (Errorf ''cannot process unix permissions value %v''
                       [unixPermissions]))
           | Some volumePermissions \<Rightarrow>
               (let volumeNas = volumeNas\<lparr>Nas_UnixPermissions := Some volumePermissions\<rparr> in
                createVolumeByStyle_send c name style exportPolicy
                  (volumeInfo\<lparr>Volume_Nas := Some volumeNas\<rparr>) volumeNas))
        else createVolumeByStyle_send c name style exportPolicy volumeInfo volumeNas)"

section \<open>Example servers\<close>

text \<open>
  A server for the examples. A collection request without a next link gets the first
  page; a request with a next link gets the page listed under the link's href, and the
  first page again when the link has no href, since \<open>WriteToRequest\<close> then adds nothing
  to the request. Every modify, delete and create request is accepted with the job
  \<open>job-1\<close>. A job goes through the given states, one for each fetch, and stays in the
  last. A request for aggregates or NVMe subsystems gets no result. The back-off policy
  grants three retries.
\<close>

definition job_state_at :: "string list \<Rightarrow> trace \<Rightarrow> string option" where
  "job_state_at states t =
     (case drop (length (filter is_JobGet t)) states of
        [] \<Rightarrow> (if states = [] then None else Some (last states))
      | s # _ \<Rightarrow> Some s)"

definition accepted_job :: JobLinkResponse where
  "accepted_job = \<lparr>JobLinkResponse_Job = Some \<lparr>JobLink_UUID = Some ''job-1''\<rparr>\<rparr>"

definition example_job :: "string \<Rightarrow> string option \<Rightarrow> Job" where
  "example_job uuid state = \<lparr>Job_UUID = Some uuid, Job_Description = None, Job_State = state,
     Job_Message = None, Job_Code = None\<rparr>"

definition example_server ::
  "VolumeCollectionGetOK option \<Rightarrow> (string \<times> VolumeCollectionGetOK option) list \<Rightarrow> string list
    \<Rightarrow> world" where
  "example_server first pages states = \<lparr>
     srv_VolumeCollectionGet = (\<lambda>t params next.
       case next of
         None \<Rightarrow> (first, None)
       | Some h \<Rightarrow>
           (case Href_Href h of
              None \<Rightarrow> (first, None)
            | Some href \<Rightarrow>
                (case map_of pages href of
                   None \<Rightarrow> (None, Some (TransportError ''no such page''))
                 | Some page \<Rightarrow> (page, None)))),
     srv_VolumeModify = (\<lambda>t params.
       (Some \<lparr>VolumeModifyAccepted_Payload = Some accepted_job\<rparr>, None)),
     srv_VolumeDelete = (\<lambda>t params.
       (Some \<lparr>VolumeDeleteAccepted_Payload = Some accepted_job\<rparr>, None)),
     srv_VolumeCreate = (\<lambda>t params.
       (Some \<lparr>VolumeCreateAccepted_Payload = Some accepted_job\<rparr>, None)),
     srv_JobGet = (\<lambda>t params.
       (Some \<lparr>JobGetOK_Payload =
          Some (example_job (JobGetParams_UUID params) (job_state_at states t))\<rparr>, None)),
     srv_AggregateCollectionGet = (\<lambda>t params next. (None, None)),
     srv_NvmeSubsystemCollectionGet = (\<lambda>t params next. (None, None)),
     retries = (\<lambda>t. 3),
     ParseInt = (\<lambda>s. None),
     ParseUint = (\<lambda>s. 0),
     ConvertSizeToBytes = (\<lambda>s. s)\<rparr>"

definition example_client ::
  "VolumeCollectionGetOK option \<Rightarrow> (string \<times> VolumeCollectionGetOK option) list \<Rightarrow> string list
    \<Rightarrow> RestClient" where
  "example_client first pages states =
     \<lparr>svmUUID = ''svm-1'', api = example_server first pages states\<rparr>"

text \<open>A page with the href of its next link, its record count and its records; a volume
  with its name, its UUID and its junction path.\<close>

definition page ::
  "Href option \<Rightarrow> 64 word option \<Rightarrow> Volume option list option \<Rightarrow> VolumeResponse" where
  "page next n records =
     \<lparr>VolumeResponse_Links = Some \<lparr>Links_Next = next, Links_Self = None\<rparr>,
      VolumeResponse_NumRecords = n,
      VolumeResponse_VolumeResponseInlineRecords = records\<rparr>"

definition page_ok ::
  "Href option \<Rightarrow> 64 word option \<Rightarrow> Volume option list option \<Rightarrow> VolumeCollectionGetOK option"
  where
  "page_ok next n records = Some \<lparr>VolumeCollectionGetOK_Payload = Some (page next n records)\<rparr>"

definition link_to :: "string \<Rightarrow> Href option" where
  "link_to href = Some \<lparr>Href_Href = Some href\<rparr>"

definition vol :: "string \<Rightarrow> string option \<Rightarrow> string option \<Rightarrow> Volume" where
  "vol name uuid path = Volume_zero\<lparr>Volume_Name := Some name, Volume_UUID := uuid,
     Volume_Nas := Some (VolumeInlineNas_zero\<lparr>Nas_Path := path\<rparr>)\<rparr>"

definition flexvol_params :: "string \<Rightarrow> string option \<Rightarrow> VolumeCollectionGetParams" where
  "flexvol_params name state =
     \<lparr>CollectionGet_SvmUUID = Some ''svm-1'', CollectionGet_Name = Some name,
      CollectionGet_State = state, CollectionGet_Style = Some ''flexvol'',
      CollectionGet_Fields = [''**'']\<rparr>"

definition job1_params :: JobGetParams where
  "job1_params = \<lparr>JobGetParams_UUID = ''job-1'', JobGetParams_Fields = [''**'']\<rparr>"

text \<open>Four volumes on three pages, and a second page that arrives with records but
  without a record count.\<close>

definition v1 :: Volume where "v1 = vol ''v1'' (Some ''uuid-1'') (Some ''/v1'')"
definition v2 :: Volume where "v2 = vol ''v2'' (Some ''uuid-2'') (Some ''/v2'')"
definition v3 :: Volume where "v3 = vol ''v3'' (Some ''uuid-3'') (Some ''/v3'')"
definition v4 :: Volume where "v4 = vol ''v4'' (Some ''uuid-4'') (Some ''/v4'')"

definition first_page :: VolumeResponse where
  "first_page = page (link_to ''p2'') (Some 1) (Some [Some v1])"

definition second_page :: VolumeResponse where
  "second_page = page (link_to ''p3'') (Some 2) (Some [Some v2, Some v3])"

definition third_page :: VolumeResponse where
  "third_page = page None (Some 1) (Some [Some v4])"

definition three_pages :: RestClient where
  "three_pages = example_client
     (Some \<lparr>VolumeCollectionGetOK_Payload = Some first_page\<rparr>)
     [(''p2'', Some \<lparr>VolumeCollectionGetOK_Payload = Some second_page\<rparr>),
      (''p3'', Some \<lparr>VolumeCollectionGetOK_Payload = Some third_page\<rparr>)]
     [''success'']"

definition uncounted_page :: VolumeResponse where
  "uncounted_page = page None None (Some [Some v2])"

definition uncounted_second :: RestClient where
  "uncounted_second = example_client
     (Some \<lparr>VolumeCollectionGetOK_Payload = Some first_page\<rparr>)
     [(''p2'', Some \<lparr>VolumeCollectionGetOK_Payload = Some uncounted_page\<rparr>)]
     [''success'']"

definition all_flexvols :: VolumeCollectionGetParams where
  "all_flexvols = flexvol_params ''*'' (Some ''online'')"

text \<open>A server with the one volume given, and a server without volumes.\<close>

definition one_volume :: "Volume \<Rightarrow> string list \<Rightarrow> RestClient" where
  "one_volume v states = example_client (page_ok None (Some 1) (Some [Some v])) [] states"

definition no_volume :: RestClient where
  "no_volume = example_client (page_ok None (Some 0) None) [] [''success'']"

text \<open>
  A server on which a volume exists once its create request has been sent: a collection
  request is answered with the volumes of the create requests sent so far that have the
  name and the style asked for, on one page. \<open>new_volume_request style\<close> is the request
  that \<open>createVolumeByStyle\<close> builds for a volume \<open>v1\<close> of the given style, of 1024 bytes
  on the aggregate \<open>aggr1\<close>, with the export policy \<open>default\<close> and the security style
  \<open>unix\<close>, and \<open>created_trace style\<close> the calls of its creation on that server.
\<close>

fun created :: "call \<Rightarrow> Volume list" where
  "created (VolumeCreate_call params) =
     (case Create_Info params of None \<Rightarrow> [] | Some v \<Rightarrow> [v])"
| "created _ = []"

definition creating_server :: "string list \<Rightarrow> world" where
  "creating_server states = (example_server None [] states)\<lparr>
     srv_VolumeCollectionGet := (\<lambda>t params next.
       let found = filter (\<lambda>v. Volume_Name v = CollectionGet_Name params \<and>
                                 Volume_Style v = CollectionGet_Style params)
                     (concat (map created t))
       in (page_ok None (Some (of_nat (length found)))
             (if found = [] then None else Some (map Some found)), None))\<rparr>"

definition creating_client :: "string list \<Rightarrow> RestClient" where
  "creating_client states = \<lparr>svmUUID = ''svm-1'', api = creating_server states\<rparr>"

definition new_volume :: "string \<Rightarrow> Volume" where
  "new_volume style = Volume_zero\<lparr>
     Volume_Name := Some ''v1'',
     Volume_Size := Some 1024,
     Volume_Comment := Some ''a comment'',
     Volume_State := Some ''online'',
     Volume_Style := Some style,
     Volume_Guarantee := Some \<lparr>Guarantee_Type = Some ''none''\<rparr>,
     Volume_SnapshotPolicy := Some \<lparr>SnapshotPolicy_Name = Some ''none''\<rparr>,
     Volume_VolumeInlineAggregates := Some [Some \<lparr>AggregatesItem_Name = Some ''aggr1''\<rparr>],
     Volume_Svm := Some \<lparr>Svm_UUID = Some ''svm-1''\<rparr>,
     Volume_Nas := Some (VolumeInlineNas_zero\<lparr>
       Nas_ExportPolicy := Some \<lparr>ExportPolicy_Name = Some ''default''\<rparr>,
       Nas_SecurityStyle := Some ''unix''\<rparr>)\<rparr>"

definition new_volume_request :: "string \<Rightarrow> VolumeCreateParams" where
  "new_volume_request style = \<lparr>Create_Info = Some (new_volume style)\<rparr>"

definition new_volume_query :: "string \<Rightarrow> VolumeCollectionGetParams" where
  "new_volume_query style =
     \<lparr>CollectionGet_SvmUUID = Some ''svm-1'', CollectionGet_Name = Some ''v1'',
      CollectionGet_State = Some ''online'', CollectionGet_Style = Some style,
      CollectionGet_Fields = [''**'']\<rparr>"

definition created_trace :: "string \<Rightarrow> trace" where
  "created_trace style =
     [VolumeCreate_call (new_volume_request style), JobGet_call job1_params,
      JobGet_call job1_params, JobGet_call job1_params,
      VolumeCollectionGet_call (new_volume_query style) None]"

text \<open>
  Servers for the lists of aggregates and of NVMe subsystems. A request without a next
  link gets the first page, which has a next link, and a request with a next link gets
  the second response given. The first page of aggregates has one aggregate; a page of
  subsystems has its next link, its record count and one subsystem of the given name.
\<close>

definition aggregate_first :: AggregateResponse where
  "aggregate_first =
     \<lparr>AggregateResponse_Links =
        Some \<lparr>AggregateLinks_Next = link_to ''p2'', AggregateLinks_Self = None\<rparr>,
      AggregateResponse_NumRecords = Some 1,
      AggregateResponse_AggregateResponseInlineRecords =
        Some [Some \<lparr>Aggregate_Name = Some ''aggr1''\<rparr>]\<rparr>"

definition subsystem_page ::
  "Href option \<Rightarrow> 64 word option \<Rightarrow> string \<Rightarrow> NvmeSubsystemResponse" where
  "subsystem_page next n name =
     \<lparr>NvmeSubsystemResponse_Links =
        Some \<lparr>NvmeSubsystemLinks_Next = next, NvmeSubsystemLinks_Self = None\<rparr>,
      NvmeSubsystemResponse_NumRecords = n,
      NvmeSubsystemResponse_NvmeSubsystemResponseInlineRecords =
        Some [Some \<lparr>NvmeSubsystem_Name = Some name\<rparr>]\<rparr>"

definition aggregate_client :: "AggregateCollectionGetOK option \<Rightarrow> RestClient" where
  "aggregate_client second =
     \<lparr>svmUUID = ''svm-1'',
      api = (example_server None [] [''success''])\<lparr>
        srv_AggregateCollectionGet := (\<lambda>t params next.
          case next of
            None \<Rightarrow> (Some \<lparr>AggregateCollectionGetOK_Payload = Some aggregate_first\<rparr>, None)
          | Some h \<Rightarrow> (second, None))\<rparr>\<rparr>"

definition subsystem_client ::
  "NvmeSubsystemResponse \<Rightarrow> NvmeSubsystemCollectionGetOK option \<Rightarrow> RestClient" where
  "subsystem_client first second =
     \<lparr>svmUUID = ''svm-1'',
      api = (example_server None [] [''success''])\<lparr>
        srv_NvmeSubsystemCollectionGet := (\<lambda>t params next.
          case next of
            None \<Rightarrow> (Some \<lparr>NvmeSubsystemCollectionGetOK_Payload = Some first\<rparr>, None)
          | Some h \<Rightarrow> (second, None))\<rparr>\<rparr>"

definition all_aggregates :: AggregateCollectionGetParams where
  "all_aggregates = \<lparr>AggregateGet_Name = Some ''*'', AggregateGet_Fields = [''**'']\<rparr>"

definition all_subsystems :: NvmeSubsystemCollectionGetParams where
  "all_subsystems = \<lparr>NvmeSubsystemGet_SvmUUID = Some ''svm-1'',
     NvmeSubsystemGet_Name = Some ''*'', NvmeSubsystemGet_Fields = [''**'']\<rparr>"

section \<open>Vocabulary of the properties\<close>

text \<open>
  \<open>job_fetched c payload t jp t'\<close>: the payload names a job by its UUID, and the fetch of
  that job after the calls \<open>t\<close> returns the job \<open>jp\<close> without an error and leaves the
  calls \<open>t'\<close>.
\<close>

definition job_fetched ::
  "RestClient \<Rightarrow> JobLinkResponse option \<Rightarrow> trace \<Rightarrow> Job \<Rightarrow> trace \<Rightarrow> bool" where
  "job_fetched c payload t jp t' \<longleftrightarrow>
     (\<exists>p job u r. payload = Some p \<and> JobLinkResponse_Job p = Some job \<and>
        JobLink_UUID job = Some u \<and> JobGet c u t = Some (Ret (Some r, None), t') \<and>
        JobGetOK_Payload r = Some jp)"

text \<open>
  \<open>poll_ended c payload u t err t1\<close>: the payload names the job \<open>u\<close>, and the polling loop
  of \<open>PollJobStatus\<close>, started after the calls \<open>t\<close>, ends with \<open>err\<close> and leaves the calls
  \<open>t1\<close>.
\<close>

definition poll_ended ::
  "RestClient \<Rightarrow> JobLinkResponse option \<Rightarrow> string \<Rightarrow> trace \<Rightarrow> error option \<Rightarrow> trace \<Rightarrow> bool"
  where
  "poll_ended c payload u t err t1 \<longleftrightarrow>
     (\<exists>p job. payload = Some p \<and> JobLinkResponse_Job p = Some job \<and>
        JobLink_UUID job = Some u \<and>
        backoff_RetryNotify c (checkJobStatus c payload u) t = Some (Ret err, t1))"

text \<open>
  A response of the collection endpoint is \<open>uncounted\<close> when it has no result, no
  payload or no record count: the three tests after which the pagination loop stops
  without merging. \<open>count_of\<close> reads a record count with nil as zero, and \<open>records_of\<close>
  the records of a page.
\<close>

definition uncounted :: "VolumeCollectionGetOK option \<Rightarrow> bool" where
  "uncounted r =
     (case r of
        None \<Rightarrow> True
      | Some ok \<Rightarrow>
          (case VolumeCollectionGetOK_Payload ok of
             None \<Rightarrow> True
           | Some p \<Rightarrow> VolumeResponse_NumRecords p = None))"

definition count_of :: "VolumeResponse \<Rightarrow> 64 word" where
  "count_of p = (case VolumeResponse_NumRecords p of None \<Rightarrow> 0 | Some n \<Rightarrow> n)"

definition records_of :: "VolumeResponse \<Rightarrow> Volume option list" where
  "records_of p = elems (VolumeResponse_VolumeResponseInlineRecords p)"

text \<open>
  \<open>page_walk c params t link ps err t'\<close>: after the calls \<open>t\<close>, the requests that follow
  the next links from \<open>link\<close> on are answered with the pages \<open>ps\<close>, in this order, each
  with a record count and each but the last with a next link, which the next request
  carries. The walk ends with the calls \<open>t'\<close>: at a fetch error \<open>err\<close>, at an uncounted
  response, or at a page that \<open>HasNextLink\<close> finds without a next link, which is the
  last of \<open>ps\<close>.
\<close>

inductive page_walk ::
  "RestClient \<Rightarrow> VolumeCollectionGetParams \<Rightarrow> trace \<Rightarrow> Href option \<Rightarrow> VolumeResponse list
    \<Rightarrow> error option \<Rightarrow> trace \<Rightarrow> bool"
  for c :: RestClient and params :: VolumeCollectionGetParams where
    walk_error:
      "api_VolumeCollectionGet c params link t = Some (Ret (r, Some e), t')
       \<Longrightarrow> page_walk c params t link [] (Some e) t'"
  | walk_uncounted:
      "api_VolumeCollectionGet c params link t = Some (Ret (r, None), t') \<Longrightarrow> uncounted r
       \<Longrightarrow> page_walk c params t link [] None t'"
  | walk_last:
      "api_VolumeCollectionGet c params link t = Some (Ret (Some r, None), t')
       \<Longrightarrow> VolumeCollectionGetOK_Payload r = Some p
       \<Longrightarrow> VolumeResponse_NumRecords p \<noteq> None
       \<Longrightarrow> \<not> HasNextLink (iface_VolumeResponse (Some p))
       \<Longrightarrow> page_walk c params t link [p] None t'"
  | walk_next:
      "api_VolumeCollectionGet c params link t = Some (Ret (Some r, None), t')
       \<Longrightarrow> VolumeCollectionGetOK_Payload r = Some p
       \<Longrightarrow> VolumeResponse_NumRecords p \<noteq> None
       \<Longrightarrow> HasNextLink (iface_VolumeResponse (Some p))
       \<Longrightarrow> VolumeResponse_Links p = Some l
       \<Longrightarrow> page_walk c params t' (Links_Next l) ps err t''
       \<Longrightarrow> page_walk c params t link (p # ps) err t''"

text \<open>What the loop does with one counted page, and with a list of them.\<close>

definition merge_page :: "VolumeResponse \<Rightarrow> VolumeResponse \<Rightarrow> VolumeResponse" where
  "merge_page payload p =
     payload\<lparr>VolumeResponse_NumRecords := Some (count_of payload + count_of p),
             VolumeResponse_VolumeResponseInlineRecords :=
               go_append (VolumeResponse_VolumeResponseInlineRecords payload)
                 (VolumeResponse_VolumeResponseInlineRecords p)\<rparr>"

fun merge_pages :: "VolumeResponse \<Rightarrow> VolumeResponse list \<Rightarrow> VolumeResponse" where
  "merge_pages payload [] = payload"
| "merge_pages payload (p # ps) = merge_pages (merge_page payload p) ps"

text \<open>
  \<open>reads_only t t'\<close>: the calls \<open>t'\<close> are the calls \<open>t\<close> followed by collection requests
  only. \<open>polls_only t t'\<close>: they are the calls \<open>t\<close> followed by job fetches only.
\<close>

definition reads_only :: "trace \<Rightarrow> trace \<Rightarrow> bool" where
  "reads_only t t' \<longleftrightarrow> (\<exists>cs. t' = t @ cs \<and> filter (\<lambda>x. \<not> is_VolumeCollectionGet x) cs = [])"

definition polls_only :: "trace \<Rightarrow> trace \<Rightarrow> bool" where
  "polls_only t t' \<longleftrightarrow> (\<exists>js. t' = t @ js \<and> filter (\<lambda>x. \<not> is_JobGet x) js = [])"






text \<open>
  The last statements of \<open>createVolumeByStyle\<close>: the create call with its two tests,
  the poll of the job, and the wait for the volume that the style selects.
\<close>

definition create_then_poll_wait ::
  "RestClient \<Rightarrow> string \<Rightarrow> string \<Rightarrow> VolumeCreateParams \<Rightarrow> error option io" where
  "create_then_poll_wait c name style params =
     bind_io (api_VolumeCreate c params) (\<lambda>(volumeCreateAccepted, err).
          if err \<noteq> None then ret err
          else
            (case volumeCreateAccepted of
               None \<Rightarrow> ret (Some (Errorf ''unexpected response from volume create'' []))
             | Some accepted \<Rightarrow>
                 bind_io (PollJobStatus c (VolumeCreateAccepted_Payload accepted)) (\<lambda>pollErr.
                   if pollErr \<noteq> None then ret pollErr
                   else if style = VolumeStyleFlexgroup then waitForFlexgroup c name
                   else waitForVolume c name)))"

text \<open>
  \<open>volume_query c name style\<close>: the collection request of \<open>getVolumeByNameAndStyle\<close>, for
  the online volumes of the name and the style in the SVM of the client.
  \<open>volume_listed c params t payload t'\<close>: after the calls \<open>t\<close> the server answers the
  request \<open>params\<close> without an error with a first page, and \<open>payload\<close> is this page when
  \<open>HasNextLink\<close> finds no next link on it, and otherwise this page merged with the pages
  of the walk along its next link; \<open>t'\<close> are the calls after the last request.
\<close>

definition volume_query :: "RestClient \<Rightarrow> string \<Rightarrow> string \<Rightarrow> VolumeCollectionGetParams" where
  "volume_query c name style =
     \<lparr>CollectionGet_SvmUUID = Some (svmUUID c), CollectionGet_Name = Some name,
      CollectionGet_State = Some VolumeStateOnline, CollectionGet_Style = Some style,
      CollectionGet_Fields = [''**'']\<rparr>"

definition volume_listed ::
  "RestClient \<Rightarrow> VolumeCollectionGetParams \<Rightarrow> trace \<Rightarrow> VolumeResponse \<Rightarrow> trace \<Rightarrow> bool" where
  "volume_listed c params t payload t' \<longleftrightarrow>
     (\<exists>r p. srv_VolumeCollectionGet (api c) t params None = (Some r, None) \<and>
        VolumeCollectionGetOK_Payload r = Some p \<and>
        (if HasNextLink (iface_VolumeResponse (Some p))
         then \<exists>l ps. VolumeResponse_Links p = Some l \<and>
                page_walk c params (t @ [VolumeCollectionGet_call params None]) (Links_Next l)
                  ps None t' \<and>
                payload = merge_pages p ps
         else payload = p \<and> t' = t @ [VolumeCollectionGet_call params None]))"






section \<open>Properties of the job functions\<close>

lemma ret_apply: "ret a t = Some (Ret a, t)"
  by (simp add: ret_def)

lemma panic_apply: "panic t = Some (Panic, t)"
  by (simp add: panic_def)

lemma bind_io_total:
  "m t \<noteq> None \<Longrightarrow> (\<And>a t1. f a t1 \<noteq> None) \<Longrightarrow> bind_io m f t \<noteq> None"
  by (auto simp: bind_io_def split: option.splits res.splits)

lemma JobGet_apply:
  "JobGet c u t =
     Some (Ret (srv_JobGet (api c) t \<lparr>JobGetParams_UUID = u, JobGetParams_Fields = [''**'']\<rparr>),
       t @ [JobGet_call \<lparr>JobGetParams_UUID = u, JobGetParams_Fields = [''**'']\<rparr>])"
  by (simp add: JobGet_def api_JobGet_def rest_call_def)

lemma states_distinct:
  "JobStateSuccess \<noteq> JobStateFailure"
  "JobStateSuccess \<noteq> JobStatePaused"
  "JobStateSuccess \<noteq> JobStateRunning"
  "JobStateSuccess \<noteq> JobStateQueued"
  "JobStateFailure \<noteq> JobStateSuccess"
  "JobStateFailure \<noteq> JobStatePaused"
  "JobStateFailure \<noteq> JobStateRunning"
  "JobStateFailure \<noteq> JobStateQueued"
  "JobStatePaused \<noteq> JobStateSuccess"
  "JobStatePaused \<noteq> JobStateFailure"
  "JobStatePaused \<noteq> JobStateRunning"
  "JobStatePaused \<noteq> JobStateQueued"
  "JobStateRunning \<noteq> JobStateSuccess"
  "JobStateRunning \<noteq> JobStateFailure"
  "JobStateRunning \<noteq> JobStatePaused"
  "JobStateRunning \<noteq> JobStateQueued"
  "JobStateQueued \<noteq> JobStateSuccess"
  "JobStateQueued \<noteq> JobStateFailure"
  "JobStateQueued \<noteq> JobStatePaused"
  "JobStateQueued \<noteq> JobStateRunning"
  by (simp_all add: JobStateSuccess_def JobStateFailure_def JobStatePaused_def
      JobStateRunning_def JobStateQueued_def)

lemmas example_defs =
  example_client_def example_server_def example_job_def job_state_at_def accepted_job_def
  job1_params_def

subsection \<open>\<open>IsJobFinished\<close>\<close>

lemma IsJobFinished_fetched:
  assumes "job_fetched c payload t jp t'"
  shows "IsJobFinished c payload t = Some (Ret
     (case Job_State jp of
        None \<Rightarrow> (False, Some (Errorf ''unexpected nil job state '' []))
      | Some s \<Rightarrow>
          if s = JobStateSuccess \<or> s = JobStateFailure then (True, None)
          else if s = JobStatePaused \<or> s = JobStateRunning \<or> s = JobStateQueued
          then (False, None)
          else (False, Some (Errorf ''unexpected job state %v'' [''<pointer>'']))), t')"
  using assms
  by (auto simp add: job_fetched_def IsJobFinished_def bind_io_def ret_def split: option.splits)

lemma IsJobFinished_True_iff:
  "IsJobFinished c payload t = Some (Ret (True, e), t') \<longleftrightarrow>
     e = None \<and> (\<exists>jp s. job_fetched c payload t jp t' \<and> Job_State jp = Some s \<and>
        (s = JobStateSuccess \<or> s = JobStateFailure))"
  apply (simp add: job_fetched_def IsJobFinished_def bind_io_def ret_def panic_def JobGet_apply
      split: option.splits prod.splits)
  apply (auto simp: states_distinct)
  done

lemma IsJobFinished_total: "IsJobFinished c payload t \<noteq> None"
  by (simp add: IsJobFinished_def bind_io_def ret_def panic_def JobGet_apply
      split: option.splits prod.splits)

text \<open>
  Claim C1. \<open>IsJobFinished\<close>, given a job-link payload, fetches the job's state and
  returns true exactly when that state is a terminal state, success or failure, and then
  with a nil error. It returns false with a nil error for the states queued, running and
  paused. It returns false with an error, before any call, for a nil payload, a nil job
  and a nil UUID, and after the fetch for a nil state and for any other state value. It
  always returns or panics.
\<close>

theorem IsJobFinished_terminal:
  "(IsJobFinished c payload t = Some (Ret (True, e), t') \<longleftrightarrow>
      e = None \<and> (\<exists>jp s. job_fetched c payload t jp t' \<and> Job_State jp = Some s \<and>
        (s = JobStateSuccess \<or> s = JobStateFailure)))
   \<and> (\<forall>jp s. job_fetched c payload t jp t' \<and> Job_State jp = Some s \<and>
          (s = JobStateQueued \<or> s = JobStateRunning \<or> s = JobStatePaused)
        \<longrightarrow> IsJobFinished c payload t = Some (Ret (False, None), t'))
   \<and> (payload = None \<or> (\<exists>p. payload = Some p \<and> JobLinkResponse_Job p = None)
        \<or> (\<exists>p job. payload = Some p \<and> JobLinkResponse_Job p = Some job \<and>
              JobLink_UUID job = None)
        \<longrightarrow> (\<exists>err. IsJobFinished c payload t = Some (Ret (False, Some err), t)))
   \<and> (\<forall>jp. job_fetched c payload t jp t' \<and>
          (Job_State jp = None \<or> (\<exists>s. Job_State jp = Some s \<and>
             s \<notin> {JobStateSuccess, JobStateFailure, JobStateQueued, JobStateRunning,
                   JobStatePaused}))
        \<longrightarrow> (\<exists>err. IsJobFinished c payload t = Some (Ret (False, Some err), t')))
   \<and> IsJobFinished c payload t \<noteq> None"
proof (intro conjI allI impI)
  show "IsJobFinished c payload t = Some (Ret (True, e), t') \<longleftrightarrow>
      e = None \<and> (\<exists>jp s. job_fetched c payload t jp t' \<and> Job_State jp = Some s \<and>
        (s = JobStateSuccess \<or> s = JobStateFailure))"
    by (rule IsJobFinished_True_iff)
next
  fix jp s
  assume "job_fetched c payload t jp t' \<and> Job_State jp = Some s \<and>
          (s = JobStateQueued \<or> s = JobStateRunning \<or> s = JobStatePaused)"
  then show "IsJobFinished c payload t = Some (Ret (False, None), t')"
    using IsJobFinished_fetched [of c payload t jp t'] by (auto simp: states_distinct)
next
  assume "payload = None \<or> (\<exists>p. payload = Some p \<and> JobLinkResponse_Job p = None)
        \<or> (\<exists>p job. payload = Some p \<and> JobLinkResponse_Job p = Some job \<and>
              JobLink_UUID job = None)"
  then show "\<exists>err. IsJobFinished c payload t = Some (Ret (False, Some err), t)"
    by (auto simp: IsJobFinished_def ret_def)
next
  fix jp
  assume "job_fetched c payload t jp t' \<and>
          (Job_State jp = None \<or> (\<exists>s. Job_State jp = Some s \<and>
             s \<notin> {JobStateSuccess, JobStateFailure, JobStateQueued, JobStateRunning,
                   JobStatePaused}))"
  then show "\<exists>err. IsJobFinished c payload t = Some (Ret (False, Some err), t')"
    using IsJobFinished_fetched [of c payload t jp t'] by auto
next
  show "IsJobFinished c payload t \<noteq> None"
    by (rule IsJobFinished_total)
qed

text \<open>A job in the state success is finished; a job in the state queued is not.\<close>

theorem IsJobFinished_terminal_witness:
  "IsJobFinished (example_client None [] [''success'']) (Some accepted_job) [] =
     Some (Ret (True, None), [JobGet_call job1_params])
   \<and> IsJobFinished (example_client None [] [''queued'']) (Some accepted_job) [] =
     Some (Ret (False, None), [JobGet_call job1_params])"
proof -
  let ?s = "example_client None [] [''success'']"
  let ?q = "example_client None [] [''queued'']"
  let ?t = "[JobGet_call job1_params]"
  have s: "job_fetched ?s (Some accepted_job) [] (example_job ''job-1'' (Some ''success'')) ?t"
    by (simp add: job_fetched_def JobGet_apply example_defs)
  have q: "job_fetched ?q (Some accepted_job) [] (example_job ''job-1'' (Some ''queued'')) ?t"
    by (simp add: job_fetched_def JobGet_apply example_defs)
  have "IsJobFinished ?s (Some accepted_job) [] = Some (Ret (True, None), ?t)"
    apply (rule IsJobFinished_terminal [of ?s "Some accepted_job" "[]" None ?t,
          THEN conjunct1, THEN iffD2])
    apply (rule conjI, rule refl)
    apply (rule exI [of _ "example_job ''job-1'' (Some ''success'')"])
    apply (rule exI [of _ "''success''"])
    apply (simp add: s)
    apply (simp add: example_job_def JobStateSuccess_def)
    done
  moreover have "IsJobFinished ?q (Some accepted_job) [] = Some (Ret (False, None), ?t)"
    apply (rule IsJobFinished_terminal [of ?q "Some accepted_job" "[]" None ?t,
          THEN conjunct2, THEN conjunct1, rule_format,
          of "example_job ''job-1'' (Some ''queued'')" "''queued''"])
    apply (simp add: q)
    apply (simp add: example_job_def JobStateQueued_def)
    done
  ultimately show ?thesis by simp
qed

subsection \<open>\<open>PollJobStatus\<close>\<close>

lemma checkJobStatus_total: "checkJobStatus c payload u t \<noteq> None"
  unfolding checkJobStatus_def
  by (rule bind_io_total) (auto simp: IsJobFinished_total ret_def)

lemma RetryNotify_total:
  "(\<And>t. operation t \<noteq> None) \<Longrightarrow> RetryNotify operation n t \<noteq> None"
proof (induction n arbitrary: t)
  case 0
  then show ?case by simp
next
  case (Suc n)
  then show ?case by (auto split: option.splits res.splits)
qed

lemma PollJobStatus_total: "PollJobStatus c payload t \<noteq> None"
proof (cases payload)
  case None
  then show ?thesis by (simp add: PollJobStatus_def panic_def)
next
  case (Some p)
  show ?thesis
  proof (cases "JobLinkResponse_Job p")
    case None
    with Some show ?thesis by (simp add: PollJobStatus_def ret_def)
  next
    case job: (Some job)
    show ?thesis
    proof (cases "JobLink_UUID job")
      case None
      with Some job show ?thesis by (simp add: PollJobStatus_def ret_def)
    next
      case u: (Some u)
      have loop: "backoff_RetryNotify c (checkJobStatus c payload u) t \<noteq> None"
        unfolding backoff_RetryNotify_def
        by (rule RetryNotify_total) (rule checkJobStatus_total)
      show ?thesis
        using Some job u loop
        by (auto simp: PollJobStatus_def ret_def panic_def JobGet_apply bind_io_def
            split: option.splits prod.splits res.splits)
    qed
  qed
qed

lemma PollJobStatus_poll_failed:
  assumes "poll_ended c payload u t (Some err) t1"
  shows "PollJobStatus c payload t = Some (Ret (Some err), t1)"
  using assms by (auto simp: poll_ended_def PollJobStatus_def bind_io_def ret_def)

lemma PollJobStatus_refetch_failed:
  assumes "poll_ended c payload u t None t1"
    and "JobGet c u t1 = Some (Ret (r, Some err), t')"
  shows "PollJobStatus c payload t = Some (Ret (Some err), t')"
  using assms by (auto simp: poll_ended_def PollJobStatus_def bind_io_def ret_def)

lemma PollJobStatus_refetched:
  assumes "poll_ended c payload u t None t1"
    and "JobGet c u t1 = Some (Ret (Some r, None), t')"
    and "JobGetOK_Payload r = Some jp"
  shows "PollJobStatus c payload t = Some (Ret
     (case Job_State jp of
        None \<Rightarrow> Some (Errorf ''unexpected nil job state '' [])
      | Some s \<Rightarrow>
          if s = JobStateSuccess then None
          else if s = JobStateFailure then Some (RestErrorFromPayload (Some jp))
          else Some (Errorf ''unexpected job state %v'' [''<pointer>''])), t')"
  using assms
  by (auto simp: poll_ended_def PollJobStatus_def bind_io_def ret_def split: option.splits)

lemma PollJobStatus_nil_iff:
  "PollJobStatus c payload t = Some (Ret None, t') \<longleftrightarrow>
     (\<exists>u t1 r jp. poll_ended c payload u t None t1 \<and>
        JobGet c u t1 = Some (Ret (Some r, None), t') \<and>
        JobGetOK_Payload r = Some jp \<and> Job_State jp = Some JobStateSuccess)"
  apply (simp add: poll_ended_def PollJobStatus_def bind_io_def ret_def panic_def JobGet_apply
      split: option.splits prod.splits res.splits)
  apply (auto simp: states_distinct)
  done

text \<open>
  Claim C2. \<open>PollJobStatus\<close> returns nil exactly when its polling loop has ended with
  nil and the job, fetched again after the loop, is in the state success. When the
  fetched state is failure it returns the error built from the fetched job payload. It
  returns an error for a nil job and for a nil job UUID before any call, the error of the
  polling loop when the loop ends with one, the error of the fetch when the fetch fails,
  and an error for a nil state and for any state other than success and failure. It
  always returns or panics.
\<close>

theorem PollJobStatus_result:
  "(PollJobStatus c payload t = Some (Ret None, t') \<longleftrightarrow>
      (\<exists>u t1 r jp. poll_ended c payload u t None t1 \<and>
         JobGet c u t1 = Some (Ret (Some r, None), t') \<and>
         JobGetOK_Payload r = Some jp \<and> Job_State jp = Some JobStateSuccess))
   \<and> (\<forall>u t1 r jp. poll_ended c payload u t None t1 \<and>
         JobGet c u t1 = Some (Ret (Some r, None), t') \<and>
         JobGetOK_Payload r = Some jp \<and> Job_State jp = Some JobStateFailure
        \<longrightarrow> PollJobStatus c payload t = Some (Ret (Some (RestErrorFromPayload (Some jp))), t'))
   \<and> (\<forall>p. payload = Some p \<and>
          (JobLinkResponse_Job p = None \<or>
           (\<exists>job. JobLinkResponse_Job p = Some job \<and> JobLink_UUID job = None))
        \<longrightarrow> (\<exists>err. PollJobStatus c payload t = Some (Ret (Some err), t)))
   \<and> (\<forall>u t1 err. poll_ended c payload u t (Some err) t1
        \<longrightarrow> PollJobStatus c payload t = Some (Ret (Some err), t1))
   \<and> (\<forall>u t1 r err. poll_ended c payload u t None t1 \<and>
         JobGet c u t1 = Some (Ret (r, Some err), t')
        \<longrightarrow> PollJobStatus c payload t = Some (Ret (Some err), t'))
   \<and> (\<forall>u t1 r jp. poll_ended c payload u t None t1 \<and>
         JobGet c u t1 = Some (Ret (Some r, None), t') \<and> JobGetOK_Payload r = Some jp \<and>
         Job_State jp \<noteq> Some JobStateSuccess \<and> Job_State jp \<noteq> Some JobStateFailure
        \<longrightarrow> (\<exists>err. PollJobStatus c payload t = Some (Ret (Some err), t')))
   \<and> PollJobStatus c payload t \<noteq> None"
proof (intro conjI allI impI)
  show "PollJobStatus c payload t = Some (Ret None, t') \<longleftrightarrow>
      (\<exists>u t1 r jp. poll_ended c payload u t None t1 \<and>
         JobGet c u t1 = Some (Ret (Some r, None), t') \<and>
         JobGetOK_Payload r = Some jp \<and> Job_State jp = Some JobStateSuccess)"
    by (rule PollJobStatus_nil_iff)
next
  fix u t1 r jp
  assume "poll_ended c payload u t None t1 \<and>
         JobGet c u t1 = Some (Ret (Some r, None), t') \<and>
         JobGetOK_Payload r = Some jp \<and> Job_State jp = Some JobStateFailure"
  then show "PollJobStatus c payload t = Some (Ret (Some (RestErrorFromPayload (Some jp))), t')"
    using PollJobStatus_refetched [of c payload u t t1 r t' jp] by (simp add: states_distinct)
next
  fix p
  assume "payload = Some p \<and>
          (JobLinkResponse_Job p = None \<or>
           (\<exists>job. JobLinkResponse_Job p = Some job \<and> JobLink_UUID job = None))"
  then show "\<exists>err. PollJobStatus c payload t = Some (Ret (Some err), t)"
    by (auto simp: PollJobStatus_def ret_def)
next
  fix u t1 err
  assume "poll_ended c payload u t (Some err) t1"
  then show "PollJobStatus c payload t = Some (Ret (Some err), t1)"
    by (rule PollJobStatus_poll_failed)
next
  fix u t1 r err
  assume "poll_ended c payload u t None t1 \<and> JobGet c u t1 = Some (Ret (r, Some err), t')"
  then show "PollJobStatus c payload t = Some (Ret (Some err), t')"
    using PollJobStatus_refetch_failed by blast
next
  fix u t1 r jp
  assume "poll_ended c payload u t None t1 \<and>
         JobGet c u t1 = Some (Ret (Some r, None), t') \<and> JobGetOK_Payload r = Some jp \<and>
         Job_State jp \<noteq> Some JobStateSuccess \<and> Job_State jp \<noteq> Some JobStateFailure"
  then show "\<exists>err. PollJobStatus c payload t = Some (Ret (Some err), t')"
    using PollJobStatus_refetched [of c payload u t t1 r t' jp]
    by (auto split: option.splits)
next
  show "PollJobStatus c payload t \<noteq> None"
    by (rule PollJobStatus_total)
qed

text \<open>A job that is running at the first fetch and successful from the second: the
  loop fetches it twice, the function fetches it a third time and returns nil.\<close>

lemma example_poll_ended:
  "poll_ended (example_client first pages [''running'', ''success'']) (Some accepted_job)
     ''job-1'' t None (t @ [JobGet_call job1_params, JobGet_call job1_params])"
  if "filter is_JobGet t = []"
  using that
  by (simp add: poll_ended_def backoff_RetryNotify_def checkJobStatus_def eval_nat_numeral
      IsJobFinished_def bind_io_def ret_def JobGet_apply example_defs JobStateSuccess_def
      JobStateFailure_def JobStatePaused_def JobStateRunning_def JobStateQueued_def)

theorem PollJobStatus_result_witness:
  "PollJobStatus (example_client None [] [''running'', ''success'']) (Some accepted_job) [] =
     Some (Ret None, [JobGet_call job1_params, JobGet_call job1_params, JobGet_call job1_params])"
proof -
  let ?c = "example_client None [] [''running'', ''success'']"
  let ?j = "JobGet_call job1_params"
  have ended: "poll_ended ?c (Some accepted_job) ''job-1'' [] None [?j, ?j]"
    using example_poll_ended [of "[]" None "[]"] by simp
  have fetch: "JobGet ?c ''job-1'' [?j, ?j] =
      Some (Ret (Some \<lparr>JobGetOK_Payload = Some (example_job ''job-1'' (Some ''success''))\<rparr>, None),
        [?j, ?j, ?j])"
    by (simp add: JobGet_apply example_defs)
  show ?thesis
    apply (rule PollJobStatus_result [of ?c "Some accepted_job" "[]" "[?j, ?j, ?j]",
          THEN conjunct1, THEN iffD2])
    apply (rule exI [of _ "''job-1''"])
    apply (rule exI [of _ "[?j, ?j]"])
    apply (rule exI [of _ "\<lparr>JobGetOK_Payload = Some (example_job ''job-1'' (Some ''success''))\<rparr>"])
    apply (rule exI [of _ "example_job ''job-1'' (Some ''success'')"])
    apply (simp add: ended fetch)
    apply (simp add: example_job_def JobStateSuccess_def)
    done
qed

section \<open>Properties of \<open>HasNextLink\<close>\<close>

lemmas reflect_defs =
  HasNextLink_def HasNextLink_body_def iface_VolumeResponse_def value_behind_def
  ValueOf_def TypeOf_Kind_def Indirect_def FieldByName_def IsValid_def Interface_def
  Value_String_def val_VolumeResponse_def val_Links_def val_Href_def

text \<open>On a page, \<open>HasNextLink\<close> answers whether the next link is there, whatever its
  href.\<close>

lemma HasNextLink_typed:
  "HasNextLink (iface_VolumeResponse payload) \<longleftrightarrow>
     (\<exists>p l h. payload = Some p \<and> VolumeResponse_Links p = Some l \<and> Links_Next l = Some h)"
  by (cases payload; cases "VolumeResponse_Links (the payload)";
      cases "Links_Next (the (VolumeResponse_Links (the payload)))")
     (auto simp: reflect_defs)

text \<open>
  Claim C7. \<open>HasNextLink\<close> returns true exactly when the value has a chain
  \<open>Links.Next.Href\<close> whose href string is not empty. The code does not: for a page whose
  next link has a nil href, and for a page whose next link has the empty string as its
  href, it returns true, because \<open>Value.String\<close> of the field \<open>Href\<close>, a \<open>*string\<close>,
  is the text \<open><*string Value>\<close> and never the empty string.
\<close>

theorem HasNextLink_true_without_href:
  "HasNextLink (iface_VolumeResponse
      (Some (page (Some \<lparr>Href_Href = None\<rparr>) (Some 1) None)))
   \<and> HasNextLink (iface_VolumeResponse
      (Some (page (Some \<lparr>Href_Href = Some ''''\<rparr>) (Some 1) None)))
   \<and> Value_String (Some (VPtr TString None)) = ''<*string Value>''"
  by (simp add: reflect_defs page_def)

section \<open>Properties of the pagination\<close>

lemma api_VolumeCollectionGet_apply:
  "api_VolumeCollectionGet c params link t =
     Some (Ret (srv_VolumeCollectionGet (api c) t params link),
       t @ [VolumeCollectionGet_call params link])"
  by (simp add: api_VolumeCollectionGet_def rest_call_def)

lemma loop_error:
  "api_VolumeCollectionGet c params link t = Some (Ret (r, Some e), t')
   \<Longrightarrow> getAllVolumePayloadRecords_loop c params link payload t = Some (Ret (None, Some e), t')"
  by (subst getAllVolumePayloadRecords_loop.simps) simp

lemma loop_uncounted:
  "api_VolumeCollectionGet c params link t = Some (Ret (r, None), t') \<Longrightarrow> uncounted r
   \<Longrightarrow> getAllVolumePayloadRecords_loop c params link payload t =
       Some (Ret (Some payload, None), t')"
  by (subst getAllVolumePayloadRecords_loop.simps)
     (auto simp: uncounted_def split: option.splits)

lemma loop_last:
  "api_VolumeCollectionGet c params link t = Some (Ret (Some r, None), t')
   \<Longrightarrow> VolumeCollectionGetOK_Payload r = Some p
   \<Longrightarrow> VolumeResponse_NumRecords p \<noteq> None
   \<Longrightarrow> \<not> HasNextLink (iface_VolumeResponse (Some p))
   \<Longrightarrow> getAllVolumePayloadRecords_loop c params link payload t =
       Some (Ret (Some (merge_page payload p), None), t')"
  by (subst getAllVolumePayloadRecords_loop.simps)
     (auto simp: merge_page_def count_of_def split: option.splits)

lemma loop_next:
  "api_VolumeCollectionGet c params link t = Some (Ret (Some r, None), t')
   \<Longrightarrow> VolumeCollectionGetOK_Payload r = Some p
   \<Longrightarrow> VolumeResponse_NumRecords p \<noteq> None
   \<Longrightarrow> HasNextLink (iface_VolumeResponse (Some p))
   \<Longrightarrow> VolumeResponse_Links p = Some l
   \<Longrightarrow> getAllVolumePayloadRecords_loop c params link payload t =
       getAllVolumePayloadRecords_loop c params (Links_Next l) (merge_page payload p) t'"
  by (subst getAllVolumePayloadRecords_loop.simps)
     (auto simp: merge_page_def count_of_def split: option.splits)

lemma loop_walk:
  assumes "page_walk c params t link ps err t'"
  shows "getAllVolumePayloadRecords_loop c params link payload t =
     Some (Ret (if err = None then (Some (merge_pages payload ps), None) else (None, err)), t')"
  using assms
proof (induction arbitrary: payload)
  case (walk_error link t r e t')
  then show ?case by (simp add: loop_error)
next
  case (walk_uncounted link t r t')
  then show ?case by (simp add: loop_uncounted)
next
  case (walk_last link t r t' p)
  then show ?case by (simp add: loop_last)
next
  case (walk_next link t r t' p l ps err t'')
  then show ?case by (simp add: loop_next)
qed


lemma loop_Some_walk:
  assumes "getAllVolumePayloadRecords_loop c params link payload t = Some y"
  shows "\<exists>ps err t'. page_walk c params t link ps err t' \<and>
     y = (Ret (if err = None then (Some (merge_pages payload ps), None) else (None, err)), t')"
  using assms
proof (induction rule: getAllVolumePayloadRecords_loop.raw_induct [rotated 1, consumes 1])
  case (1 loop c params link payload t y)
  define r where "r = fst (srv_VolumeCollectionGet (api c) t params link)"
  define e where "e = snd (srv_VolumeCollectionGet (api c) t params link)"
  define t1 where "t1 = t @ [VolumeCollectionGet_call params link]"
  have api: "api_VolumeCollectionGet c params link t = Some (Ret (r, e), t1)"
    by (simp add: api_VolumeCollectionGet_apply r_def e_def t1_def)
  show ?case
  proof (cases e)
    case (Some err)
    with 1(2) api have "y = (Ret (None, Some err), t1)" by simp
    moreover have "page_walk c params t link [] (Some err) t1"
      using api Some by (auto intro: page_walk.walk_error)
    ultimately show ?thesis by force
  next
    case None
    show ?thesis
    proof (cases "uncounted r")
      case True
      with 1(2) api None have "y = (Ret (Some payload, None), t1)"
        by (auto simp: uncounted_def split: option.splits)
      moreover have "page_walk c params t link [] None t1"
        using api None True by (auto intro: page_walk.walk_uncounted)
      ultimately show ?thesis by force
    next
      case False
      then obtain ok p n where r: "r = Some ok" "VolumeCollectionGetOK_Payload ok = Some p"
        "VolumeResponse_NumRecords p = Some n"
        by (auto simp: uncounted_def split: option.splits)
      show ?thesis
      proof (cases "HasNextLink (iface_VolumeResponse (Some p))")
        case False
        with 1(2) api None r have "y = (Ret (Some (merge_page payload p), None), t1)"
          by (auto simp: merge_page_def count_of_def split: option.splits)
        moreover have "page_walk c params t link [p] None t1"
          using api None r False by (auto intro: page_walk.walk_last)
        ultimately show ?thesis by force
      next
        case True
        then obtain l where l: "VolumeResponse_Links p = Some l"
          by (auto simp: HasNextLink_typed)
        with 1(2) api None r True
        have "loop c params (Links_Next l) (merge_page payload p) t1 = Some y"
          by (auto simp: merge_page_def count_of_def split: option.splits)
        from 1(1) [OF this] obtain ps err t' where
          w: "page_walk c params t1 (Links_Next l) ps err t'" and
          y: "y = (Ret (if err = None then (Some (merge_pages (merge_page payload p) ps), None)
                   else (None, err)), t')"
          by blast
        have "page_walk c params t link (p # ps) err t'"
          using api None r True l w by (auto intro: page_walk.walk_next)
        with y show ?thesis by force
      qed
    qed
  qed
qed

lemma merge_pages_records:
  "records_of (merge_pages payload ps) = records_of payload @ concat (map records_of ps)"
  by (induction ps arbitrary: payload)
     (auto simp: merge_page_def records_of_def go_append_def elems_def split: option.splits)

lemma merge_pages_count:
  "ps \<noteq> [] \<Longrightarrow> VolumeResponse_NumRecords (merge_pages payload ps) =
     Some (count_of payload + sum_list (map count_of ps))"
proof (induction ps arbitrary: payload)
  case Nil
  then show ?case by simp
next
  case (Cons p ps)
  show ?case
  proof (cases ps)
    case Nil
    then show ?thesis by (simp add: merge_page_def)
  next
    case (Cons q qs)
    then have "VolumeResponse_NumRecords (merge_pages (merge_page payload p) ps) =
        Some (count_of (merge_page payload p) + sum_list (map count_of ps))"
      using Cons.IH by simp
    moreover have "count_of (merge_page payload p) = count_of payload + count_of p"
      by (simp add: merge_page_def count_of_def)
    ultimately show ?thesis by (simp add: add.assoc)
  qed
qed

lemma merge_pages_links:
  "VolumeResponse_Links (merge_pages payload ps) = VolumeResponse_Links payload"
  by (induction ps arbitrary: payload) (auto simp: merge_page_def)

lemma page_walk_trace:
  "page_walk c params t link ps err t' \<Longrightarrow>
     \<exists>links. t' = t @ map (VolumeCollectionGet_call params) links \<and> links \<noteq> [] \<and>
       hd links = link \<and>
       length links = (if err = None \<and> ps \<noteq> [] \<and> \<not> HasNextLink (iface_VolumeResponse (Some (last ps)))
                      then length ps else Suc (length ps))"
proof (induction rule: page_walk.induct)
  case (walk_error link t r e t')
  then show ?case by (auto simp: api_VolumeCollectionGet_apply intro!: exI [of _ "[link]"])
next
  case (walk_uncounted link t r t')
  then show ?case by (auto simp: api_VolumeCollectionGet_apply intro!: exI [of _ "[link]"])
next
  case (walk_last link t r t' p)
  then show ?case by (auto simp: api_VolumeCollectionGet_apply intro!: exI [of _ "[link]"])
next
  case (walk_next link t r t' p l ps err t'')
  then obtain links where links: "t'' = t' @ map (VolumeCollectionGet_call params) links"
    "links \<noteq> []" "hd links = Links_Next l"
    "length links = (if err = None \<and> ps \<noteq> [] \<and> \<not> HasNextLink (iface_VolumeResponse (Some (last ps)))
                      then length ps else Suc (length ps))"
    by blast
  have t': "t' = t @ [VolumeCollectionGet_call params link]"
    using walk_next.hyps(1) by (simp add: api_VolumeCollectionGet_apply)
  show ?case
    apply (rule exI [of _ "link # links"])
    using links t' walk_next.hyps by (cases ps) auto
qed


lemma getAllVolumePayloadRecords_no_link:
  "\<not> HasNextLink (iface_VolumeResponse payload) \<Longrightarrow>
     getAllVolumePayloadRecords c payload params t = Some (Ret (payload, None), t)"
  by (simp add: getAllVolumePayloadRecords_def ret_def)

lemma getAllVolumePayloadRecords_link:
  "payload = Some p \<Longrightarrow> VolumeResponse_Links p = Some l \<Longrightarrow>
   HasNextLink (iface_VolumeResponse payload) \<Longrightarrow>
     getAllVolumePayloadRecords c payload params t =
       getAllVolumePayloadRecords_loop c params (Links_Next l) p t"
  by (simp add: getAllVolumePayloadRecords_def)

text \<open>
  The helper of the volume lists. When \<open>HasNextLink\<close> finds no next link on the first
  page, \<open>getAllVolumePayloadRecords\<close> returns the page as it is and sends nothing. Otherwise
  it sends one request for each step of the walk along the next links and nothing more.
  When the walk ends without a fetch error the result holds the records of the first
  page followed by the records of every page of the walk that carries a record count, in
  the order of the fetches, and, when there is such a page, the sum in 64-bit arithmetic
  of the first page's count (nil as 0) and the counts of these pages; a response without
  result, payload or record count ends the walk and adds nothing. When the walk ends
  with a fetch error, that error is returned with a nil payload. Whenever the function
  returns, the requests it has sent are a walk.
\<close>

lemma getAllVolumePayloadRecords_merges:
  "(\<not> HasNextLink (iface_VolumeResponse payload) \<longrightarrow>
      getAllVolumePayloadRecords c payload params t = Some (Ret (payload, None), t))
   \<and> (\<forall>p l ps err t'.
        payload = Some p \<and> VolumeResponse_Links p = Some l \<and>
        HasNextLink (iface_VolumeResponse payload) \<and>
        page_walk c params t (Links_Next l) ps err t'
        \<longrightarrow> (err = None \<longrightarrow>
               (\<exists>result.
                  getAllVolumePayloadRecords c payload params t =
                    Some (Ret (Some result, None), t') \<and>
                  records_of result = records_of p @ concat (map records_of ps) \<and>
                  (ps \<noteq> [] \<longrightarrow> VolumeResponse_NumRecords result =
                     Some (count_of p + sum_list (map count_of ps))) \<and>
                  (ps = [] \<longrightarrow> result = p)))
          \<and> (err \<noteq> None \<longrightarrow>
                 getAllVolumePayloadRecords c payload params t = Some (Ret (None, err), t'))
          \<and> (\<exists>links. t' = t @ map (VolumeCollectionGet_call params) links \<and>
                 hd links = Links_Next l \<and>
                 length links =
                   (if err = None \<and> ps \<noteq> [] \<and>
                       \<not> HasNextLink (iface_VolumeResponse (Some (last ps)))
                    then length ps else Suc (length ps))))
   \<and> (\<forall>y. HasNextLink (iface_VolumeResponse payload) \<and>
          getAllVolumePayloadRecords c payload params t = Some y
        \<longrightarrow> (\<exists>p l ps err. payload = Some p \<and> VolumeResponse_Links p = Some l \<and>
               page_walk c params t (Links_Next l) ps err (snd y)))"
proof (intro conjI allI impI)
  assume "\<not> HasNextLink (iface_VolumeResponse payload)"
  then show "getAllVolumePayloadRecords c payload params t = Some (Ret (payload, None), t)"
    by (rule getAllVolumePayloadRecords_no_link)
next
  fix p l ps err t'
  assume a: "payload = Some p \<and> VolumeResponse_Links p = Some l \<and>
        HasNextLink (iface_VolumeResponse payload) \<and>
        page_walk c params t (Links_Next l) ps err t'"
  then have pl: "payload = Some p" "VolumeResponse_Links p = Some l"
      "HasNextLink (iface_VolumeResponse payload)"
    and walk: "page_walk c params t (Links_Next l) ps err t'"
    by auto
  have run: "getAllVolumePayloadRecords c payload params t =
      Some (Ret (if err = None then (Some (merge_pages p ps), None) else (None, err)), t')"
    unfolding getAllVolumePayloadRecords_link [OF pl] by (rule loop_walk [OF walk])
  {
    assume "err = None"
    with run show "\<exists>result.
        getAllVolumePayloadRecords c payload params t = Some (Ret (Some result, None), t') \<and>
        records_of result = records_of p @ concat (map records_of ps) \<and>
        (ps \<noteq> [] \<longrightarrow> VolumeResponse_NumRecords result =
           Some (count_of p + sum_list (map count_of ps))) \<and>
        (ps = [] \<longrightarrow> result = p)"
      by (intro exI [of _ "merge_pages p ps"])
         (simp add: merge_pages_records merge_pages_count)
  next
    assume "err \<noteq> None"
    with run show "getAllVolumePayloadRecords c payload params t = Some (Ret (None, err), t')"
      by simp
  next
    show "\<exists>links. t' = t @ map (VolumeCollectionGet_call params) links \<and>
                 hd links = Links_Next l \<and>
                 length links =
                   (if err = None \<and> ps \<noteq> [] \<and>
                       \<not> HasNextLink (iface_VolumeResponse (Some (last ps)))
                    then length ps else Suc (length ps))"
      using page_walk_trace [OF walk] by blast
  }
next
  fix y
  assume a: "HasNextLink (iface_VolumeResponse payload) \<and>
          getAllVolumePayloadRecords c payload params t = Some y"
  then obtain p l where pl: "payload = Some p" "VolumeResponse_Links p = Some l"
    by (auto simp: HasNextLink_typed)
  with a have "getAllVolumePayloadRecords_loop c params (Links_Next l) p t = Some y"
    using getAllVolumePayloadRecords_link [of payload p l c params t] by simp
  from loop_Some_walk [OF this] obtain ps err t' where
    w: "page_walk c params t (Links_Next l) ps err t'" and
    y: "y = (Ret (if err = None then (Some (merge_pages p ps), None) else (None, err)), t')"
    by blast
  from y have "snd y = t'" by simp
  with w pl
  show "\<exists>p l ps err. payload = Some p \<and> VolumeResponse_Links p = Some l \<and>
               page_walk c params t (Links_Next l) ps err (snd y)"
    by blast
qed

lemmas page_defs =
  page_def page_ok_def link_to_def first_page_def second_page_def third_page_def
  uncounted_page_def

lemma three_pages_walk:
  "page_walk three_pages params [] (link_to ''p2'') [second_page, third_page] None
     [VolumeCollectionGet_call params (link_to ''p2''),
      VolumeCollectionGet_call params (link_to ''p3'')]"
proof -
  let ?c2 = "VolumeCollectionGet_call params (link_to ''p2'')"
  let ?c3 = "VolumeCollectionGet_call params (link_to ''p3'')"
  let ?l = "\<lparr>Links_Next = link_to ''p3'', Links_Self = None\<rparr>"
  have last: "page_walk three_pages params [?c2] (Links_Next ?l) [third_page] None [?c2, ?c3]"
    by (rule page_walk.walk_last [where r = "\<lparr>VolumeCollectionGetOK_Payload = Some third_page\<rparr>"])
       (simp_all add: api_VolumeCollectionGet_apply three_pages_def example_defs page_defs
          HasNextLink_typed)
  have a: "api_VolumeCollectionGet three_pages params (link_to ''p2'') [] =
      Some (Ret (Some \<lparr>VolumeCollectionGetOK_Payload = Some second_page\<rparr>, None), [?c2])"
    by (simp add: api_VolumeCollectionGet_apply three_pages_def example_defs link_to_def)
  have b: "VolumeCollectionGetOK_Payload \<lparr>VolumeCollectionGetOK_Payload = Some second_page\<rparr> =
      Some second_page"
    by simp
  have c: "VolumeResponse_NumRecords second_page \<noteq> None"
    by (simp add: page_defs)
  have d: "HasNextLink (iface_VolumeResponse (Some second_page))"
    by (simp add: HasNextLink_typed page_defs)
  have e: "VolumeResponse_Links second_page = Some ?l"
    by (simp add: page_defs)
  show ?thesis
    by (rule page_walk.walk_next [OF a b c d e last])
qed

text \<open>Three pages of one, two and one volumes: two requests, four records in the order of
  the pages, and the count four.\<close>

lemma getAllVolumePayloadRecords_three_pages:
  "\<exists>result.
     getAllVolumePayloadRecords three_pages (Some first_page) all_flexvols [] =
       Some (Ret (Some result, None),
         [VolumeCollectionGet_call all_flexvols (link_to ''p2''),
          VolumeCollectionGet_call all_flexvols (link_to ''p3'')]) \<and>
     records_of result = [Some v1, Some v2, Some v3, Some v4] \<and>
     VolumeResponse_NumRecords result = Some 4"
proof -
  let ?t = "[VolumeCollectionGet_call all_flexvols (link_to ''p2''),
          VolumeCollectionGet_call all_flexvols (link_to ''p3'')]"
  have h: "Some first_page = Some first_page \<and>
      VolumeResponse_Links first_page = Some \<lparr>Links_Next = link_to ''p2'', Links_Self = None\<rparr> \<and>
      HasNextLink (iface_VolumeResponse (Some first_page)) \<and>
      page_walk three_pages all_flexvols [] (Links_Next \<lparr>Links_Next = link_to ''p2'', Links_Self = None\<rparr>)
        [second_page, third_page] None ?t"
    using three_pages_walk [of all_flexvols] by (simp add: HasNextLink_typed page_defs)
  from getAllVolumePayloadRecords_merges [of "Some first_page" three_pages all_flexvols "[]",
      THEN conjunct2, THEN conjunct1, rule_format, OF h, THEN conjunct1, rule_format, OF refl]
  obtain result where
    "getAllVolumePayloadRecords three_pages (Some first_page) all_flexvols [] =
       Some (Ret (Some result, None), ?t)"
    "records_of result = records_of first_page @ concat (map records_of [second_page, third_page])"
    "VolumeResponse_NumRecords result =
       Some (count_of first_page + sum_list (map count_of [second_page, third_page]))"
    by auto
  then show ?thesis
    by (intro exI [of _ result]) (simp add: records_of_def count_of_def elems_def page_defs)
qed

text \<open>Where the second page arrives with a record but without a record count, the page
  is fetched, the walk ends, and its record is not in the result.\<close>

lemma getAllVolumePayloadRecords_uncounted_page:
  "getAllVolumePayloadRecords uncounted_second (Some first_page) all_flexvols [] =
     Some (Ret (Some first_page, None), [VolumeCollectionGet_call all_flexvols (link_to ''p2'')])
   \<and> srv_VolumeCollectionGet (api uncounted_second) [] all_flexvols (link_to ''p2'') =
     (Some \<lparr>VolumeCollectionGetOK_Payload = Some uncounted_page\<rparr>, None)
   \<and> records_of first_page = [Some v1]
   \<and> records_of uncounted_page = [Some v2]"
proof -
  have "getAllVolumePayloadRecords_loop uncounted_second all_flexvols (link_to ''p2'') first_page [] =
      Some (Ret (Some first_page, None), [VolumeCollectionGet_call all_flexvols (link_to ''p2'')])"
    by (rule loop_uncounted [where r = "Some \<lparr>VolumeCollectionGetOK_Payload = Some uncounted_page\<rparr>"])
       (simp_all add: api_VolumeCollectionGet_apply uncounted_second_def example_defs page_defs
          uncounted_def)
  then show ?thesis
    by (simp add: getAllVolumePayloadRecords_def HasNextLink_typed uncounted_second_def
        example_defs page_defs records_of_def elems_def)
qed

section \<open>Properties of the volume lookup\<close>

lemma bind_ioE:
  assumes "bind_io m f t = Some y"
  obtains (Ret) a t1 where "m t = Some (Ret a, t1)" "f a t1 = Some y"
        | (Panic) t1 where "m t = Some (Panic, t1)" "y = (Panic, t1)"
  using assms by (auto simp: bind_io_def split: option.splits res.splits)

lemma reads_only_refl: "reads_only t t"
  by (simp add: reads_only_def)

lemma reads_only_trans: "reads_only t t1 \<Longrightarrow> reads_only t1 t2 \<Longrightarrow> reads_only t t2"
  by (auto simp: reads_only_def)

lemma polls_only_refl: "polls_only t t"
  by (simp add: polls_only_def)

lemma polls_only_trans: "polls_only t t1 \<Longrightarrow> polls_only t1 t2 \<Longrightarrow> polls_only t t2"
  by (auto simp: polls_only_def)

lemma api_VolumeCollectionGet_reads:
  "api_VolumeCollectionGet c params link t = Some (out, t') \<Longrightarrow> reads_only t t'"
  by (auto simp: api_VolumeCollectionGet_apply reads_only_def)

lemma page_walk_reads: "page_walk c params t link ps err t' \<Longrightarrow> reads_only t t'"
  by (induction rule: page_walk.induct)
     (auto intro: reads_only_trans api_VolumeCollectionGet_reads)

lemma getAllVolumePayloadRecords_reads:
  assumes "getAllVolumePayloadRecords c payload params t = Some (out, t')"
  shows "reads_only t t'"
proof (cases "HasNextLink (iface_VolumeResponse payload)")
  case False
  with assms show ?thesis
    by (simp add: getAllVolumePayloadRecords_no_link reads_only_refl)
next
  case True
  then obtain p l where pl: "payload = Some p" "VolumeResponse_Links p = Some l"
    by (auto simp: HasNextLink_typed)
  from assms have "getAllVolumePayloadRecords_loop c params (Links_Next l) p t = Some (out, t')"
    by (simp add: getAllVolumePayloadRecords_link [OF pl True])
  from loop_Some_walk [OF this] show ?thesis
    by (auto intro: page_walk_reads)
qed

lemma getAllVolumesByPatternStyleAndState_reads:
  assumes "getAllVolumesByPatternStyleAndState c pattern style state t = Some (out, t')"
  shows "reads_only t t'"
  using assms
  unfolding getAllVolumesByPatternStyleAndState_def
  apply (auto simp: ret_def Let_def reads_only_refl elim!: bind_ioE
      split: if_splits option.splits prod.splits)
  apply (blast dest: api_VolumeCollectionGet_reads getAllVolumePayloadRecords_reads
      intro: reads_only_trans)+
  done

lemma getVolumeByNameAndStyle_reads:
  assumes "getVolumeByNameAndStyle c volumeName style t = Some (out, t')"
  shows "reads_only t t'"
  using assms
  unfolding getVolumeByNameAndStyle_def
  by (auto simp: ret_def panic_def elim!: bind_ioE
      split: if_splits option.splits prod.splits list.splits
      dest: getAllVolumesByPatternStyleAndState_reads)

lemma getVolumeInAnyStateByNameAndStyle_reads:
  assumes "getVolumeInAnyStateByNameAndStyle c volumeName style t = Some (out, t')"
  shows "reads_only t t'"
  using assms
  unfolding getVolumeInAnyStateByNameAndStyle_def
  by (auto simp: ret_def panic_def elim!: bind_ioE
      split: if_splits option.splits prod.splits list.splits
      dest: getAllVolumesByPatternStyleAndState_reads)

section \<open>Properties of the operations on a volume\<close>

lemma JobGet_polls: "JobGet c u t = Some (out, t') \<Longrightarrow> polls_only t t'"
  by (auto simp: JobGet_apply polls_only_def)

lemma IsJobFinished_polls: "IsJobFinished c payload t = Some (out, t') \<Longrightarrow> polls_only t t'"
  unfolding IsJobFinished_def
  by (auto simp: ret_def panic_def polls_only_refl elim!: bind_ioE dest: JobGet_polls
      split: option.splits if_splits prod.splits)

lemma checkJobStatus_polls:
  "checkJobStatus c payload u t = Some (out, t') \<Longrightarrow> polls_only t t'"
  unfolding checkJobStatus_def
  by (auto simp: ret_def elim!: bind_ioE dest: IsJobFinished_polls split: if_splits prod.splits)

lemma RetryNotify_polls:
  assumes op: "\<And>t out t'. operation t = Some (out, t') \<Longrightarrow> polls_only t t'"
  shows "RetryNotify operation n t = Some (out, t') \<Longrightarrow> polls_only t t'"
proof (induction n arbitrary: t)
  case 0
  then show ?case using op by simp
next
  case (Suc n)
  from Suc.prems obtain o1 t1 where first: "operation t = Some (o1, t1)"
    by (cases "operation t") auto
  show ?case
  proof (cases "\<exists>e. o1 = Ret (Some e)")
    case True
    with first Suc.prems have "RetryNotify operation n t1 = Some (out, t')" by auto
    from Suc.IH [OF this] op [OF first] show ?thesis by (rule polls_only_trans [rotated])
  next
    case False
    with first Suc.prems have "t' = t1"
      by (cases o1) (auto split: option.splits)
    with op [OF first] show ?thesis by simp
  qed
qed

lemma RetryNotify_reads:
  assumes op: "\<And>t out t'. operation t = Some (out, t') \<Longrightarrow> reads_only t t'"
  shows "RetryNotify operation n t = Some (out, t') \<Longrightarrow> reads_only t t'"
proof (induction n arbitrary: t)
  case 0
  then show ?case using op by simp
next
  case (Suc n)
  from Suc.prems obtain o1 t1 where first: "operation t = Some (o1, t1)"
    by (cases "operation t") auto
  show ?case
  proof (cases "\<exists>e. o1 = Ret (Some e)")
    case True
    with first Suc.prems have "RetryNotify operation n t1 = Some (out, t')" by auto
    from Suc.IH [OF this] op [OF first] show ?thesis by (rule reads_only_trans [rotated])
  next
    case False
    with first Suc.prems have "t' = t1"
      by (cases o1) (auto split: option.splits)
    with op [OF first] show ?thesis by simp
  qed
qed

lemma PollJobStatus_polls:
  assumes "PollJobStatus c payload t = Some (out, t')"
  shows "polls_only t t'"
proof -
  have loop: "backoff_RetryNotify c (checkJobStatus c p u) t0 = Some (o1, t1)
      \<Longrightarrow> polls_only t0 t1" for p u t0 o1 t1
    unfolding backoff_RetryNotify_def
    by (rule RetryNotify_polls [OF checkJobStatus_polls])
  from assms show ?thesis
    unfolding PollJobStatus_def
    apply (auto simp: ret_def panic_def polls_only_refl elim!: bind_ioE
        split: option.splits if_splits prod.splits)
    apply (blast dest: loop JobGet_polls intro: polls_only_trans)+
    done
qed




lemma bind_io_Ret: "m t = Some (Ret a, t1) \<Longrightarrow> bind_io m f t = f a t1"
  by (simp add: bind_io_def)

lemma bind_io_Panic: "m t = Some (Panic, t1) \<Longrightarrow> bind_io m f t = Some (Panic, t1)"
  by (simp add: bind_io_def)

lemma bind_io_None: "m t = None \<Longrightarrow> bind_io m f t = None"
  by (simp add: bind_io_def)


























subsection \<open>The request that an operation sends\<close>
























subsection \<open>The operations that return after the lookup\<close>







section \<open>The claims about the operations\<close>

lemmas lookup_defs =
  getVolumeByNameAndStyle_def getVolumeInAnyStateByNameAndStyle_def
  getAllVolumesByPatternStyleAndState_def getAllVolumePayloadRecords_def
  api_VolumeCollectionGet_apply HasNextLink_typed validStates_def VolumeStyleFlexvol_def
  VolumeStyleFlexgroup_def VolumeStateOnline_def VolumeStateOffline_def VolumeStateMixed_def
  VolumeStateError_def elems_def bind_io_def ret_def panic_def

lemma no_volume_lookup:
  "getVolumeByNameAndStyle no_volume name ''flexvol'' t =
     Some (Ret (None, None), t @ [VolumeCollectionGet_call (flexvol_params name (Some ''online'')) None])"
  by (simp add: lookup_defs no_volume_def example_defs page_defs flexvol_params_def)


lemma one_volume_lookup:
  "getVolumeByNameAndStyle (one_volume v states) name ''flexvol'' t =
     Some (Ret (Some v, None), t @ [VolumeCollectionGet_call (flexvol_params name (Some ''online'')) None])"
  by (simp add: lookup_defs one_volume_def example_defs page_defs flexvol_params_def)

lemma one_volume_lookup_any:
  "getVolumeInAnyStateByNameAndStyle (one_volume v states) name ''flexvol'' t =
     Some (Ret (Some v, None), t @ [VolumeCollectionGet_call (flexvol_params name None) None])"
  by (simp add: lookup_defs one_volume_def example_defs page_defs flexvol_params_def)






lemma getVolumeByNameAndStyle_of_query:
  assumes "getAllVolumesByPatternStyleAndState c volumeName style VolumeStateOnline t =
      Some (Ret (result, err), t')"
  shows "getVolumeByNameAndStyle c volumeName style t =
     (\<lambda>(result, err).
          if err \<noteq> None then ret (None, err)
          else
            (case result of
               None \<Rightarrow> ret (None, None)
             | Some r \<Rightarrow>
            (case VolumeCollectionGetOK_Payload r of
               None \<Rightarrow> ret (None, None)
             | Some p \<Rightarrow>
            (case VolumeResponse_NumRecords p of
               None \<Rightarrow> ret (None, None)
             | Some n \<Rightarrow>
                 if n = 0 then ret (None, None)
                 else if n = 1 \<and> VolumeResponse_VolumeResponseInlineRecords p \<noteq> None then
                   (case elems (VolumeResponse_VolumeResponseInlineRecords p) of
                      [] \<Rightarrow> panic
                    | v # _ \<Rightarrow> ret (v, None))
                 else ret (None, Some (Errorf
                   ''could not find unique volume with name '%v'; found %d matching volumes''
                   [volumeName, ''<pointer>'']))))))
       (result, err) t'"
  unfolding getVolumeByNameAndStyle_def
  by (rule bind_io_Ret
      [of "getAllVolumesByPatternStyleAndState c volumeName style VolumeStateOnline" t,
        OF assms])

text \<open>
  Claim C8. When the query by pattern returns without an error,
  \<open>getVolumeByNameAndStyle\<close> returns (nil, nil) for a nil result, a nil payload, a nil
  record count and the count zero; it returns the first record with a nil error when the
  count is one and there is a record; it returns an error for every other count, which
  includes every count above one. It returns the error of the query when there is one.
  \<open>checkVolumeExistsByNameAndStyle\<close> returns (false, nil) for the empty name and sends
  nothing.
\<close>

theorem getVolumeByNameAndStyle_unique:
  "(\<forall>result t'.
      getAllVolumesByPatternStyleAndState c volumeName style VolumeStateOnline t =
        Some (Ret (result, None), t')
      \<longrightarrow> (uncounted result \<or>
             (\<exists>r p. result = Some r \<and> VolumeCollectionGetOK_Payload r = Some p \<and>
                    VolumeResponse_NumRecords p = Some 0)
            \<longrightarrow> getVolumeByNameAndStyle c volumeName style t = Some (Ret (None, None), t'))
        \<and> (\<forall>r p v vs. result = Some r \<and> VolumeCollectionGetOK_Payload r = Some p \<and>
               VolumeResponse_NumRecords p = Some 1 \<and>
               VolumeResponse_VolumeResponseInlineRecords p = Some (v # vs)
            \<longrightarrow> getVolumeByNameAndStyle c volumeName style t = Some (Ret (v, None), t'))
        \<and> (\<forall>r p n. result = Some r \<and> VolumeCollectionGetOK_Payload r = Some p \<and>
               VolumeResponse_NumRecords p = Some n \<and> n \<noteq> 0 \<and> n \<noteq> 1
            \<longrightarrow> (\<exists>e. getVolumeByNameAndStyle c volumeName style t =
                    Some (Ret (None, Some e), t'))))
   \<and> (\<forall>result e t'.
        getAllVolumesByPatternStyleAndState c volumeName style VolumeStateOnline t =
          Some (Ret (result, Some e), t')
        \<longrightarrow> getVolumeByNameAndStyle c volumeName style t = Some (Ret (None, Some e), t'))
   \<and> checkVolumeExistsByNameAndStyle c '''' style t = Some (Ret (False, None), t)"
proof (intro conjI allI impI)
  fix result t'
  assume q: "getAllVolumesByPatternStyleAndState c volumeName style VolumeStateOnline t =
        Some (Ret (result, None), t')"
  assume "uncounted result \<or>
             (\<exists>r p. result = Some r \<and> VolumeCollectionGetOK_Payload r = Some p \<and>
                    VolumeResponse_NumRecords p = Some 0)"
  then show "getVolumeByNameAndStyle c volumeName style t = Some (Ret (None, None), t')"
    unfolding getVolumeByNameAndStyle_of_query [OF q]
    by (auto simp: uncounted_def ret_def split: option.splits)
next
  fix result t' r p v vs
  assume q: "getAllVolumesByPatternStyleAndState c volumeName style VolumeStateOnline t =
        Some (Ret (result, None), t')"
  assume "result = Some r \<and> VolumeCollectionGetOK_Payload r = Some p \<and>
               VolumeResponse_NumRecords p = Some 1 \<and>
               VolumeResponse_VolumeResponseInlineRecords p = Some (v # vs)"
  then show "getVolumeByNameAndStyle c volumeName style t = Some (Ret (v, None), t')"
    unfolding getVolumeByNameAndStyle_of_query [OF q]
    by (simp add: ret_def elems_def)
next
  fix result t' r p n
  assume q: "getAllVolumesByPatternStyleAndState c volumeName style VolumeStateOnline t =
        Some (Ret (result, None), t')"
  assume "result = Some r \<and> VolumeCollectionGetOK_Payload r = Some p \<and>
               VolumeResponse_NumRecords p = Some n \<and> n \<noteq> 0 \<and> n \<noteq> 1"
  then show "\<exists>e. getVolumeByNameAndStyle c volumeName style t = Some (Ret (None, Some e), t')"
    unfolding getVolumeByNameAndStyle_of_query [OF q]
    by (simp add: ret_def)
next
  fix result e t'
  assume q: "getAllVolumesByPatternStyleAndState c volumeName style VolumeStateOnline t =
          Some (Ret (result, Some e), t')"
  show "getVolumeByNameAndStyle c volumeName style t = Some (Ret (None, Some e), t')"
    unfolding getVolumeByNameAndStyle_of_query [OF q]
    by (simp add: ret_def)
next
  show "checkVolumeExistsByNameAndStyle c '''' style t = Some (Ret (False, None), t)"
    by (simp add: checkVolumeExistsByNameAndStyle_def ret_def)
qed

lemma one_volume_query:
  "getAllVolumesByPatternStyleAndState (one_volume v states) name ''flexvol'' VolumeStateOnline t =
     Some (Ret (page_ok None (Some 1) (Some [Some v]), None),
       t @ [VolumeCollectionGet_call (flexvol_params name (Some ''online'')) None])"
  by (simp add: lookup_defs one_volume_def example_defs page_defs flexvol_params_def)

text \<open>On the server with the one volume \<open>v1\<close> the lookup returns \<open>v1\<close>.\<close>

theorem getVolumeByNameAndStyle_unique_witness:
  "getVolumeByNameAndStyle (one_volume v1 [''success'']) ''v1'' ''flexvol'' [] =
     Some (Ret (Some v1, None),
       [VolumeCollectionGet_call (flexvol_params ''v1'' (Some ''online'')) None])"
proof -
  let ?c = "one_volume v1 [''success'']"
  let ?t = "[VolumeCollectionGet_call (flexvol_params ''v1'' (Some ''online'')) None]"
  have q: "getAllVolumesByPatternStyleAndState ?c ''v1'' ''flexvol'' VolumeStateOnline [] =
      Some (Ret (page_ok None (Some 1) (Some [Some v1]), None), ?t)"
    using one_volume_query [of v1 "[''success'']" "''v1''" "[]"] by simp
  have one: "page_ok None (Some 1) (Some [Some v1]) =
        Some \<lparr>VolumeCollectionGetOK_Payload = Some (page None (Some 1) (Some [Some v1]))\<rparr> \<and>
      VolumeCollectionGetOK_Payload
        \<lparr>VolumeCollectionGetOK_Payload = Some (page None (Some 1) (Some [Some v1]))\<rparr> =
        Some (page None (Some 1) (Some [Some v1])) \<and>
      VolumeResponse_NumRecords (page None (Some 1) (Some [Some v1])) = Some 1 \<and>
      VolumeResponse_VolumeResponseInlineRecords (page None (Some 1) (Some [Some v1])) =
        Some (Some v1 # [])"
    by (simp add: page_defs)
  show ?thesis
    by (rule getVolumeByNameAndStyle_unique [of ?c "''v1''" "''flexvol''" "[]",
          THEN conjunct1, rule_format, OF q, THEN conjunct2, THEN conjunct1, rule_format,
          OF one])
qed

text \<open>
  Claim C9. Every operation on a volume by name returns an error when the volume found
  has a nil UUID, in place of reading through the nil pointer. The code does not: on a
  server whose one volume has no UUID, \<open>renameVolumeByNameAndStyle\<close> and
  \<open>setVolumeQosPolicyGroupNameByNameAndStyle\<close> panic, where
  \<open>setVolumeSizeByNameAndStyle\<close> returns the error of its test of the UUID.
\<close>

theorem rename_and_qos_panic_on_nil_uuid:
  "renameVolumeByNameAndStyle (one_volume (vol ''v1'' None (Some ''/v1'')) [''success''])
      ''v1'' ''v2'' ''flexvol'' [] =
     Some (Panic, [VolumeCollectionGet_call (flexvol_params ''v1'' (Some ''online'')) None])
   \<and> setVolumeQosPolicyGroupNameByNameAndStyle
      (one_volume (vol ''v1'' None (Some ''/v1'')) [''success'']) ''v1''
      \<lparr>QosPolicyGroup_Name = ''gold'', QosPolicyGroup_Kind = QosPolicyGroupKind\<rparr>
      ''flexvol'' [] =
     Some (Panic, [VolumeCollectionGet_call (flexvol_params ''v1'' (Some ''online'')) None])
   \<and> setVolumeSizeByNameAndStyle (one_volume (vol ''v1'' None (Some ''/v1'')) [''success''])
      ''v1'' ''1g'' ''flexvol'' [] =
     Some (Ret (Some (Errorf ''could not find volume uuid with name %v'' [''v1''])),
       [VolumeCollectionGet_call (flexvol_params ''v1'' (Some ''online'')) None])"
proof -
  let ?c = "one_volume (vol ''v1'' None (Some ''/v1'')) [''success'']"
  note found = bind_io_Ret [of "getVolumeByNameAndStyle ?c ''v1'' ''flexvol''" "[]",
      OF one_volume_lookup [of "vol ''v1'' None (Some ''/v1'')" "[''success'']" "''v1''" "[]"]]
  show ?thesis
    unfolding renameVolumeByNameAndStyle_def setVolumeQosPolicyGroupNameByNameAndStyle_def
      setVolumeSizeByNameAndStyle_def found
    by (simp add: vol_def panic_def ret_def)
qed

lemma reads_only_no_modify_no_poll:
  "reads_only t t' \<Longrightarrow>
     \<exists>cs. t' = t @ cs \<and> filter is_VolumeModify cs = [] \<and> filter is_JobGet cs = []"
proof -
  have "is_VolumeCollectionGet x \<Longrightarrow> \<not> is_VolumeModify x \<and> \<not> is_JobGet x" for x
    by (cases x) simp_all
  then show "reads_only t t' \<Longrightarrow>
     \<exists>cs. t' = t @ cs \<and> filter is_VolumeModify cs = [] \<and> filter is_JobGet cs = []"
    unfolding reads_only_def by (fastforce simp: filter_empty_conv)
qed

text \<open>
  Claim C10, as the code has it. When the lookup finds a volume that has a UUID and whose
  NAS path is the junction path asked for, \<open>mountVolumeByNameAndStyle\<close> returns nil and
  has sent the requests of the lookup only: no volume-modify call and no job fetch. When
  the lookup in any state finds a volume whose NAS path is the empty string,
  \<open>unmountVolumeByNameAndStyle\<close> returns nil and has sent the requests of the lookup
  only.
\<close>

theorem mount_unmount_idempotent:
  "(\<forall>v t'. getVolumeByNameAndStyle c volumeName style t = Some (Ret (Some v, None), t') \<and>
        Volume_UUID v \<noteq> None \<and> nas_path_is v junctionPath
      \<longrightarrow> mountVolumeByNameAndStyle c volumeName junctionPath style t = Some (Ret None, t') \<and>
          (\<exists>cs. t' = t @ cs \<and> filter is_VolumeModify cs = [] \<and> filter is_JobGet cs = []))
   \<and> (\<forall>v t'. getVolumeInAnyStateByNameAndStyle c volumeName style t =
          Some (Ret (Some v, None), t') \<and> nas_path_is v ''''
      \<longrightarrow> unmountVolumeByNameAndStyle c volumeName style t = Some (Ret None, t') \<and>
          (\<exists>cs. t' = t @ cs \<and> filter is_VolumeModify cs = [] \<and> filter is_JobGet cs = []))"
proof (intro conjI allI impI)
  fix v t'
  assume a: "getVolumeByNameAndStyle c volumeName style t = Some (Ret (Some v, None), t') \<and>
        Volume_UUID v \<noteq> None \<and> nas_path_is v junctionPath"
  then have l: "getVolumeByNameAndStyle c volumeName style t = Some (Ret (Some v, None), t')"
    by simp
  from a show "mountVolumeByNameAndStyle c volumeName junctionPath style t = Some (Ret None, t')"
    by (auto simp: mountVolumeByNameAndStyle_def
        bind_io_Ret [of "getVolumeByNameAndStyle c volumeName style" t, OF l] ret_def)
  from getVolumeByNameAndStyle_reads [OF l]
  show "\<exists>cs. t' = t @ cs \<and> filter is_VolumeModify cs = [] \<and> filter is_JobGet cs = []"
    by (rule reads_only_no_modify_no_poll)
next
  fix v t'
  assume a: "getVolumeInAnyStateByNameAndStyle c volumeName style t =
          Some (Ret (Some v, None), t') \<and> nas_path_is v ''''"
  then have l: "getVolumeInAnyStateByNameAndStyle c volumeName style t =
      Some (Ret (Some v, None), t')"
    by simp
  from a show "unmountVolumeByNameAndStyle c volumeName style t = Some (Ret None, t')"
    by (auto simp: unmountVolumeByNameAndStyle_def
        bind_io_Ret [of "getVolumeInAnyStateByNameAndStyle c volumeName style" t, OF l] ret_def
        split: option.splits)
  from getVolumeInAnyStateByNameAndStyle_reads [OF l]
  show "\<exists>cs. t' = t @ cs \<and> filter is_VolumeModify cs = [] \<and> filter is_JobGet cs = []"
    by (rule reads_only_no_modify_no_poll)
qed

text \<open>The volume \<open>v1\<close> is mounted at \<open>/v1\<close>: mounting it there again returns nil after the
  one collection request of the lookup.\<close>

theorem mount_unmount_idempotent_witness:
  "mountVolumeByNameAndStyle (one_volume v1 [''success'']) ''v1'' ''/v1'' ''flexvol'' [] =
     Some (Ret None, [VolumeCollectionGet_call (flexvol_params ''v1'' (Some ''online'')) None])"
proof -
  let ?c = "one_volume v1 [''success'']"
  let ?t = "[VolumeCollectionGet_call (flexvol_params ''v1'' (Some ''online'')) None]"
  have h: "getVolumeByNameAndStyle ?c ''v1'' ''flexvol'' [] = Some (Ret (Some v1, None), ?t) \<and>
        Volume_UUID v1 \<noteq> None \<and> nas_path_is v1 ''/v1''"
    using one_volume_lookup [of v1 "[''success'']" "''v1''" "[]"]
    by (simp add: v1_def vol_def nas_path_is_def VolumeInlineNas_zero_def Volume_zero_def)
  show ?thesis
    by (rule mount_unmount_idempotent [of ?c "''v1''" "''flexvol''" "[]" "''/v1''",
          THEN conjunct1, rule_format, OF h, THEN conjunct1])
qed

text \<open>The claim as it is stated fails for a volume without UUID: its NAS path is the
  junction path asked for, and \<open>mountVolumeByNameAndStyle\<close> returns an error.\<close>

theorem mount_without_uuid_counterexample:
  "mountVolumeByNameAndStyle (one_volume (vol ''v1'' None (Some ''/v1'')) [''success''])
      ''v1'' ''/v1'' ''flexvol'' [] =
     Some (Ret (Some (Errorf ''could not find volume uuid with name %v'' [''v1''])),
       [VolumeCollectionGet_call (flexvol_params ''v1'' (Some ''online'')) None])
   \<and> nas_path_is (vol ''v1'' None (Some ''/v1'')) ''/v1''"
proof -
  let ?c = "one_volume (vol ''v1'' None (Some ''/v1'')) [''success'']"
  note found = bind_io_Ret [of "getVolumeByNameAndStyle ?c ''v1'' ''flexvol''" "[]",
      OF one_volume_lookup [of "vol ''v1'' None (Some ''/v1'')" "[''success'']" "''v1''" "[]"]]
  show ?thesis
    unfolding mountVolumeByNameAndStyle_def found
    by (simp add: vol_def ret_def nas_path_is_def VolumeInlineNas_zero_def Volume_zero_def)
qed

section \<open>Properties of the volume creation\<close>

lemma checkVolumeExistsByNameAndStyle_reads:
  assumes "checkVolumeExistsByNameAndStyle c volumeName style t = Some (out, t')"
  shows "reads_only t t'"
  using assms unfolding checkVolumeExistsByNameAndStyle_def
  by (auto simp: ret_def reads_only_refl elim!: bind_ioE split: if_splits prod.splits
      dest: getVolumeByNameAndStyle_reads)

lemma waitForVolume_checkStatus_reads:
  assumes "waitForVolume_checkStatus c volumeName t = Some (out, t')"
  shows "reads_only t t'"
  using assms unfolding waitForVolume_checkStatus_def VolumeExists_def
  by (auto simp: ret_def elim!: bind_ioE split: if_splits prod.splits
      dest: checkVolumeExistsByNameAndStyle_reads)

lemma waitForFlexgroup_checkStatus_reads:
  assumes "waitForFlexgroup_checkStatus c volumeName t = Some (out, t')"
  shows "reads_only t t'"
  using assms unfolding waitForFlexgroup_checkStatus_def FlexGroupExists_def
  by (auto simp: ret_def elim!: bind_ioE split: if_splits prod.splits
      dest: checkVolumeExistsByNameAndStyle_reads)

lemma RetryNotify_nil:
  assumes op: "\<And>t out t'. operation t = Some (out, t') \<Longrightarrow> reads_only t t'"
  shows "RetryNotify operation n t = Some (Ret None, t') \<Longrightarrow>
     \<exists>t3. reads_only t t3 \<and> operation t3 = Some (Ret None, t')"
proof (induction n arbitrary: t)
  case 0
  then show ?case by (auto intro: reads_only_refl)
next
  case (Suc n)
  from Suc.prems obtain o1 t1 where first: "operation t = Some (o1, t1)"
    by (cases "operation t") auto
  show ?case
  proof (cases "\<exists>e. o1 = Ret (Some e)")
    case True
    with first Suc.prems have "RetryNotify operation n t1 = Some (Ret None, t')" by auto
    from Suc.IH [OF this] obtain t3 where
      "reads_only t1 t3" "operation t3 = Some (Ret None, t')" by blast
    with op [OF first] show ?thesis by (blast intro: reads_only_trans)
  next
    case False
    with first Suc.prems have "operation t = Some (Ret None, t')"
      by (cases o1) (auto split: option.splits)
    then show ?thesis by (blast intro: reads_only_refl)
  qed
qed

lemma waitForVolume_nil:
  assumes "waitForVolume c volumeName t = Some (Ret None, t')"
  shows "\<exists>t3. reads_only t t3 \<and> VolumeExists c volumeName t3 = Some (Ret (True, None), t')"
proof -
  from assms have "backoff_RetryNotify c (waitForVolume_checkStatus c volumeName) t =
      Some (Ret None, t')"
    unfolding waitForVolume_def
    by (auto elim!: bind_ioE simp: ret_def split: if_splits)
  then obtain t3 where r: "reads_only t t3"
    and "waitForVolume_checkStatus c volumeName t3 = Some (Ret None, t')"
    unfolding backoff_RetryNotify_def
    by (blast dest: RetryNotify_nil [rotated] waitForVolume_checkStatus_reads)
  then have "VolumeExists c volumeName t3 = Some (Ret (True, None), t')"
    unfolding waitForVolume_checkStatus_def
    by (auto elim!: bind_ioE simp: ret_def split: if_splits prod.splits)
  with r show ?thesis by blast
qed

lemma waitForFlexgroup_nil:
  assumes "waitForFlexgroup c volumeName t = Some (Ret None, t')"
  shows "\<exists>t3. reads_only t t3 \<and> FlexGroupExists c volumeName t3 = Some (Ret (True, None), t')"
proof -
  from assms have "backoff_RetryNotify c (waitForFlexgroup_checkStatus c volumeName) t =
      Some (Ret None, t')"
    unfolding waitForFlexgroup_def
    by (auto elim!: bind_ioE simp: ret_def split: if_splits)
  then obtain t3 where r: "reads_only t t3"
    and "waitForFlexgroup_checkStatus c volumeName t3 = Some (Ret None, t')"
    unfolding backoff_RetryNotify_def
    by (blast dest: RetryNotify_nil [rotated] waitForFlexgroup_checkStatus_reads)
  then have "FlexGroupExists c volumeName t3 = Some (Ret (True, None), t')"
    unfolding waitForFlexgroup_checkStatus_def
    by (auto elim!: bind_ioE simp: ret_def split: if_splits prod.splits)
  with r show ?thesis by blast
qed

lemma api_VolumeCreate_apply:
  "api_VolumeCreate c params t =
     Some (Ret (srv_VolumeCreate (api c) t params), t @ [VolumeCreate_call params])"
  by (simp add: api_VolumeCreate_def rest_call_def)

lemma createVolumeByStyle_send_named:
  "\<exists>info. Volume_Name info = Volume_Name volumeInfo \<and>
      Volume_Style info = Volume_Style volumeInfo \<and>
      Volume_Size info = Volume_Size volumeInfo \<and>
      createVolumeByStyle_send c name style exportPolicy volumeInfo volumeNas =
        create_then_poll_wait c name style \<lparr>Create_Info = Some info\<rparr>"
  unfolding createVolumeByStyle_send_def create_then_poll_wait_def Let_def
  by (rule exI [of _ "if exportPolicy \<noteq> ''''
        then volumeInfo\<lparr>Volume_Nas := Some (volumeNas\<lparr>Nas_ExportPolicy :=
               Some \<lparr>ExportPolicy_Name = Some exportPolicy\<rparr>\<rparr>)\<rparr>
        else volumeInfo"]) simp

lemma createVolumeByStyle_request:
  "(\<not> dpVolume \<and> unixPermissions \<noteq> '''' \<and>
    ParseInt (api c) (convertUnixPermissions unixPermissions) = None \<and>
    createVolumeByStyle c name sizeInBytes aggrs spaceReserve snapshotPolicy
        unixPermissions exportPolicy securityStyle tieringPolicy comment qosPolicyGroup
        encrypt snapshotReserve style dpVolume =
      ret (Some (Errorf ''cannot process unix permissions value %v''
                   [convertUnixPermissions unixPermissions]))) \<or>
   ((dpVolume \<or> unixPermissions = '''' \<or>
     ParseInt (api c) (convertUnixPermissions unixPermissions) \<noteq> None) \<and>
    (\<exists>info. Volume_Name info = Some name \<and> Volume_Style info = Some style \<and>
       Volume_Size info = Some sizeInBytes \<and>
       createVolumeByStyle c name sizeInBytes aggrs spaceReserve snapshotPolicy
        unixPermissions exportPolicy securityStyle tieringPolicy comment qosPolicyGroup
        encrypt snapshotReserve style dpVolume =
       create_then_poll_wait c name style \<lparr>Create_Info = Some info\<rparr>))"
proof -
  have send: "\<exists>info. Volume_Name info = Some name \<and> Volume_Style info = Some style \<and>
       Volume_Size info = Some sizeInBytes \<and>
       createVolumeByStyle_send c name style exportPolicy vi vn =
       create_then_poll_wait c name style \<lparr>Create_Info = Some info\<rparr>"
    if "Volume_Name vi = Some name" "Volume_Style vi = Some style"
      "Volume_Size vi = Some sizeInBytes" for vi vn
    using createVolumeByStyle_send_named [of vi c name style exportPolicy vn] that by simp
  consider (dp) dpVolume
    | (plain) "\<not> dpVolume" "unixPermissions = ''''"
    | (bad) "\<not> dpVolume" "unixPermissions \<noteq> ''''"
        "ParseInt (api c) (convertUnixPermissions unixPermissions) = None"
    | (perm) x where "\<not> dpVolume" "unixPermissions \<noteq> ''''"
        "ParseInt (api c) (convertUnixPermissions unixPermissions) = Some x"
    by (cases "ParseInt (api c) (convertUnixPermissions unixPermissions)") auto
  then show ?thesis
  proof cases
    case dp
    have "\<exists>info. Volume_Name info = Some name \<and> Volume_Style info = Some style \<and>
       Volume_Size info = Some sizeInBytes \<and>
       createVolumeByStyle c name sizeInBytes aggrs spaceReserve snapshotPolicy
        unixPermissions exportPolicy securityStyle tieringPolicy comment qosPolicyGroup
        encrypt snapshotReserve style dpVolume =
       create_then_poll_wait c name style \<lparr>Create_Info = Some info\<rparr>"
      unfolding createVolumeByStyle_def Let_def using dp
      by (simp only: if_True) (rule send; simp)
    with dp show ?thesis by blast
  next
    case plain
    have "\<exists>info. Volume_Name info = Some name \<and> Volume_Style info = Some style \<and>
       Volume_Size info = Some sizeInBytes \<and>
       createVolumeByStyle c name sizeInBytes aggrs spaceReserve snapshotPolicy
        unixPermissions exportPolicy securityStyle tieringPolicy comment qosPolicyGroup
        encrypt snapshotReserve style dpVolume =
       create_then_poll_wait c name style \<lparr>Create_Info = Some info\<rparr>"
      unfolding createVolumeByStyle_def Let_def using plain
      by (simp only: if_False if_True not_not refl not_True_eq_False) (rule send; simp)
    with plain show ?thesis by blast
  next
    case bad
    then show ?thesis
      unfolding createVolumeByStyle_def Let_def by simp
  next
    case perm
    have "\<exists>info. Volume_Name info = Some name \<and> Volume_Style info = Some style \<and>
       Volume_Size info = Some sizeInBytes \<and>
       createVolumeByStyle c name sizeInBytes aggrs spaceReserve snapshotPolicy
        unixPermissions exportPolicy securityStyle tieringPolicy comment qosPolicyGroup
        encrypt snapshotReserve style dpVolume =
       create_then_poll_wait c name style \<lparr>Create_Info = Some info\<rparr>"
      unfolding createVolumeByStyle_def Let_def using perm
      by (simp only: if_False if_True not_False_eq_True option.case) (rule send; simp)
    with perm show ?thesis by simp
  qed
qed

lemma create_then_poll_wait_nil:
  assumes "create_then_poll_wait c name style params t = Some (Ret None, t')"
  shows "\<exists>accepted t2.
      srv_VolumeCreate (api c) t params = (Some accepted, None) \<and>
      PollJobStatus c (VolumeCreateAccepted_Payload accepted) (t @ [VolumeCreate_call params]) =
        Some (Ret None, t2) \<and>
      (if style = VolumeStyleFlexgroup then waitForFlexgroup c name t2
       else waitForVolume c name t2) = Some (Ret None, t')"
  using assms unfolding create_then_poll_wait_def
  by (cases "srv_VolumeCreate (api c) t params")
     (auto simp: bind_io_def api_VolumeCreate_apply ret_def
       split: option.splits res.splits if_splits)

lemma create_then_poll_wait_poll_error:
  assumes "srv_VolumeCreate (api c) t params = (Some accepted, None)"
    and "PollJobStatus c (VolumeCreateAccepted_Payload accepted) (t @ [VolumeCreate_call params]) =
        Some (Ret (Some e), t2)"
  shows "create_then_poll_wait c name style params t = Some (Ret (Some e), t2)"
  using assms unfolding create_then_poll_wait_def
  by (simp add: bind_io_def api_VolumeCreate_apply ret_def)

lemma create_then_poll_wait_poll_nil:
  assumes "srv_VolumeCreate (api c) t params = (Some accepted, None)"
    and "PollJobStatus c (VolumeCreateAccepted_Payload accepted) (t @ [VolumeCreate_call params]) =
        Some (Ret None, t2)"
  shows "create_then_poll_wait c name style params t =
      (if style = VolumeStyleFlexgroup then waitForFlexgroup c name t2
       else waitForVolume c name t2)"
  using assms unfolding create_then_poll_wait_def
  by (simp add: bind_io_def api_VolumeCreate_apply ret_def)

lemma getAllVolumePayloadRecords_listed:
  assumes "getAllVolumePayloadRecords c (Some p) params t = Some (Ret (Some payload, None), t')"
  shows "if HasNextLink (iface_VolumeResponse (Some p))
         then \<exists>l ps. VolumeResponse_Links p = Some l \<and>
                page_walk c params t (Links_Next l) ps None t' \<and> payload = merge_pages p ps
         else payload = p \<and> t' = t"
proof (cases "HasNextLink (iface_VolumeResponse (Some p))")
  case False
  with assms show ?thesis by (simp add: getAllVolumePayloadRecords_no_link)
next
  case True
  then obtain l where l: "VolumeResponse_Links p = Some l"
    by (auto simp: HasNextLink_typed)
  from assms have "getAllVolumePayloadRecords_loop c params (Links_Next l) p t =
      Some (Ret (Some payload, None), t')"
    using getAllVolumePayloadRecords_link [OF refl l True, of c params t] by simp
  from loop_Some_walk [OF this] obtain ps err t1 where
    w: "page_walk c params t (Links_Next l) ps err t1" and
    y: "(Ret (Some payload, None), t') =
        (Ret (if err = None then (Some (merge_pages p ps), None) else (None, err)), t1)"
    by blast
  from y have "err = None" "payload = merge_pages p ps" "t1 = t'"
    by (auto split: if_splits)
  with w l True show ?thesis by auto
qed

lemma getAllVolumesByPatternStyleAndState_listed:
  assumes "getAllVolumesByPatternStyleAndState c pattern style VolumeStateOnline t =
      Some (Ret (Some r', None), t')"
    and "VolumeCollectionGetOK_Payload r' = Some payload"
  shows "volume_listed c (volume_query c pattern style) t payload t'"
proof -
  let ?params = "volume_query c pattern style"
  let ?t1 = "t @ [VolumeCollectionGet_call ?params None]"
  have online: "VolumeStateOnline \<noteq> ''''" "VolumeStateOnline \<in> set validStates"
    by (simp_all add: validStates_def VolumeStateOnline_def)
  obtain r e where srv: "srv_VolumeCollectionGet (api c) t ?params None = (r, e)"
    by (cases "srv_VolumeCollectionGet (api c) t ?params None")
  have api: "api_VolumeCollectionGet c ?params None t = Some (Ret (r, e), ?t1)"
    by (simp add: api_VolumeCollectionGet_apply srv)
  from assms(1) have valid: "\<not> (style \<noteq> VolumeStyleFlexvol \<and> style \<noteq> VolumeStyleFlexgroup)"
    unfolding getAllVolumesByPatternStyleAndState_def
    by (auto simp: ret_def split: if_splits)
  from assms(1) valid online have run:
    "bind_io (api_VolumeCollectionGet c ?params None) (\<lambda>(result, err).
            if err \<noteq> None then ret (None, err)
            else
              (case result of
                 None \<Rightarrow> ret (None, None)
               | Some r \<Rightarrow>
                   bind_io (getAllVolumePayloadRecords c (VolumeCollectionGetOK_Payload r) ?params)
                     (\<lambda>(payload, err).
                        let r = r\<lparr>VolumeCollectionGetOK_Payload := payload\<rparr> in
                        if err \<noteq> None then ret (Some r, err) else ret (Some r, None)))) t =
      Some (Ret (Some r', None), t')"
    unfolding getAllVolumesByPatternStyleAndState_def volume_query_def
    by (simp add: Let_def)
  from run have e: "e = None" and "r \<noteq> None"
    unfolding bind_io_Ret [of "api_VolumeCollectionGet c ?params None" t, OF api]
    by (auto simp: ret_def split: if_splits option.splits)
  then obtain ok where r: "r = Some ok" by auto
  from run have inner:
    "bind_io (getAllVolumePayloadRecords c (VolumeCollectionGetOK_Payload ok) ?params)
       (\<lambda>(payload, err).
          let r = ok\<lparr>VolumeCollectionGetOK_Payload := payload\<rparr> in
          if err \<noteq> None then ret (Some r, err) else ret (Some r, None)) ?t1 =
      Some (Ret (Some r', None), t')"
    unfolding bind_io_Ret [of "api_VolumeCollectionGet c ?params None" t, OF api]
    by (simp add: e r)
  from inner obtain payload' err' where
    rec: "getAllVolumePayloadRecords c (VolumeCollectionGetOK_Payload ok) ?params ?t1 =
      Some (Ret (payload', err'), t')"
    and fin: "err' = None" "r' = ok\<lparr>VolumeCollectionGetOK_Payload := payload'\<rparr>"
    by (auto elim!: bind_ioE simp: ret_def Let_def split: if_splits)
  from fin assms(2) have p': "payload' = Some payload" by simp
  have "\<exists>p. VolumeCollectionGetOK_Payload ok = Some p"
  proof (cases "VolumeCollectionGetOK_Payload ok")
    case None
    then have "\<not> HasNextLink (iface_VolumeResponse (VolumeCollectionGetOK_Payload ok))"
      by (simp add: HasNextLink_typed)
    from getAllVolumePayloadRecords_no_link [OF this, of c ?params ?t1] rec p' None
    show ?thesis by simp
  qed simp
  then obtain p where p: "VolumeCollectionGetOK_Payload ok = Some p" ..
  from rec p p' fin have
    "getAllVolumePayloadRecords c (Some p) ?params ?t1 = Some (Ret (Some payload, None), t')"
    by simp
  from getAllVolumePayloadRecords_listed [OF this] srv e r p
  show ?thesis
    unfolding volume_listed_def by (intro exI [of _ ok] exI [of _ p]) simp
qed

lemma getVolumeByNameAndStyle_listed:
  assumes "getVolumeByNameAndStyle c volumeName style t = Some (Ret (Some v, None), t')"
  shows "\<exists>payload rest. volume_listed c (volume_query c volumeName style) t payload t' \<and>
     VolumeResponse_NumRecords payload = Some 1 \<and>
     VolumeResponse_VolumeResponseInlineRecords payload = Some (Some v # rest)"
proof -
  from assms obtain result err t1 where
    q: "getAllVolumesByPatternStyleAndState c volumeName style VolumeStateOnline t =
      Some (Ret (result, err), t1)"
    unfolding getVolumeByNameAndStyle_def by (auto elim!: bind_ioE)
  from assms q have "err = None"
    unfolding getVolumeByNameAndStyle_def
      bind_io_Ret [of "getAllVolumesByPatternStyleAndState c volumeName style VolumeStateOnline" t,
        OF q]
    by (auto simp: ret_def split: if_splits)
  with assms q obtain r payload rest where
    "result = Some r" "VolumeCollectionGetOK_Payload r = Some payload"
    "VolumeResponse_NumRecords payload = Some 1"
    "VolumeResponse_VolumeResponseInlineRecords payload = Some (Some v # rest)" "t1 = t'"
    unfolding getVolumeByNameAndStyle_def
      bind_io_Ret [of "getAllVolumesByPatternStyleAndState c volumeName style VolumeStateOnline" t,
        OF q]
    by (auto simp: ret_def panic_def elems_def split: if_splits option.splits list.splits)
  with q \<open>err = None\<close> show ?thesis
    by (auto dest: getAllVolumesByPatternStyleAndState_listed)
qed

lemma checkVolumeExistsByNameAndStyle_listed:
  assumes "checkVolumeExistsByNameAndStyle c volumeName style t = Some (Ret (True, None), t')"
  shows "\<exists>payload v rest. volume_listed c (volume_query c volumeName style) t payload t' \<and>
     VolumeResponse_NumRecords payload = Some 1 \<and>
     VolumeResponse_VolumeResponseInlineRecords payload = Some (Some v # rest)"
proof -
  from assms obtain v where "getVolumeByNameAndStyle c volumeName style t =
      Some (Ret (Some v, None), t')"
    unfolding checkVolumeExistsByNameAndStyle_def
    by (auto elim!: bind_ioE simp: ret_def split: if_splits)
  from getVolumeByNameAndStyle_listed [OF this] show ?thesis by blast
qed

text \<open>
  Claim C6. \<open>createVolumeByStyle\<close> returns before any call only with the error for unix
  permissions that do not parse, which are read when the volume is not a data
  protection volume. Otherwise it sends one create request, for a volume of the name, the
  style and the size asked for, such that: when it returns nil, the server has accepted
  the request, \<open>PollJobStatus\<close> on the returned job handle has returned nil, having
  fetched the job in the state success, and after that the server has answered the
  request for the online volumes of the name, of the style flexgroup when the style asked
  for is flexgroup and of the style flexvol for every other style, with a record count of
  one and a volume as the first record, which is the last step of \<open>FlexGroupExists\<close> or
  \<open>VolumeExists\<close> returning true; once the poll has returned nil the function is
  \<open>waitForFlexgroup\<close> for the style flexgroup and \<open>waitForVolume\<close> for every other style;
  and when the poll returns an error the function returns that error with the calls of
  the poll, which are job fetches only.
\<close>

theorem createVolumeByStyle_waits_after_job:
  "(\<not> dpVolume \<and> unixPermissions \<noteq> '''' \<and>
    ParseInt (api c) (convertUnixPermissions unixPermissions) = None \<and>
    (\<forall>t. createVolumeByStyle c name sizeInBytes aggrs spaceReserve snapshotPolicy
                  unixPermissions exportPolicy securityStyle tieringPolicy comment qosPolicyGroup
                  encrypt snapshotReserve style dpVolume t =
       Some (Ret (Some (Errorf ''cannot process unix permissions value %v''
                          [convertUnixPermissions unixPermissions])), t))) \<or>
   ((dpVolume \<or> unixPermissions = '''' \<or>
     ParseInt (api c) (convertUnixPermissions unixPermissions) \<noteq> None) \<and>
    (\<exists>params info.
      Create_Info params = Some info \<and> Volume_Name info = Some name \<and>
      Volume_Style info = Some style \<and> Volume_Size info = Some sizeInBytes \<and>
      (\<forall>t.
      (\<forall>t'. createVolumeByStyle c name sizeInBytes aggrs spaceReserve snapshotPolicy
                    unixPermissions exportPolicy securityStyle tieringPolicy comment qosPolicyGroup
                    encrypt snapshotReserve style dpVolume t = Some (Ret None, t')
         \<longrightarrow> (\<exists>accepted t1 t2 jp t3 payload v rest.
               srv_VolumeCreate (api c) t params = (Some accepted, None) \<and>
               PollJobStatus c (VolumeCreateAccepted_Payload accepted)
                 (t @ [VolumeCreate_call params]) = Some (Ret None, t2) \<and>
               job_fetched c (VolumeCreateAccepted_Payload accepted) t1 jp t2 \<and>
               Job_State jp = Some JobStateSuccess \<and>
               reads_only t2 t3 \<and>
               (if style = VolumeStyleFlexgroup then FlexGroupExists c name t3
                else VolumeExists c name t3) = Some (Ret (True, None), t') \<and>
               volume_listed c
                 (volume_query c name
                    (if style = VolumeStyleFlexgroup then VolumeStyleFlexgroup else VolumeStyleFlexvol))
                 t3 payload t' \<and>
               VolumeResponse_NumRecords payload = Some 1 \<and>
               VolumeResponse_VolumeResponseInlineRecords payload = Some (Some v # rest)))
      \<and> (\<forall>accepted t2.
            srv_VolumeCreate (api c) t params = (Some accepted, None) \<and>
            PollJobStatus c (VolumeCreateAccepted_Payload accepted)
              (t @ [VolumeCreate_call params]) = Some (Ret None, t2)
            \<longrightarrow> createVolumeByStyle c name sizeInBytes aggrs spaceReserve snapshotPolicy
                    unixPermissions exportPolicy securityStyle tieringPolicy comment qosPolicyGroup
                    encrypt snapshotReserve style dpVolume t =
                (if style = VolumeStyleFlexgroup then waitForFlexgroup c name t2
                 else waitForVolume c name t2))
      \<and> (\<forall>accepted e t2.
            srv_VolumeCreate (api c) t params = (Some accepted, None) \<and>
            PollJobStatus c (VolumeCreateAccepted_Payload accepted)
              (t @ [VolumeCreate_call params]) = Some (Ret (Some e), t2)
            \<longrightarrow> createVolumeByStyle c name sizeInBytes aggrs spaceReserve snapshotPolicy
                    unixPermissions exportPolicy securityStyle tieringPolicy comment qosPolicyGroup
                    encrypt snapshotReserve style dpVolume t = Some (Ret (Some e), t2) \<and>
                polls_only (t @ [VolumeCreate_call params]) t2))))"
proof -
  let ?create = "createVolumeByStyle c name sizeInBytes aggrs spaceReserve snapshotPolicy
                  unixPermissions exportPolicy securityStyle tieringPolicy comment qosPolicyGroup
                  encrypt snapshotReserve style dpVolume"
  from createVolumeByStyle_request [of dpVolume unixPermissions c name sizeInBytes aggrs
      spaceReserve snapshotPolicy exportPolicy securityStyle tieringPolicy comment
      qosPolicyGroup encrypt snapshotReserve style]
  show ?thesis
  proof (rule disjE)
    assume early: "\<not> dpVolume \<and> unixPermissions \<noteq> '''' \<and>
      ParseInt (api c) (convertUnixPermissions unixPermissions) = None \<and>
      ?create = ret (Some (Errorf ''cannot process unix permissions value %v''
                   [convertUnixPermissions unixPermissions]))"
    then have eq: "?create = ret (Some (Errorf ''cannot process unix permissions value %v''
                   [convertUnixPermissions unixPermissions]))"
      by (elim conjE)
    have "\<forall>t. ?create t =
        Some (Ret (Some (Errorf ''cannot process unix permissions value %v''
                          [convertUnixPermissions unixPermissions])), t)"
      unfolding eq by (simp add: ret_def)
    with early show ?thesis by (intro disjI1 conjI) (elim conjE, assumption)+
  next
    assume "(dpVolume \<or> unixPermissions = '''' \<or>
        ParseInt (api c) (convertUnixPermissions unixPermissions) \<noteq> None) \<and>
      (\<exists>info. Volume_Name info = Some name \<and> Volume_Style info = Some style \<and>
         Volume_Size info = Some sizeInBytes \<and>
         ?create = create_then_poll_wait c name style \<lparr>Create_Info = Some info\<rparr>)"
    then obtain info where sent:
      "dpVolume \<or> unixPermissions = '''' \<or>
         ParseInt (api c) (convertUnixPermissions unixPermissions) \<noteq> None"
      "Volume_Name info = Some name" "Volume_Style info = Some style"
      "Volume_Size info = Some sizeInBytes"
      "?create = create_then_poll_wait c name style \<lparr>Create_Info = Some info\<rparr>"
      by (elim conjE exE)
    define params where "params = \<lparr>Create_Info = Some info\<rparr>"
    have sent': "?create = create_then_poll_wait c name style params"
      using sent(5) by (simp add: params_def)
    have nil: "(\<exists>accepted t1 t2 jp t3 payload v rest.
                 srv_VolumeCreate (api c) t params = (Some accepted, None) \<and>
                 PollJobStatus c (VolumeCreateAccepted_Payload accepted)
                   (t @ [VolumeCreate_call params]) = Some (Ret None, t2) \<and>
                 job_fetched c (VolumeCreateAccepted_Payload accepted) t1 jp t2 \<and>
                 Job_State jp = Some JobStateSuccess \<and>
                 reads_only t2 t3 \<and>
                 (if style = VolumeStyleFlexgroup then FlexGroupExists c name t3
                  else VolumeExists c name t3) = Some (Ret (True, None), t') \<and>
                 volume_listed c
                   (volume_query c name
                      (if style = VolumeStyleFlexgroup then VolumeStyleFlexgroup else VolumeStyleFlexvol))
                   t3 payload t' \<and>
                 VolumeResponse_NumRecords payload = Some 1 \<and>
                 VolumeResponse_VolumeResponseInlineRecords payload = Some (Some v # rest))"
      if "?create t = Some (Ret None, t')" for t t'
    proof -
      from that sent' have "create_then_poll_wait c name style params t = Some (Ret None, t')"
        by simp
      from create_then_poll_wait_nil [OF this] obtain accepted t2 where
        a: "srv_VolumeCreate (api c) t params = (Some accepted, None)" and
        p: "PollJobStatus c (VolumeCreateAccepted_Payload accepted)
              (t @ [VolumeCreate_call params]) = Some (Ret None, t2)" and
        w: "(if style = VolumeStyleFlexgroup then waitForFlexgroup c name t2
             else waitForVolume c name t2) = Some (Ret None, t')"
        by blast
      from p obtain t1 jp where
        j: "job_fetched c (VolumeCreateAccepted_Payload accepted) t1 jp t2"
           "Job_State jp = Some JobStateSuccess"
        unfolding PollJobStatus_nil_iff poll_ended_def job_fetched_def by blast
      from w obtain t3 where
        e: "reads_only t2 t3"
           "(if style = VolumeStyleFlexgroup then FlexGroupExists c name t3
             else VolumeExists c name t3) = Some (Ret (True, None), t')"
        by (cases "style = VolumeStyleFlexgroup")
           (auto dest: waitForFlexgroup_nil waitForVolume_nil)
      from e(2) have "checkVolumeExistsByNameAndStyle c name
          (if style = VolumeStyleFlexgroup then VolumeStyleFlexgroup else VolumeStyleFlexvol)
          t3 = Some (Ret (True, None), t')"
        by (simp add: FlexGroupExists_def VolumeExists_def split: if_splits)
      from checkVolumeExistsByNameAndStyle_listed [OF this] obtain payload v rest where
        l: "volume_listed c
              (volume_query c name
                 (if style = VolumeStyleFlexgroup then VolumeStyleFlexgroup
                  else VolumeStyleFlexvol))
              t3 payload t'"
           "VolumeResponse_NumRecords payload = Some 1"
           "VolumeResponse_VolumeResponseInlineRecords payload = Some (Some v # rest)"
        by blast
      from a p j e l show ?thesis by blast
    qed
    have sel: "?create t =
                (if style = VolumeStyleFlexgroup then waitForFlexgroup c name t2
                 else waitForVolume c name t2)"
      if "srv_VolumeCreate (api c) t params = (Some accepted, None) \<and>
            PollJobStatus c (VolumeCreateAccepted_Payload accepted)
              (t @ [VolumeCreate_call params]) = Some (Ret None, t2)" for t accepted t2
      using that sent' by (simp add: create_then_poll_wait_poll_nil)
    have err: "?create t = Some (Ret (Some e), t2) \<and>
                polls_only (t @ [VolumeCreate_call params]) t2"
      if "srv_VolumeCreate (api c) t params = (Some accepted, None) \<and>
            PollJobStatus c (VolumeCreateAccepted_Payload accepted)
              (t @ [VolumeCreate_call params]) = Some (Ret (Some e), t2)" for t accepted e t2
      using that sent'
      by (auto simp: create_then_poll_wait_poll_error dest: PollJobStatus_polls)
    have all: "\<forall>t.
      (\<forall>t'. ?create t = Some (Ret None, t')
         \<longrightarrow> (\<exists>accepted t1 t2 jp t3 payload v rest.
               srv_VolumeCreate (api c) t params = (Some accepted, None) \<and>
               PollJobStatus c (VolumeCreateAccepted_Payload accepted)
                 (t @ [VolumeCreate_call params]) = Some (Ret None, t2) \<and>
               job_fetched c (VolumeCreateAccepted_Payload accepted) t1 jp t2 \<and>
               Job_State jp = Some JobStateSuccess \<and>
               reads_only t2 t3 \<and>
               (if style = VolumeStyleFlexgroup then FlexGroupExists c name t3
                else VolumeExists c name t3) = Some (Ret (True, None), t') \<and>
               volume_listed c
                 (volume_query c name
                    (if style = VolumeStyleFlexgroup then VolumeStyleFlexgroup else VolumeStyleFlexvol))
                 t3 payload t' \<and>
               VolumeResponse_NumRecords payload = Some 1 \<and>
               VolumeResponse_VolumeResponseInlineRecords payload = Some (Some v # rest)))
      \<and> (\<forall>accepted t2.
            srv_VolumeCreate (api c) t params = (Some accepted, None) \<and>
            PollJobStatus c (VolumeCreateAccepted_Payload accepted)
              (t @ [VolumeCreate_call params]) = Some (Ret None, t2)
            \<longrightarrow> ?create t =
                (if style = VolumeStyleFlexgroup then waitForFlexgroup c name t2
                 else waitForVolume c name t2))
      \<and> (\<forall>accepted e t2.
            srv_VolumeCreate (api c) t params = (Some accepted, None) \<and>
            PollJobStatus c (VolumeCreateAccepted_Payload accepted)
              (t @ [VolumeCreate_call params]) = Some (Ret (Some e), t2)
            \<longrightarrow> ?create t = Some (Ret (Some e), t2) \<and>
                polls_only (t @ [VolumeCreate_call params]) t2)"
      using nil sel err by (intro allI conjI impI) blast+
    have info: "Create_Info params = Some info" by (simp add: params_def)
    show ?thesis
      apply (rule disjI2, rule conjI, rule sent(1))
      apply (rule exI [of _ params], rule exI [of _ info])
      apply (rule conjI, rule info)
      apply (rule conjI, rule sent(2))
      apply (rule conjI, rule sent(3))
      apply (rule conjI, rule sent(4))
      apply (rule all)
      done
  qed
qed

text \<open>The example runs: on the server where a volume exists once its create request has
  been sent, for a flexvol and for a flexgroup, and on the server without volumes, where
  the wait gives up after the three retries of the back-off policy.\<close>

lemmas creating_defs =
  creating_client_def creating_server_def example_server_def example_job_def job_state_at_def
  accepted_job_def job1_params_def

lemma creating_poll:
  assumes "filter is_JobGet t = []"
  shows "PollJobStatus (creating_client [''running'', ''success'']) (Some accepted_job) t =
     Some (Ret None, t @ [JobGet_call job1_params, JobGet_call job1_params,
       JobGet_call job1_params])"
proof -
  let ?c = "creating_client [''running'', ''success'']"
  let ?j = "JobGet_call job1_params"
  have ended: "poll_ended ?c (Some accepted_job) ''job-1'' t None (t @ [?j, ?j])"
    using assms
    by (simp add: poll_ended_def backoff_RetryNotify_def checkJobStatus_def eval_nat_numeral
      IsJobFinished_def bind_io_def ret_def JobGet_apply creating_defs JobStateSuccess_def
      JobStateFailure_def JobStatePaused_def JobStateRunning_def JobStateQueued_def)
  have fetch: "JobGet ?c ''job-1'' (t @ [?j, ?j]) =
      Some (Ret (Some \<lparr>JobGetOK_Payload = Some (example_job ''job-1'' (Some ''success''))\<rparr>, None),
        t @ [?j, ?j, ?j])"
    using assms by (simp add: JobGet_apply creating_defs)
  show ?thesis
    apply (rule PollJobStatus_nil_iff [THEN iffD2])
    apply (rule exI [of _ "''job-1''"])
    apply (rule exI [of _ "t @ [?j, ?j]"])
    apply (rule exI [of _ "\<lparr>JobGetOK_Payload = Some (example_job ''job-1'' (Some ''success''))\<rparr>"])
    apply (rule exI [of _ "example_job ''job-1'' (Some ''success'')"])
    apply (simp add: ended fetch)
    apply (simp add: example_job_def JobStateSuccess_def)
    done
qed

lemma creating_answer:
  assumes "style = ''flexvol'' \<or> style = ''flexgroup''"
  shows "srv_VolumeCollectionGet (api (creating_client states))
      [VolumeCreate_call (new_volume_request style), JobGet_call job1_params,
       JobGet_call job1_params, JobGet_call job1_params]
      (new_volume_query style) None =
     (page_ok None (Some 1) (Some [Some (new_volume style)]), None)"
  by (simp add: creating_client_def creating_server_def new_volume_request_def
      new_volume_query_def new_volume_def Volume_zero_def)

lemma creating_lookup:
  assumes "style = ''flexvol'' \<or> style = ''flexgroup''"
  shows "getVolumeByNameAndStyle (creating_client states) ''v1'' style
      [VolumeCreate_call (new_volume_request style), JobGet_call job1_params,
       JobGet_call job1_params, JobGet_call job1_params] =
     Some (Ret (Some (new_volume style), None), created_trace style)"
proof -
  have q: "\<lparr>CollectionGet_SvmUUID = Some (svmUUID (creating_client states)),
      CollectionGet_Name = Some ''v1'', CollectionGet_State = Some ''online'',
      CollectionGet_Style = Some style, CollectionGet_Fields = [''**'']\<rparr> =
      new_volume_query style"
    by (simp add: new_volume_query_def creating_client_def)
  from assms show ?thesis
    unfolding getVolumeByNameAndStyle_def getAllVolumesByPatternStyleAndState_def
    by (auto simp: Let_def validStates_def VolumeStyleFlexvol_def VolumeStyleFlexgroup_def
        VolumeStateOnline_def VolumeStateOffline_def VolumeStateMixed_def VolumeStateError_def
        q bind_io_def api_VolumeCollectionGet_apply creating_answer page_ok_def page_def
        getAllVolumePayloadRecords_def HasNextLink_typed ret_def elems_def created_trace_def)
qed

lemma creating_wait:
  assumes "style = ''flexvol'' \<or> style = ''flexgroup''"
  shows "(if style = VolumeStyleFlexgroup
      then waitForFlexgroup (creating_client states) ''v1''
        [VolumeCreate_call (new_volume_request style), JobGet_call job1_params,
         JobGet_call job1_params, JobGet_call job1_params]
      else waitForVolume (creating_client states) ''v1''
        [VolumeCreate_call (new_volume_request style), JobGet_call job1_params,
         JobGet_call job1_params, JobGet_call job1_params]) =
     Some (Ret None, created_trace style)"
proof -
  let ?t = "[VolumeCreate_call (new_volume_request style), JobGet_call job1_params,
       JobGet_call job1_params, JobGet_call job1_params]"
  have budget: "retries (api (creating_client states)) = (\<lambda>t. Suc (Suc (Suc 0)))"
    by (simp add: creating_client_def creating_server_def example_server_def eval_nat_numeral)
  have ex: "checkVolumeExistsByNameAndStyle (creating_client states) ''v1'' style ?t =
      Some (Ret (True, None), created_trace style)"
    unfolding checkVolumeExistsByNameAndStyle_def
    by (simp add: bind_io_Ret [of "getVolumeByNameAndStyle (creating_client states) ''v1'' style"
          ?t, OF creating_lookup [OF assms]] ret_def)
  from assms show ?thesis
  proof
    assume s: "style = ''flexvol''"
    with ex have "VolumeExists (creating_client states) ''v1'' ?t =
        Some (Ret (True, None), created_trace style)"
      by (simp add: VolumeExists_def VolumeStyleFlexvol_def)
    with s show ?thesis
      unfolding waitForVolume_def waitForVolume_checkStatus_def backoff_RetryNotify_def budget
      by (simp add: bind_io_def ret_def VolumeStyleFlexgroup_def)
  next
    assume s: "style = ''flexgroup''"
    with ex have "FlexGroupExists (creating_client states) ''v1'' ?t =
        Some (Ret (True, None), created_trace style)"
      by (simp add: FlexGroupExists_def VolumeStyleFlexgroup_def)
    with s show ?thesis
      unfolding waitForFlexgroup_def waitForFlexgroup_checkStatus_def backoff_RetryNotify_def
        budget
      by (simp add: bind_io_def ret_def VolumeStyleFlexgroup_def)
  qed
qed

lemma creating_request:
  "createVolumeByStyle (creating_client states) ''v1'' 1024 [''aggr1'']
      ''none'' ''none'' '''' ''default'' ''unix'' '''' ''a comment''
      \<lparr>QosPolicyGroup_Name = '''', QosPolicyGroup_Kind = InvalidQosPolicyGroupKind\<rparr>
      None (- 1) style False =
   create_then_poll_wait (creating_client states) ''v1'' style (new_volume_request style)"
  unfolding createVolumeByStyle_def createVolumeByStyle_send_def create_then_poll_wait_def
    new_volume_request_def new_volume_def
  by (simp add: Let_def ToSliceVolumeAggregatesItems_def go_append_def elems_def
      NumericalValueNotSet_def Volume_zero_def VolumeInlineNas_zero_def VolumeStateOnline_def
      creating_client_def)

lemma creating_create:
  assumes "style = ''flexvol'' \<or> style = ''flexgroup''"
  shows "createVolumeByStyle (creating_client [''running'', ''success'']) ''v1'' 1024 [''aggr1'']
      ''none'' ''none'' '''' ''default'' ''unix'' '''' ''a comment''
      \<lparr>QosPolicyGroup_Name = '''', QosPolicyGroup_Kind = InvalidQosPolicyGroupKind\<rparr>
      None (- 1) style False [] = Some (Ret None, created_trace style)"
proof -
  let ?c = "creating_client [''running'', ''success'']"
  have a: "srv_VolumeCreate (api ?c) [] (new_volume_request style) =
      (Some \<lparr>VolumeCreateAccepted_Payload = Some accepted_job\<rparr>, None)"
    by (simp add: creating_client_def creating_server_def example_server_def)
  have p: "PollJobStatus ?c
      (VolumeCreateAccepted_Payload \<lparr>VolumeCreateAccepted_Payload = Some accepted_job\<rparr>)
      ([] @ [VolumeCreate_call (new_volume_request style)]) =
      Some (Ret None, [VolumeCreate_call (new_volume_request style), JobGet_call job1_params,
        JobGet_call job1_params, JobGet_call job1_params])"
    by (simp add: creating_poll)
  show ?thesis
    unfolding creating_request create_then_poll_wait_poll_nil [OF a p]
    by (rule creating_wait [OF assms])
qed


lemma no_volume_poll:
  assumes "filter is_JobGet t = []"
  shows "PollJobStatus no_volume (Some accepted_job) t =
     Some (Ret None, t @ [JobGet_call job1_params, JobGet_call job1_params])"
proof -
  let ?j = "JobGet_call job1_params"
  have ended: "poll_ended no_volume (Some accepted_job) ''job-1'' t None (t @ [?j])"
    using assms
    by (simp add: poll_ended_def backoff_RetryNotify_def checkJobStatus_def eval_nat_numeral
      IsJobFinished_def bind_io_def ret_def JobGet_apply no_volume_def example_defs
      JobStateSuccess_def
      JobStateFailure_def JobStatePaused_def JobStateRunning_def JobStateQueued_def)
  have fetch: "JobGet no_volume ''job-1'' (t @ [?j]) =
      Some (Ret (Some \<lparr>JobGetOK_Payload = Some (example_job ''job-1'' (Some ''success''))\<rparr>, None),
        t @ [?j, ?j])"
    using assms by (simp add: JobGet_apply no_volume_def example_defs)
  show ?thesis
    apply (rule PollJobStatus_nil_iff [THEN iffD2])
    apply (rule exI [of _ "''job-1''"])
    apply (rule exI [of _ "t @ [?j]"])
    apply (rule exI [of _ "\<lparr>JobGetOK_Payload = Some (example_job ''job-1'' (Some ''success''))\<rparr>"])
    apply (rule exI [of _ "example_job ''job-1'' (Some ''success'')"])
    apply (simp add: ended fetch)
    apply (simp add: example_job_def JobStateSuccess_def)
    done
qed

lemma no_volume_wait:
  "waitForVolume no_volume ''v1'' t =
     Some (Ret (Some (Errorf ''volume '%v' does not exit, will continue checking'' [''v1''])),
       t @ replicate 4 (VolumeCollectionGet_call (flexvol_params ''v1'' (Some ''online'')) None))"
proof -
  have budget: "retries (api no_volume) = (\<lambda>t. Suc (Suc (Suc 0)))"
    by (simp add: no_volume_def example_client_def example_server_def eval_nat_numeral)
  have ex: "VolumeExists no_volume ''v1'' t =
      Some (Ret (False, None),
        t @ [VolumeCollectionGet_call (flexvol_params ''v1'' (Some ''online'')) None])" for t
    unfolding VolumeExists_def checkVolumeExistsByNameAndStyle_def VolumeStyleFlexvol_def
    by (simp add: bind_io_Ret [of "getVolumeByNameAndStyle no_volume ''v1'' ''flexvol''" t,
          OF no_volume_lookup] ret_def)
  show ?thesis
    unfolding waitForVolume_def waitForVolume_checkStatus_def backoff_RetryNotify_def budget
    by (simp add: bind_io_def ex ret_def eval_nat_numeral)
qed

lemma no_volume_request:
  "createVolumeByStyle no_volume ''v1'' 1024 [''aggr1'']
      ''none'' ''none'' '''' ''default'' ''unix'' '''' ''a comment''
      \<lparr>QosPolicyGroup_Name = '''', QosPolicyGroup_Kind = InvalidQosPolicyGroupKind\<rparr>
      None (- 1) style False =
   create_then_poll_wait no_volume ''v1'' style (new_volume_request style)"
  unfolding createVolumeByStyle_def createVolumeByStyle_send_def create_then_poll_wait_def
    new_volume_request_def new_volume_def
  by (simp add: Let_def ToSliceVolumeAggregatesItems_def go_append_def elems_def
      NumericalValueNotSet_def Volume_zero_def VolumeInlineNas_zero_def VolumeStateOnline_def
      no_volume_def example_client_def)

lemma no_volume_create:
  "createVolumeByStyle no_volume ''v1'' 1024 [''aggr1'']
      ''none'' ''none'' '''' ''default'' ''unix'' '''' ''a comment''
      \<lparr>QosPolicyGroup_Name = '''', QosPolicyGroup_Kind = InvalidQosPolicyGroupKind\<rparr>
      None (- 1) ''flexvol'' False [] =
   Some (Ret (Some (Errorf ''volume '%v' does not exit, will continue checking'' [''v1''])),
     [VolumeCreate_call (new_volume_request ''flexvol''), JobGet_call job1_params,
      JobGet_call job1_params] @
     replicate 4 (VolumeCollectionGet_call (flexvol_params ''v1'' (Some ''online'')) None))"
proof -
  have a: "srv_VolumeCreate (api no_volume) [] (new_volume_request ''flexvol'') =
      (Some \<lparr>VolumeCreateAccepted_Payload = Some accepted_job\<rparr>, None)"
    by (simp add: no_volume_def example_client_def example_server_def)
  have p: "PollJobStatus no_volume
      (VolumeCreateAccepted_Payload \<lparr>VolumeCreateAccepted_Payload = Some accepted_job\<rparr>)
      ([] @ [VolumeCreate_call (new_volume_request ''flexvol'')]) =
      Some (Ret None, [VolumeCreate_call (new_volume_request ''flexvol''), JobGet_call job1_params,
        JobGet_call job1_params])"
    by (simp add: no_volume_poll)
  show ?thesis
    unfolding no_volume_request create_then_poll_wait_poll_nil [OF a p]
    by (simp add: VolumeStyleFlexgroup_def no_volume_wait)
qed

theorem createVolumeByStyle_waits_after_job_witness:
  "createVolumeByStyle (creating_client [''running'', ''success'']) ''v1'' 1024
      [''aggr1''] ''none'' ''none'' '''' ''default'' ''unix'' '''' ''a comment''
      \<lparr>QosPolicyGroup_Name = '''', QosPolicyGroup_Kind = InvalidQosPolicyGroupKind\<rparr>
      None (- 1) ''flexvol'' False [] = Some (Ret None, created_trace ''flexvol'')
   \<and> (\<exists>t3 payload v rest.
        volume_listed (creating_client [''running'', ''success'']) (new_volume_query ''flexvol'') t3
          payload (created_trace ''flexvol'') \<and>
        VolumeResponse_NumRecords payload = Some 1 \<and>
        VolumeResponse_VolumeResponseInlineRecords payload = Some (Some v # rest))
   \<and> createVolumeByStyle (creating_client [''running'', ''success'']) ''v1'' 1024
      [''aggr1''] ''none'' ''none'' '''' ''default'' ''unix'' '''' ''a comment''
      \<lparr>QosPolicyGroup_Name = '''', QosPolicyGroup_Kind = InvalidQosPolicyGroupKind\<rparr>
      None (- 1) ''flexgroup'' False [] = Some (Ret None, created_trace ''flexgroup'')
   \<and> (\<exists>t3 payload v rest.
        volume_listed (creating_client [''running'', ''success'']) (new_volume_query ''flexgroup'') t3
          payload (created_trace ''flexgroup'') \<and>
        VolumeResponse_NumRecords payload = Some 1 \<and>
        VolumeResponse_VolumeResponseInlineRecords payload = Some (Some v # rest))
   \<and> srv_VolumeCollectionGet (api (creating_client [''running'', ''success''])) []
       (new_volume_query ''flexvol'') None = (page_ok None (Some 0) None, None)
   \<and> srv_VolumeCollectionGet (api (creating_client [''running'', ''success''])) []
       (new_volume_query ''flexgroup'') None = (page_ok None (Some 0) None, None)
   \<and> createVolumeByStyle no_volume ''v1'' 1024 [''aggr1'']
       ''none'' ''none'' '''' ''default'' ''unix'' '''' ''a comment''
       \<lparr>QosPolicyGroup_Name = '''', QosPolicyGroup_Kind = InvalidQosPolicyGroupKind\<rparr>
       None (- 1) ''flexvol'' False [] =
     Some (Ret (Some (Errorf ''volume '%v' does not exit, will continue checking'' [''v1''])),
       [VolumeCreate_call (new_volume_request ''flexvol''), JobGet_call job1_params,
        JobGet_call job1_params] @
       replicate 4 (VolumeCollectionGet_call (flexvol_params ''v1'' (Some ''online'')) None))"
proof -
  let ?c = "creating_client [''running'', ''success'']"
  have seen: "(\<exists>t3 payload v rest.
        volume_listed (creating_client [''running'', ''success'']) (new_volume_query style) t3
          payload (created_trace style) \<and>
        VolumeResponse_NumRecords payload = Some 1 \<and>
        VolumeResponse_VolumeResponseInlineRecords payload = Some (Some v # rest))"
    if style: "style = ''flexvol'' \<or> style = ''flexgroup''" for style
  proof -
    have q: "volume_query ?c ''v1''
        (if style = VolumeStyleFlexgroup then VolumeStyleFlexgroup else VolumeStyleFlexvol) =
        new_volume_query style"
      using style
      by (auto simp: volume_query_def new_volume_query_def creating_client_def
          VolumeStyleFlexgroup_def VolumeStyleFlexvol_def VolumeStateOnline_def)
    show ?thesis
      using createVolumeByStyle_waits_after_job [where c = ?c and name = "''v1''"
        and sizeInBytes = 1024 and aggrs = "[''aggr1'']" and spaceReserve = "''none''"
        and snapshotPolicy = "''none''" and unixPermissions = "''''"
        and exportPolicy = "''default''" and securityStyle = "''unix''"
        and tieringPolicy = "''''" and comment = "''a comment''"
        and qosPolicyGroup =
          "\<lparr>QosPolicyGroup_Name = '''', QosPolicyGroup_Kind = InvalidQosPolicyGroupKind\<rparr>"
        and encrypt = None and snapshotReserve = "- 1" and style = style
        and dpVolume = False]
      apply (rule disjE)
      subgoal by simp
      subgoal premises sent
        apply (insert sent [THEN conjunct2])
        apply (elim exE conjE)
        subgoal premises body for params info
          using body(5) [THEN spec [where x = "[]"], THEN conjunct1, rule_format,
            OF creating_create [OF style]]
          unfolding q by blast
        done
      done
  qed
  have none: "srv_VolumeCollectionGet (api ?c) [] (new_volume_query style) None =
      (page_ok None (Some 0) None, None)" for style
    by (simp add: creating_client_def creating_server_def)
  from creating_create [of "''flexvol''"] creating_create [of "''flexgroup''"]
    seen [of "''flexvol''"] seen [of "''flexgroup''"] none no_volume_create
  show ?thesis by simp
qed

section \<open>Properties of the lists of aggregates and of NVMe subsystems\<close>

lemma api_AggregateCollectionGet_apply:
  "api_AggregateCollectionGet c params next t =
     Some (Ret (srv_AggregateCollectionGet (api c) t params next),
       t @ [AggregateCollectionGet_call params next])"
  by (simp add: api_AggregateCollectionGet_def rest_call_def)

lemma api_NvmeSubsystemCollectionGet_apply:
  "api_NvmeSubsystemCollectionGet c params next t =
     Some (Ret (srv_NvmeSubsystemCollectionGet (api c) t params next),
       t @ [NvmeSubsystemCollectionGet_call params next])"
  by (simp add: api_NvmeSubsystemCollectionGet_def rest_call_def)

lemmas list_reflect_defs =
  HasNextLink_def HasNextLink_body_def value_behind_def ValueOf_def TypeOf_Kind_def
  Indirect_def FieldByName_def IsValid_def Interface_def Value_String_def val_Href_def
  iface_AggregateResponse_def val_AggregateResponse_def val_AggregateLinks_def
  iface_NvmeSubsystemResponse_def val_NvmeSubsystemResponse_def val_NvmeSubsystemLinks_def

lemma HasNextLink_AggregateResponse:
  "HasNextLink (iface_AggregateResponse payload) \<longleftrightarrow>
     (\<exists>p l h. payload = Some p \<and> AggregateResponse_Links p = Some l \<and>
        AggregateLinks_Next l = Some h)"
  by (cases payload; cases "AggregateResponse_Links (the payload)";
      cases "AggregateLinks_Next (the (AggregateResponse_Links (the payload)))")
     (auto simp: list_reflect_defs)

lemma HasNextLink_NvmeSubsystemResponse:
  "HasNextLink (iface_NvmeSubsystemResponse payload) \<longleftrightarrow>
     (\<exists>p l h. payload = Some p \<and> NvmeSubsystemResponse_Links p = Some l \<and>
        NvmeSubsystemLinks_Next l = Some h)"
  by (cases payload; cases "NvmeSubsystemResponse_Links (the payload)";
      cases "NvmeSubsystemLinks_Next (the (NvmeSubsystemResponse_Links (the payload)))")
     (auto simp: list_reflect_defs)

lemma NVMeSubsystemList_NextLoop_panics:
  assumes "api_NvmeSubsystemCollectionGet c params link t = Some (Ret (Some r, None), t')"
    and "NvmeSubsystemResponse_NumRecords payload = None \<or>
      NvmeSubsystemCollectionGetOK_Payload r = None \<or>
      (\<exists>p. NvmeSubsystemCollectionGetOK_Payload r = Some p \<and>
           NvmeSubsystemResponse_NumRecords p = None)"
  shows "NVMeSubsystemList_NextLoop c params link payload t = Some (Panic, t')"
  using assms
  by (subst NVMeSubsystemList_NextLoop.simps) (auto split: option.splits)

lemma NVMeSubsystemList_NextLoop_last:
  assumes "api_NvmeSubsystemCollectionGet c params link t = Some (Ret (Some r, None), t')"
    and "NvmeSubsystemCollectionGetOK_Payload r = Some p"
    and "NvmeSubsystemResponse_NumRecords p = Some n"
    and "NvmeSubsystemResponse_NumRecords payload = Some m"
    and "\<not> HasNextLink (iface_NvmeSubsystemResponse (Some p))"
  shows "NVMeSubsystemList_NextLoop c params link payload t =
     Some (Ret (Some (payload\<lparr>NvmeSubsystemResponse_NumRecords := Some (m + n),
         NvmeSubsystemResponse_NvmeSubsystemResponseInlineRecords :=
           go_append (NvmeSubsystemResponse_NvmeSubsystemResponseInlineRecords payload)
             (NvmeSubsystemResponse_NvmeSubsystemResponseInlineRecords p)\<rparr>), None), t')"
  using assms
  by (subst NVMeSubsystemList_NextLoop.simps) (simp add: Let_def)

lemma AggregateList_NextLoop_stops:
  assumes "api_AggregateCollectionGet c params link t = Some (Ret (r, None), t')"
    and "r = None \<or> (\<exists>ok. r = Some ok \<and>
      (AggregateCollectionGetOK_Payload ok = None \<or>
       (\<exists>p. AggregateCollectionGetOK_Payload ok = Some p \<and>
            AggregateResponse_NumRecords p = None)))"
  shows "AggregateList_NextLoop c params link payload t = Some (Ret (Some payload, None), t')"
  using assms
  by (subst AggregateList_NextLoop.simps) (auto split: option.splits)

text \<open>\<open>NVMeSubsystemList\<close> and \<open>AggregateList\<close> on a first page with a next link.\<close>

lemma NVMeSubsystemList_first:
  assumes "srv_NvmeSubsystemCollectionGet (api c) []
      \<lparr>NvmeSubsystemGet_SvmUUID = Some (svmUUID c), NvmeSubsystemGet_Name = Some ''*'',
       NvmeSubsystemGet_Fields = [''**'']\<rparr> None =
      (Some \<lparr>NvmeSubsystemCollectionGetOK_Payload = Some p\<rparr>, None)"
    and "NvmeSubsystemResponse_Links p = Some l" and "NvmeSubsystemLinks_Next l = Some h"
    and "NVMeSubsystemList_NextLoop c
      \<lparr>NvmeSubsystemGet_SvmUUID = Some (svmUUID c), NvmeSubsystemGet_Name = Some ''*'',
       NvmeSubsystemGet_Fields = [''**'']\<rparr> (Some h) p
      [NvmeSubsystemCollectionGet_call
        \<lparr>NvmeSubsystemGet_SvmUUID = Some (svmUUID c), NvmeSubsystemGet_Name = Some ''*'',
         NvmeSubsystemGet_Fields = [''**'']\<rparr> None] = Some (out, t')"
  shows "NVMeSubsystemList c '''' [] =
     Some (case out of
             Panic \<Rightarrow> Panic
           | Ret (payload, errNext) \<Rightarrow>
               if errNext \<noteq> None then Ret (None, errNext)
               else Ret (Some \<lparr>NvmeSubsystemCollectionGetOK_Payload = payload\<rparr>, None), t')"
  using assms
  by (cases out)
     (auto simp: NVMeSubsystemList_def Let_def bind_io_def api_NvmeSubsystemCollectionGet_apply
       HasNextLink_NvmeSubsystemResponse ret_def)

lemma AggregateList_first:
  assumes "srv_AggregateCollectionGet (api c) []
      \<lparr>AggregateGet_Name = Some pattern, AggregateGet_Fields = [''**'']\<rparr> None =
      (Some \<lparr>AggregateCollectionGetOK_Payload = Some p\<rparr>, None)"
    and "AggregateResponse_Links p = Some l" and "AggregateLinks_Next l = Some h"
    and "AggregateList_NextLoop c
      \<lparr>AggregateGet_Name = Some pattern, AggregateGet_Fields = [''**'']\<rparr> (Some h) p
      [AggregateCollectionGet_call
        \<lparr>AggregateGet_Name = Some pattern, AggregateGet_Fields = [''**'']\<rparr> None] =
      Some (out, t')"
  shows "AggregateList c pattern [] =
     Some (case out of
             Panic \<Rightarrow> Panic
           | Ret (payload, errNext) \<Rightarrow>
               if errNext \<noteq> None then Ret (None, errNext)
               else Ret (Some \<lparr>AggregateCollectionGetOK_Payload = payload\<rparr>, None), t')"
  using assms
  by (cases out)
     (auto simp: AggregateList_def Let_def bind_io_def api_AggregateCollectionGet_apply
       HasNextLink_AggregateResponse ret_def)

lemma subsystem_client_answer:
  "srv_NvmeSubsystemCollectionGet (api (subsystem_client first second)) t params next =
     (case next of
        None \<Rightarrow> (Some \<lparr>NvmeSubsystemCollectionGetOK_Payload = Some first\<rparr>, None)
      | Some h \<Rightarrow> (second, None))"
  by (simp add: subsystem_client_def example_server_def)

lemma aggregate_client_answer:
  "srv_AggregateCollectionGet (api (aggregate_client second)) t params next =
     (case next of
        None \<Rightarrow> (Some \<lparr>AggregateCollectionGetOK_Payload = Some aggregate_first\<rparr>, None)
      | Some h \<Rightarrow> (second, None))"
  by (simp add: aggregate_client_def example_server_def)

lemma subsystem_client_svmUUID: "svmUUID (subsystem_client first second) = ''svm-1''"
  by (simp add: subsystem_client_def)

lemma NVMeSubsystemList_example:
  assumes loop: "\<And>params t. NVMeSubsystemList_NextLoop (subsystem_client first (Some r)) params
      (link_to ''p2'') first t =
      Some (out, t @ [NvmeSubsystemCollectionGet_call params (link_to ''p2'')])"
    and first: "NvmeSubsystemResponse_Links first =
      Some \<lparr>NvmeSubsystemLinks_Next = link_to ''p2'', NvmeSubsystemLinks_Self = None\<rparr>"
  shows "NVMeSubsystemList (subsystem_client first (Some r)) '''' [] =
     Some (case out of
             Panic \<Rightarrow> Panic
           | Ret (payload, errNext) \<Rightarrow>
               if errNext \<noteq> None then Ret (None, errNext)
               else Ret (Some \<lparr>NvmeSubsystemCollectionGetOK_Payload = payload\<rparr>, None),
       [NvmeSubsystemCollectionGet_call all_subsystems None,
        NvmeSubsystemCollectionGet_call all_subsystems (link_to ''p2'')])"
proof -
  let ?c = "subsystem_client first (Some r)"
  let ?params = "\<lparr>NvmeSubsystemGet_SvmUUID = Some (svmUUID ?c),
    NvmeSubsystemGet_Name = Some ''*'', NvmeSubsystemGet_Fields = [''**'']\<rparr>"
  have params: "?params = all_subsystems"
    by (simp add: all_subsystems_def subsystem_client_svmUUID)
  have l: "NVMeSubsystemList_NextLoop ?c ?params (Some \<lparr>Href_Href = Some ''p2''\<rparr>) first
      [NvmeSubsystemCollectionGet_call ?params None] =
      Some (out, [NvmeSubsystemCollectionGet_call ?params None,
        NvmeSubsystemCollectionGet_call ?params (link_to ''p2'')])"
    using loop [of ?params "[NvmeSubsystemCollectionGet_call ?params None]"]
    by (simp add: link_to_def)
  show ?thesis
    using NVMeSubsystemList_first [of ?c first
        "\<lparr>NvmeSubsystemLinks_Next = link_to ''p2'', NvmeSubsystemLinks_Self = None\<rparr>"
        "\<lparr>Href_Href = Some ''p2''\<rparr>" out, OF _ first _ l]
    unfolding params by (simp add: subsystem_client_answer link_to_def)
qed

lemma AggregateList_example:
  assumes loop: "\<And>params t. AggregateList_NextLoop (aggregate_client second) params
      (link_to ''p2'') aggregate_first t =
      Some (out, t @ [AggregateCollectionGet_call params (link_to ''p2'')])"
  shows "AggregateList (aggregate_client second) ''*'' [] =
     Some (case out of
             Panic \<Rightarrow> Panic
           | Ret (payload, errNext) \<Rightarrow>
               if errNext \<noteq> None then Ret (None, errNext)
               else Ret (Some \<lparr>AggregateCollectionGetOK_Payload = payload\<rparr>, None),
       [AggregateCollectionGet_call all_aggregates None,
        AggregateCollectionGet_call all_aggregates (link_to ''p2'')])"
proof -
  let ?c = "aggregate_client second"
  have l: "AggregateList_NextLoop ?c all_aggregates (Some \<lparr>Href_Href = Some ''p2''\<rparr>)
      aggregate_first [AggregateCollectionGet_call all_aggregates None] =
      Some (out, [AggregateCollectionGet_call all_aggregates None,
        AggregateCollectionGet_call all_aggregates (link_to ''p2'')])"
    using loop [of all_aggregates "[AggregateCollectionGet_call all_aggregates None]"]
    by (simp add: link_to_def)
  show ?thesis
    using AggregateList_first [of ?c "''*''" aggregate_first
        "\<lparr>AggregateLinks_Next = link_to ''p2'', AggregateLinks_Self = None\<rparr>"
        "\<lparr>Href_Href = Some ''p2''\<rparr>" out, OF _ _ _ l [unfolded all_aggregates_def]]
    by (simp add: aggregate_client_answer link_to_def aggregate_first_def all_aggregates_def)
qed

text \<open>
  Claim C4. For every paginated list result the loop that follows the next links stops
  when a response arrives with a nil payload or a nil record count, and returns the pages
  merged so far. \<open>AggregateList\<close> does. \<open>NVMeSubsystemList\<close> does not: its loop tests only
  \<open>resultNext == nil\<close> before it adds \<open>*resultNext.Payload.NumRecords\<close> to
  \<open>*result.Payload.NumRecords\<close>, so it panics on a second response without a payload, on
  a second response whose payload has no record count, and on a first page without a
  record count. On two pages that both have a record count it merges them.
\<close>

theorem NVMeSubsystemList_panics_on_uncounted_page:
  "NVMeSubsystemList
      (subsystem_client (subsystem_page (link_to ''p2'') (Some 1) ''s1'')
         (Some \<lparr>NvmeSubsystemCollectionGetOK_Payload = None\<rparr>)) '''' [] =
     Some (Panic, [NvmeSubsystemCollectionGet_call all_subsystems None,
       NvmeSubsystemCollectionGet_call all_subsystems (link_to ''p2'')])
   \<and> NVMeSubsystemList
      (subsystem_client (subsystem_page (link_to ''p2'') (Some 1) ''s1'')
         (Some \<lparr>NvmeSubsystemCollectionGetOK_Payload =
            Some (subsystem_page None None ''s2'')\<rparr>)) '''' [] =
     Some (Panic, [NvmeSubsystemCollectionGet_call all_subsystems None,
       NvmeSubsystemCollectionGet_call all_subsystems (link_to ''p2'')])
   \<and> NVMeSubsystemList
      (subsystem_client (subsystem_page (link_to ''p2'') None ''s1'')
         (Some \<lparr>NvmeSubsystemCollectionGetOK_Payload =
            Some (subsystem_page None (Some 1) ''s2'')\<rparr>)) '''' [] =
     Some (Panic, [NvmeSubsystemCollectionGet_call all_subsystems None,
       NvmeSubsystemCollectionGet_call all_subsystems (link_to ''p2'')])
   \<and> NVMeSubsystemList
      (subsystem_client (subsystem_page (link_to ''p2'') (Some 1) ''s1'')
         (Some \<lparr>NvmeSubsystemCollectionGetOK_Payload =
            Some (subsystem_page None (Some 1) ''s2'')\<rparr>)) '''' [] =
     Some (Ret (Some \<lparr>NvmeSubsystemCollectionGetOK_Payload = Some
         \<lparr>NvmeSubsystemResponse_Links =
            Some \<lparr>NvmeSubsystemLinks_Next = link_to ''p2'', NvmeSubsystemLinks_Self = None\<rparr>,
          NvmeSubsystemResponse_NumRecords = Some 2,
          NvmeSubsystemResponse_NvmeSubsystemResponseInlineRecords =
            Some [Some \<lparr>NvmeSubsystem_Name = Some ''s1''\<rparr>,
                  Some \<lparr>NvmeSubsystem_Name = Some ''s2''\<rparr>]\<rparr>\<rparr>, None),
       [NvmeSubsystemCollectionGet_call all_subsystems None,
        NvmeSubsystemCollectionGet_call all_subsystems (link_to ''p2'')])
   \<and> AggregateList
      (aggregate_client (Some \<lparr>AggregateCollectionGetOK_Payload = None\<rparr>)) ''*'' [] =
     Some (Ret (Some \<lparr>AggregateCollectionGetOK_Payload = Some aggregate_first\<rparr>, None),
       [AggregateCollectionGet_call all_aggregates None,
        AggregateCollectionGet_call all_aggregates (link_to ''p2'')])
   \<and> AggregateList
      (aggregate_client (Some \<lparr>AggregateCollectionGetOK_Payload = Some
         \<lparr>AggregateResponse_Links = None, AggregateResponse_NumRecords = None,
          AggregateResponse_AggregateResponseInlineRecords =
            Some [Some \<lparr>Aggregate_Name = Some ''aggr2''\<rparr>]\<rparr>\<rparr>)) ''*'' [] =
     Some (Ret (Some \<lparr>AggregateCollectionGetOK_Payload = Some aggregate_first\<rparr>, None),
       [AggregateCollectionGet_call all_aggregates None,
        AggregateCollectionGet_call all_aggregates (link_to ''p2'')])"
proof (intro conjI)
  let ?first = "subsystem_page (link_to ''p2'') (Some 1) ''s1''"
  have links: "NvmeSubsystemResponse_Links (subsystem_page (link_to ''p2'') n name) =
      Some \<lparr>NvmeSubsystemLinks_Next = link_to ''p2'', NvmeSubsystemLinks_Self = None\<rparr>"
    for n name
    by (simp add: subsystem_page_def)
  have api: "api_NvmeSubsystemCollectionGet (subsystem_client first (Some r)) params
      (link_to ''p2'') t =
      Some (Ret (Some r, None), t @ [NvmeSubsystemCollectionGet_call params (link_to ''p2'')])"
    for first r params t
    by (simp add: api_NvmeSubsystemCollectionGet_apply subsystem_client_answer link_to_def)
  have aapi: "api_AggregateCollectionGet (aggregate_client second) params (link_to ''p2'') t =
      Some (Ret (second, None), t @ [AggregateCollectionGet_call params (link_to ''p2'')])"
    for second params t
    by (simp add: api_AggregateCollectionGet_apply aggregate_client_answer link_to_def)
  show "NVMeSubsystemList
      (subsystem_client ?first (Some \<lparr>NvmeSubsystemCollectionGetOK_Payload = None\<rparr>)) '''' [] =
     Some (Panic, [NvmeSubsystemCollectionGet_call all_subsystems None,
       NvmeSubsystemCollectionGet_call all_subsystems (link_to ''p2'')])"
    using NVMeSubsystemList_example [where out = Panic, OF
        NVMeSubsystemList_NextLoop_panics [OF api] links]
    by simp
  show "NVMeSubsystemList
      (subsystem_client ?first
         (Some \<lparr>NvmeSubsystemCollectionGetOK_Payload =
            Some (subsystem_page None None ''s2'')\<rparr>)) '''' [] =
     Some (Panic, [NvmeSubsystemCollectionGet_call all_subsystems None,
       NvmeSubsystemCollectionGet_call all_subsystems (link_to ''p2'')])"
    using NVMeSubsystemList_example [where out = Panic, OF
        NVMeSubsystemList_NextLoop_panics [OF api] links]
    by (simp add: subsystem_page_def)
  show "NVMeSubsystemList
      (subsystem_client (subsystem_page (link_to ''p2'') None ''s1'')
         (Some \<lparr>NvmeSubsystemCollectionGetOK_Payload =
            Some (subsystem_page None (Some 1) ''s2'')\<rparr>)) '''' [] =
     Some (Panic, [NvmeSubsystemCollectionGet_call all_subsystems None,
       NvmeSubsystemCollectionGet_call all_subsystems (link_to ''p2'')])"
    using NVMeSubsystemList_example [where out = Panic, OF
        NVMeSubsystemList_NextLoop_panics [OF api] links]
    by (simp add: subsystem_page_def)
  show "NVMeSubsystemList
      (subsystem_client ?first
         (Some \<lparr>NvmeSubsystemCollectionGetOK_Payload =
            Some (subsystem_page None (Some 1) ''s2'')\<rparr>)) '''' [] =
     Some (Ret (Some \<lparr>NvmeSubsystemCollectionGetOK_Payload = Some
         \<lparr>NvmeSubsystemResponse_Links =
            Some \<lparr>NvmeSubsystemLinks_Next = link_to ''p2'', NvmeSubsystemLinks_Self = None\<rparr>,
          NvmeSubsystemResponse_NumRecords = Some 2,
          NvmeSubsystemResponse_NvmeSubsystemResponseInlineRecords =
            Some [Some \<lparr>NvmeSubsystem_Name = Some ''s1''\<rparr>,
                  Some \<lparr>NvmeSubsystem_Name = Some ''s2''\<rparr>]\<rparr>\<rparr>, None),
       [NvmeSubsystemCollectionGet_call all_subsystems None,
        NvmeSubsystemCollectionGet_call all_subsystems (link_to ''p2'')])"
    using NVMeSubsystemList_example [OF
        NVMeSubsystemList_NextLoop_last [OF api,
          where p = "subsystem_page None (Some 1) ''s2''" and n = 1 and m = 1] links]
    by (simp add: subsystem_page_def HasNextLink_NvmeSubsystemResponse go_append_def elems_def)
  show "AggregateList
      (aggregate_client (Some \<lparr>AggregateCollectionGetOK_Payload = None\<rparr>)) ''*'' [] =
     Some (Ret (Some \<lparr>AggregateCollectionGetOK_Payload = Some aggregate_first\<rparr>, None),
       [AggregateCollectionGet_call all_aggregates None,
        AggregateCollectionGet_call all_aggregates (link_to ''p2'')])"
    using AggregateList_example [where out = "Ret (Some aggregate_first, None)", OF
        AggregateList_NextLoop_stops [OF aapi]]
    by simp
  show "AggregateList
      (aggregate_client (Some \<lparr>AggregateCollectionGetOK_Payload = Some
         \<lparr>AggregateResponse_Links = None, AggregateResponse_NumRecords = None,
          AggregateResponse_AggregateResponseInlineRecords =
            Some [Some \<lparr>Aggregate_Name = Some ''aggr2''\<rparr>]\<rparr>\<rparr>)) ''*'' [] =
     Some (Ret (Some \<lparr>AggregateCollectionGetOK_Payload = Some aggregate_first\<rparr>, None),
       [AggregateCollectionGet_call all_aggregates None,
        AggregateCollectionGet_call all_aggregates (link_to ''p2'')])"
    using AggregateList_example [where out = "Ret (Some aggregate_first, None)", OF
        AggregateList_NextLoop_stops [OF aapi]]
    by simp
qed

end
